theory Spec2Isabelle
  imports Complex_Main "HOL-Library.Multiset" "HOL-Library.List_Lexorder" "HOL-Library.Char_ord"
begin

section \<open>Python values\<close>

text \<open>
  A Python float is an IEEE double or NaN (the infinities are left out; NaN is kept because
  the code tests for it). \<open>Float r\<close> stands for the double nearest to the real \<open>r\<close>, as
  Python reads a literal: \<open>Float 0.5\<close> is the double 0.5, and \<open>Float 0.7\<close> is the double
  0.6999999999999999555910790149937, which is what Python's \<open>0.7\<close> is. The comparisons
  and \<open>int\<close> read a float through \<open>double\<close>, and the products that decide a
  comparison or an index (the thresholds of \<open>np.linspace\<close>, \<open>n * f\<close> in the splitter)
  are rounded where they are computed. The logarithm, the exponential and the sums that
  make up a mean are taken exact.
  A class label is an int, a bool or a string. Exceptions are values of \<open>error\<close>;
  \<open>External\<close> stands for an exception of a class that is not told apart here.
\<close>

datatype pyfloat = Float real | NaN

text \<open>
  Rounding a real to the nearest double, ties to even: the doubles around \<open>x\<close> are the
  multiples of \<open>quantum x\<close>, which is \<open>2 ^ (e - 52)\<close> for \<open>2 ^ e \<le> \<bar>x\<bar> < 2 ^ (e + 1)\<close>
  and \<open>2 ^ - 1074\<close> below \<open>2 ^ - 1022\<close>. At 0 the quantum does not matter: \<open>double 0 = 0\<close>.
  Overflow (from \<open>2 ^ 1024\<close> on) is left out.
\<close>

definition binade :: "real \<Rightarrow> int" where
  "binade x = \<lfloor>log 2 \<bar>x\<bar>\<rfloor>"

definition round_half_even :: "real \<Rightarrow> int" where
  "round_half_even y =
     (if y - of_int \<lfloor>y\<rfloor> < 1 / 2 then \<lfloor>y\<rfloor>
      else if 1 / 2 < y - of_int \<lfloor>y\<rfloor> then \<lfloor>y\<rfloor> + 1
      else if even \<lfloor>y\<rfloor> then \<lfloor>y\<rfloor> else \<lfloor>y\<rfloor> + 1)"

definition quantum :: "real \<Rightarrow> real" where
  "quantum x = 2 powr of_int (max (binade x) (- 1022) - 52)"

definition double :: "real \<Rightarrow> real" where
  "double x = quantum x * of_int (round_half_even (x / quantum x))"

datatype pylabel = PyInt int | PyBool bool | PyStr string

datatype error =
    ValueError string
  | KeyError "pylabel option"
  | IndexError
  | AttributeError
  | ZeroDivisionError
  | NotImplementedError
  | Exception string
  | External string

text \<open>Python's \<open>/\<close> on numbers: division by zero raises; the quotient is a float.\<close>

definition truediv :: "real \<Rightarrow> real \<Rightarrow> error + pyfloat" where
  "truediv numerator denominator =
     (if denominator = 0 then Inl ZeroDivisionError else Inr (Float (numerator / denominator)))"

section \<open>BinaryClassificationCounts\<close>

record BinaryClassificationCounts =
  zeroDenominatorMetricValue :: pyfloat
  tp :: nat
  tn :: nat
  fp :: nat
  fn :: nat

text \<open>The body of the loop of \<open>BinaryClassificationCounts.__init__\<close>.\<close>

definition count_pair :: "BinaryClassificationCounts \<Rightarrow> bool \<times> bool \<Rightarrow> BinaryClassificationCounts" where
  "count_pair c pg =
     (case pg of (predPositive, gtPositive) \<Rightarrow>
        if gtPositive then
          (if predPositive then c\<lparr>tp := tp c + 1\<rparr> else c\<lparr>fn := fn c + 1\<rparr>)
        else
          (if predPositive then c\<lparr>fp := fp c + 1\<rparr> else c\<lparr>tn := tn c + 1\<rparr>))"

definition BinaryClassificationCounts_init ::
  "bool list \<Rightarrow> bool list \<Rightarrow> pyfloat \<Rightarrow> BinaryClassificationCounts" where
  "BinaryClassificationCounts_init isPositivePrediction isPositiveGroundTruth z =
     foldl count_pair
       \<lparr>zeroDenominatorMetricValue = z, tp = 0, tn = 0, fp = 0, fn = 0\<rparr>
       (zip isPositivePrediction isPositiveGroundTruth)"

definition BinaryClassificationCounts_frac ::
  "BinaryClassificationCounts \<Rightarrow> real \<Rightarrow> real \<Rightarrow> error + pyfloat" where
  "BinaryClassificationCounts_frac c numerator denominator =
     (if denominator = 0 then Inr (zeroDenominatorMetricValue c)
      else truediv numerator denominator)"

definition getPrecision :: "BinaryClassificationCounts \<Rightarrow> error + pyfloat" where
  "getPrecision c = BinaryClassificationCounts_frac c (real (tp c)) (real (tp c + fp c))"

definition getRecall :: "BinaryClassificationCounts \<Rightarrow> error + pyfloat" where
  "getRecall c = BinaryClassificationCounts_frac c (real (tp c)) (real (tp c + fn c))"

definition getF1 :: "BinaryClassificationCounts \<Rightarrow> error + pyfloat" where
  "getF1 c =
     BinaryClassificationCounts_frac c (real (tp c)) (real (tp c) + 0.5 * real (fp c + fn c))"

section \<open>Labels and their equality\<close>

text \<open>
  Python compares labels with \<open>==\<close>, under which \<open>True == 1\<close> and \<open>False == 0\<close>;
  \<open>in\<close> on a list and membership in a \<open>set\<close> use the same equality.
\<close>

fun canonical :: "pylabel \<Rightarrow> pylabel" where
  "canonical (PyBool b) = PyInt (if b then 1 else 0)"
| "canonical (PyInt i) = PyInt i"
| "canonical (PyStr s) = PyStr s"

definition py_eq :: "pylabel \<Rightarrow> pylabel \<Rightarrow> bool" where
  "py_eq a b = (canonical a = canonical b)"

definition py_in :: "pylabel \<Rightarrow> pylabel list \<Rightarrow> bool" where
  "py_in x xs = list_ex (py_eq x) xs"

definition py_set :: "pylabel list \<Rightarrow> pylabel set" where
  "py_set xs = set (map canonical xs)"

definition BINARY_CLASSIFICATION_POSITIVE_LABEL_CANDIDATES :: "pylabel list" where
  "BINARY_CLASSIFICATION_POSITIVE_LABEL_CANDIDATES =
     [PyInt 1, PyBool True, PyStr ''1'', PyStr ''True'']"

text \<open>
  The argument \<open>binaryPositiveLabel\<close> of the constructor: the marker \<open>GUESS\<close> (its
  default), or a value that is \<open>None\<close> or a label.
\<close>

datatype positive_label_arg = GUESS | Given "pylabel option"

section \<open>Data frames of class probabilities\<close>

text \<open>
  A pandas data frame, by columns: the number of rows and, for every column, its label
  and its values. \<open>df[label]\<close> raises \<open>KeyError\<close> for a label that is no column, and
  \<open>.iloc[i]\<close> raises \<open>IndexError\<close> past the end. Unlike Python's \<open>==\<close>, the index of a
  frame tells a bool from an int: on the columns 0 and 1 the key \<open>True\<close> is no column,
  \<open>True in df.columns\<close> is false, and so is the key 1 on the columns \<open>False\<close> and \<open>True\<close>.
  This is how pandas treats an index of ints and an index of bools. An index that mixes
  the types compares with \<open>==\<close>, and for a label that several columns carry pandas
  answers \<open>df[label]\<close> with a frame and not with a column; the statements on columns
  below are about frames whose labels are distinct and of one type (\<open>simple_index\<close>).
\<close>

record DataFrame =
  nrows :: nat
  series :: "(pylabel \<times> pyfloat list) list"

definition columns :: "DataFrame \<Rightarrow> pylabel list" where
  "columns df = map fst (series df)"

fun same_type :: "pylabel \<Rightarrow> pylabel \<Rightarrow> bool" where
  "same_type (PyInt i) (PyInt j) = True"
| "same_type (PyBool a) (PyBool b) = True"
| "same_type (PyStr s) (PyStr t) = True"
| "same_type a b = False"

definition simple_index :: "pylabel list \<Rightarrow> bool" where
  "simple_index ls = (distinct ls \<and> list_all (\<lambda>a. list_all (same_type a) ls) ls)"


definition getitem :: "DataFrame \<Rightarrow> pylabel option \<Rightarrow> error + pyfloat list" where
  "getitem df key =
     (case key of
        None \<Rightarrow> Inl (KeyError None)
      | Some l \<Rightarrow>
          (case find (\<lambda>cv. fst cv = l) (series df) of
             None \<Rightarrow> Inl (KeyError (Some l))
           | Some cv \<Rightarrow> Inr (snd cv)))"

definition iloc :: "pyfloat list \<Rightarrow> nat \<Rightarrow> error + pyfloat" where
  "iloc values i = (if i < length values then Inr (values ! i) else Inl IndexError)"

section \<open>Metrics\<close>

datatype ClassificationMetric =
    ClassificationMetricAccuracy
  | ClassificationMetricBalancedAccuracy
  | ClassificationMetricGeometricMeanOfTrueClassProbability
  | ClassificationMetricTopNAccuracy int
  | ClassificationMetricAccuracyMaxProbabilityBeyondThreshold pyfloat pyfloat
  | ClassificationMetricRelFreqMaxProbabilityBeyondThreshold pyfloat
  | BinaryClassificationMetricPrecision pylabel
  | BinaryClassificationMetricRecall pylabel
  | BinaryClassificationMetricF1Score pylabel
  | BinaryClassificationMetricRecallForPrecision pyfloat pylabel

text \<open>The class attribute \<open>requiresProbabilities\<close>: \<open>False\<close> unless a class sets it.\<close>

fun requiresProbabilities :: "ClassificationMetric \<Rightarrow> bool" where
  "requiresProbabilities ClassificationMetricGeometricMeanOfTrueClassProbability = True"
| "requiresProbabilities (ClassificationMetricTopNAccuracy n) = True"
| "requiresProbabilities (ClassificationMetricAccuracyMaxProbabilityBeyondThreshold t z) = True"
| "requiresProbabilities (ClassificationMetricRelFreqMaxProbabilityBeyondThreshold t) = True"
| "requiresProbabilities m = False"

text \<open>
  What this development takes from outside: Python's formatting of a float in an
  f-string, the scikit-learn scores other than accuracy, and the values of
  \<open>ClassificationMetricTopNAccuracy\<close>,
  \<open>ClassificationMetricAccuracyMaxProbabilityBeyondThreshold\<close> and
  \<open>ClassificationMetricRelFreqMaxProbabilityBeyondThreshold\<close> on a frame of
  probabilities (no statement below is about them, and the \<open>RelativeFrequencyCounter\<close>
  they count with is not among the sources). An \<open>Inl\<close> is the exception raised there,
  which passes through the code unchanged.
\<close>

record externals =
  float_str :: "pyfloat \<Rightarrow> string"
  balanced_accuracy_score :: "pylabel list \<Rightarrow> pylabel list \<Rightarrow> error + pyfloat"
  precision_score :: "pylabel list \<Rightarrow> pylabel list \<Rightarrow> pylabel \<Rightarrow> error + pyfloat"
  recall_score :: "pylabel list \<Rightarrow> pylabel list \<Rightarrow> pylabel \<Rightarrow> error + pyfloat"
  f1_score :: "pylabel list \<Rightarrow> pylabel list \<Rightarrow> pylabel \<Rightarrow> error + pyfloat"
  unembedded_metric ::
    "ClassificationMetric \<Rightarrow> pylabel list \<Rightarrow> DataFrame \<Rightarrow> error + pyfloat"

fun str_nat :: "nat \<Rightarrow> string" where
  "str_nat n =
     (if n < 10 then [char_of (48 + n)] else str_nat (n div 10) @ [char_of (48 + n mod 10)])"

definition str_int :: "int \<Rightarrow> string" where
  "str_int i = (if i < 0 then CHR ''-'' # str_nat (nat (- i)) else str_nat (nat i))"

fun str_label :: "pylabel \<Rightarrow> string" where
  "str_label (PyInt i) = str_int i"
| "str_label (PyBool b) = (if b then ''True'' else ''False'')"
| "str_label (PyStr s) = s"

text \<open>\<open>BinaryClassificationMetric.__init__\<close>: the label is appended to the name unless it
  is one of the candidates.\<close>

definition binary_metric_name :: "pylabel \<Rightarrow> string \<Rightarrow> string" where
  "binary_metric_name positiveClassLabel name0 =
     (if \<not> py_in positiveClassLabel BINARY_CLASSIFICATION_POSITIVE_LABEL_CANDIDATES
      then name0 @ ''['' @ str_label positiveClassLabel @ '']''
      else name0)"

fun name :: "externals \<Rightarrow> ClassificationMetric \<Rightarrow> string" where
  "name ext ClassificationMetricAccuracy = ''accuracy''"
| "name ext ClassificationMetricBalancedAccuracy = ''balancedAccuracy''"
| "name ext ClassificationMetricGeometricMeanOfTrueClassProbability = ''geoMeanTrueClassProb''"
| "name ext (ClassificationMetricTopNAccuracy n) = ''top'' @ str_int n @ ''Accuracy''"
| "name ext (ClassificationMetricAccuracyMaxProbabilityBeyondThreshold t z) =
     ''accuracy[p_max >= '' @ float_str ext t @ '']''"
| "name ext (ClassificationMetricRelFreqMaxProbabilityBeyondThreshold t) =
     ''relFreq[p_max >= '' @ float_str ext t @ '']''"
| "name ext (BinaryClassificationMetricPrecision l) = binary_metric_name l ''precision''"
| "name ext (BinaryClassificationMetricRecall l) = binary_metric_name l ''recall''"
| "name ext (BinaryClassificationMetricF1Score l) = binary_metric_name l ''F1''"
| "name ext (BinaryClassificationMetricRecallForPrecision p l) =
     binary_metric_name l (''recallForPrecision['' @ float_str ext p @ '']'')"

section \<open>ClassificationEvalStats\<close>

record ClassificationEvalStats =
  y_true :: "pylabel list"
  y_predicted :: "pylabel list"
  metrics :: "ClassificationMetric list"
  labels :: "pylabel list"
  y_predictedClassProbabilities :: "DataFrame option"
  probabilitiesAvailable :: bool
  binaryPositiveLabel :: "pylabel option"
  isBinary :: bool

text \<open>
  Modelled from the spec: the base class \<open>PredictionEvalStats\<close> is defined in
  \<open>eval_stats_base.py\<close>, which is not among the sources, and the spec does not describe
  it. Its constructor is taken to store the two label arrays and the metrics followed by
  the additional metrics, which is how \<open>eval_stats_classification.py\<close> reads them back
  (\<open>evalStats.y_true\<close>, \<open>es0.metrics\<close>, \<open>self.metrics\<close>); its \<open>computeMetricValue\<close> is taken to call the
  metric's \<open>computeValueForEvalStats\<close>.
\<close>

definition PredictionEvalStats_init ::
  "pylabel list \<Rightarrow> pylabel list \<Rightarrow> ClassificationMetric list \<Rightarrow>
   ClassificationMetric list option \<Rightarrow>
   pylabel list \<times> pylabel list \<times> ClassificationMetric list" where
  "PredictionEvalStats_init y_pred y_tr ms additionalMetrics =
     (y_pred, y_tr, (case additionalMetrics of None \<Rightarrow> ms | Some ams \<Rightarrow> ms @ ams))"

text \<open>The search for the positive label under \<open>GUESS\<close>.\<close>

definition guess_positive_label :: "pylabel list \<Rightarrow> pylabel option" where
  "guess_positive_label ls =
     (if length ls = 2
      then find (\<lambda>c. py_in c ls) BINARY_CLASSIFICATION_POSITIVE_LABEL_CANDIDATES
      else None)"

definition default_metrics :: "pylabel option \<Rightarrow> ClassificationMetric list" where
  "default_metrics positive =
     [ClassificationMetricAccuracy, ClassificationMetricBalancedAccuracy,
      ClassificationMetricGeometricMeanOfTrueClassProbability]
     @ (case positive of
          None \<Rightarrow> []
        | Some l \<Rightarrow>
            [BinaryClassificationMetricPrecision l, BinaryClassificationMetricRecall l,
             BinaryClassificationMetricF1Score l])"

definition ClassificationEvalStats_init ::
  "pylabel list \<Rightarrow> pylabel list \<Rightarrow> DataFrame option \<Rightarrow> pylabel list \<Rightarrow>
   ClassificationMetric list option \<Rightarrow> ClassificationMetric list option \<Rightarrow>
   positive_label_arg \<Rightarrow> error + ClassificationEvalStats" where
  "ClassificationEvalStats_init y_pred y_tr probs ls ms additionalMetrics positive_arg =
     (let available = (probs \<noteq> None) in
      if (case probs of None \<Rightarrow> False | Some df \<Rightarrow> py_set (columns df) \<noteq> py_set ls)
      then Inl (ValueError ''Columns in class probabilities data frame do not correspond to labels'')
      else if (case probs of None \<Rightarrow> False | Some df \<Rightarrow> nrows df \<noteq> length y_tr)
      then Inl (ValueError ''Row count in class probabilities data frame does not match ground truth'')
      else
        let positive = (case positive_arg of GUESS \<Rightarrow> guess_positive_label ls | Given l \<Rightarrow> l);
            binary = (positive \<noteq> None);
            ms' = (case ms of None \<Rightarrow> default_metrics positive | Some given \<Rightarrow> given)
        in
          if (case additionalMetrics of
                None \<Rightarrow> False
              | Some ams \<Rightarrow> list_ex (\<lambda>m. \<not> available \<and> requiresProbabilities m) ams)
          then Inl (ValueError ''Additional metric not supported, as class probabilities were not provided'')
          else
            (case PredictionEvalStats_init y_pred y_tr ms' additionalMetrics of
               (yp, yt, all_metrics) \<Rightarrow>
                 Inr \<lparr>y_true = yt, y_predicted = yp, metrics = all_metrics, labels = ls,
                      y_predictedClassProbabilities = probs, probabilitiesAvailable = available,
                      binaryPositiveLabel = positive, isBinary = binary\<rparr>))"

section \<open>Float operations\<close>

text \<open>
  The comparisons \<open>>=\<close> and \<open><\<close> compare the doubles; with NaN they are false. numpy's
  elementwise functions pass NaN on.
\<close>

fun float_ge :: "pyfloat \<Rightarrow> pyfloat \<Rightarrow> bool" where
  "float_ge (Float a) (Float b) = (double b \<le> double a)"
| "float_ge a b = False"

fun float_lt :: "pyfloat \<Rightarrow> pyfloat \<Rightarrow> bool" where
  "float_lt (Float a) (Float b) = (double a < double b)"
| "float_lt a b = False"

fun isnan :: "pyfloat \<Rightarrow> bool" where
  "isnan NaN = True"
| "isnan (Float a) = False"

fun np_maximum :: "pyfloat \<Rightarrow> pyfloat \<Rightarrow> pyfloat" where
  "np_maximum (Float a) (Float b) = Float (max a b)"
| "np_maximum a b = NaN"

text \<open>
  \<open>np.log\<close>: numpy gives minus infinity at 0 and NaN below 0; neither is reached from
  the code below, which applies the logarithm to values floored at 1e-3.
\<close>

fun np_log :: "pyfloat \<Rightarrow> pyfloat" where
  "np_log (Float a) = (if 0 < a then Float (ln a) else NaN)"
| "np_log NaN = NaN"

fun np_exp :: "pyfloat \<Rightarrow> pyfloat" where
  "np_exp (Float a) = Float (exp a)"
| "np_exp NaN = NaN"

fun float_add :: "pyfloat \<Rightarrow> pyfloat \<Rightarrow> pyfloat" where
  "float_add (Float a) (Float b) = Float (a + b)"
| "float_add a b = NaN"

definition np_sum :: "pyfloat list \<Rightarrow> pyfloat" where
  "np_sum xs = foldl float_add (Float 0) xs"

text \<open>
  A numpy float divided by a Python int: no exception on a zero divisor, 0/0 is NaN
  (a nonzero numerator over 0 would be infinite; the callers divide a sum by the length
  of what was summed, and the sum of nothing is 0).
\<close>

fun np_divide :: "pyfloat \<Rightarrow> nat \<Rightarrow> pyfloat" where
  "np_divide (Float a) n = (if n = 0 then NaN else Float (a / real n))"
| "np_divide NaN n = NaN"

text \<open>
  \<open>np.linspace(start, stop, num)\<close> for \<open>num > 1\<close>, as numpy computes it in doubles:
  \<open>step = (stop - start) / (num - 1)\<close>, then \<open>y = arange(0, num) * step + start\<close>, and the
  last entry is set to \<open>stop\<close>. Every operation rounds, so the entries are close to
  \<open>start + i * (stop - start) / (num - 1)\<close> and need not be the doubles nearest to it.
\<close>

definition np_linspace :: "real \<Rightarrow> real \<Rightarrow> nat \<Rightarrow> pyfloat list" where
  "np_linspace start stop num =
     (let step = double (double (double stop - double start) / real (num - 1)) in
      map (\<lambda>i. if Suc i = num then Float (double stop)
               else Float (double (double (real i * step) + double start)))
        [0..<num])"

text \<open>A loop that collects results and stops at the first exception.\<close>

primrec map_result :: "('a \<Rightarrow> error + 'b) \<Rightarrow> 'a list \<Rightarrow> error + 'b list" where
  "map_result f [] = Inr []"
| "map_result f (x # xs) =
     (case f x of
        Inl e \<Rightarrow> Inl e
      | Inr y \<Rightarrow> (case map_result f xs of Inl e \<Rightarrow> Inl e | Inr ys \<Rightarrow> Inr (y # ys)))"

section \<open>The probability threshold sweep\<close>

definition fromProbabilityThreshold ::
  "pyfloat list \<Rightarrow> pyfloat \<Rightarrow> bool list \<Rightarrow> BinaryClassificationCounts" where
  "fromProbabilityThreshold probabilities threshold isPositiveGroundTruth =
     BinaryClassificationCounts_init (map (\<lambda>p. float_ge p threshold) probabilities)
       isPositiveGroundTruth (Float 0)"

definition label_is :: "pylabel option \<Rightarrow> pylabel \<Rightarrow> bool" where
  "label_is posClassLabel gtLabel =
     (case posClassLabel of None \<Rightarrow> False | Some l \<Rightarrow> py_eq gtLabel l)"

definition fromEvalStats ::
  "ClassificationEvalStats \<Rightarrow> pyfloat \<Rightarrow> error + BinaryClassificationCounts" where
  "fromEvalStats evalStats threshold =
     (if \<not> isBinary evalStats
      then Inl (ValueError ''Probability threshold variation data can only be computed for binary classification problems'')
      else
        (case y_predictedClassProbabilities evalStats of
           None \<Rightarrow> Inl (ValueError ''No probability data'')
         | Some df \<Rightarrow>
             (case getitem df (binaryPositiveLabel evalStats) of
                Inl e \<Rightarrow> Inl e
              | Inr probs \<Rightarrow>
                  Inr (fromProbabilityThreshold probs threshold
                         (map (label_is (binaryPositiveLabel evalStats)) (y_true evalStats))))))"

record BinaryClassificationProbabilityThresholdVariationData =
  thresholds :: "pyfloat list"
  counts :: "BinaryClassificationCounts list"

definition BinaryClassificationProbabilityThresholdVariationData_init ::
  "ClassificationEvalStats \<Rightarrow> error + BinaryClassificationProbabilityThresholdVariationData" where
  "BinaryClassificationProbabilityThresholdVariationData_init evalStats =
     (let ts = np_linspace 0 1 101 in
      case map_result (fromEvalStats evalStats) ts of
        Inl e \<Rightarrow> Inl e
      | Inr cs \<Rightarrow> Inr \<lparr>thresholds = ts, counts = cs\<rparr>)"

text \<open>
  \<open>getBinaryClassificationProbabilityThresholdVariationData\<close> keeps the object it built
  in a transient member; the object it returns is the one the constructor builds.
\<close>

definition getBinaryClassificationProbabilityThresholdVariationData ::
  "ClassificationEvalStats \<Rightarrow> error + BinaryClassificationProbabilityThresholdVariationData" where
  "getBinaryClassificationProbabilityThresholdVariationData evalStats =
     BinaryClassificationProbabilityThresholdVariationData_init evalStats"

section \<open>Computing metric values\<close>

text \<open>The body of the loop of \<open>BinaryClassificationMetricRecallForPrecision\<close>.\<close>

definition recall_step ::
  "pyfloat \<Rightarrow> error + pyfloat \<Rightarrow> BinaryClassificationCounts \<Rightarrow> error + pyfloat" where
  "recall_step minPrecision acc c =
     (case acc of
        Inl e \<Rightarrow> Inl e
      | Inr result \<Rightarrow>
          (case getPrecision c of
             Inl e \<Rightarrow> Inl e
           | Inr precision \<Rightarrow>
               if float_ge precision minPrecision then
                 (case getRecall c of
                    Inl e \<Rightarrow> Inl e
                  | Inr recall \<Rightarrow>
                      if isnan result \<or> float_lt result recall then Inr recall else Inr result)
               else Inr result))"

definition RecallForPrecision_computeValueForEvalStats ::
  "pyfloat \<Rightarrow> ClassificationEvalStats \<Rightarrow> error + pyfloat" where
  "RecallForPrecision_computeValueForEvalStats minPrecision evalStats =
     (case getBinaryClassificationProbabilityThresholdVariationData evalStats of
        Inl e \<Rightarrow> Inl e
      | Inr varData \<Rightarrow> foldl (recall_step minPrecision) (Inr NaN) (counts varData))"

text \<open>
  scikit-learn's \<open>accuracy_score\<close>, from its documentation: the fraction of positions
  where the two arrays agree; arrays of different lengths are refused with a
  \<open>ValueError\<close>, and the mean over no sample is NaN.
\<close>

definition accuracy_score :: "pylabel list \<Rightarrow> pylabel list \<Rightarrow> error + pyfloat" where
  "accuracy_score yt yp =
     (if length yt \<noteq> length yp
      then Inl (ValueError ''Found input variables with inconsistent numbers of samples'')
      else Inr (np_divide (Float (real (length (filter (\<lambda>ab. py_eq (fst ab) (snd ab)) (zip yt yp))))) (length yt)))"

text \<open>The loop of \<open>ClassificationMetricGeometricMeanOfTrueClassProbability\<close>.\<close>

definition true_class_probability :: "DataFrame \<Rightarrow> nat \<times> pylabel \<Rightarrow> error + pyfloat" where
  "true_class_probability df it =
     (case it of (i, trueClass) \<Rightarrow>
        if trueClass \<notin> set (columns df) then Inr (Float 0)
        else (case getitem df (Some trueClass) of
                Inl e \<Rightarrow> Inl e
              | Inr values \<Rightarrow> iloc values i))"

definition geoMeanTrueClassProb :: "pylabel list \<Rightarrow> DataFrame \<Rightarrow> error + pyfloat" where
  "geoMeanTrueClassProb yt df =
     (case map_result (true_class_probability df) (enumerate 0 yt) of
        Inl e \<Rightarrow> Inl e
      | Inr y_predicted_proba_true_class \<Rightarrow>
          (let lp = map (\<lambda>p. np_log (np_maximum (Float 0.001) p)) y_predicted_proba_true_class
           in Inr (np_exp (np_divide (np_sum lp) (length lp)))))"

fun private_computeValue ::
  "externals \<Rightarrow> ClassificationMetric \<Rightarrow> pylabel list \<Rightarrow> pylabel list \<Rightarrow> DataFrame option \<Rightarrow>
   error + pyfloat" where
  "private_computeValue ext ClassificationMetricAccuracy yt yp probs =
     accuracy_score yt yp"
| "private_computeValue ext ClassificationMetricBalancedAccuracy yt yp probs =
     balanced_accuracy_score ext yt yp"
| "private_computeValue ext ClassificationMetricGeometricMeanOfTrueClassProbability yt yp probs =
     (case probs of
        None \<Rightarrow> (if yt = [] then Inr NaN else Inl AttributeError)
      | Some df \<Rightarrow> geoMeanTrueClassProb yt df)"
| "private_computeValue ext (BinaryClassificationMetricPrecision l) yt yp probs =
     precision_score ext yt yp l"
| "private_computeValue ext (BinaryClassificationMetricRecall l) yt yp probs =
     recall_score ext yt yp l"
| "private_computeValue ext (BinaryClassificationMetricF1Score l) yt yp probs =
     f1_score ext yt yp l"
| "private_computeValue ext (BinaryClassificationMetricRecallForPrecision p l) yt yp probs =
     Inl NotImplementedError"
| "private_computeValue ext m yt yp probs =
     (case probs of
        None \<Rightarrow> Inl AttributeError
      | Some df \<Rightarrow> unembedded_metric ext m yt df)"

definition computeValue ::
  "externals \<Rightarrow> ClassificationMetric \<Rightarrow> pylabel list \<Rightarrow> pylabel list \<Rightarrow> DataFrame option \<Rightarrow>
   error + pyfloat" where
  "computeValue ext m yt yp probs =
     (if requiresProbabilities m \<and> probs = None
      then Inl (ValueError ''requires class probabilities'')
      else private_computeValue ext m yt yp probs)"

fun computeValueForEvalStats ::
  "externals \<Rightarrow> ClassificationMetric \<Rightarrow> ClassificationEvalStats \<Rightarrow> error + pyfloat" where
  "computeValueForEvalStats ext (BinaryClassificationMetricRecallForPrecision p l) evalStats =
     RecallForPrecision_computeValueForEvalStats p evalStats"
| "computeValueForEvalStats ext m evalStats =
     computeValue ext m (y_true evalStats) (y_predicted evalStats)
       (y_predictedClassProbabilities evalStats)"

definition computeMetricValue ::
  "externals \<Rightarrow> ClassificationEvalStats \<Rightarrow> ClassificationMetric \<Rightarrow> error + pyfloat" where
  "computeMetricValue ext evalStats m = computeValueForEvalStats ext m evalStats"

fun metricsDict_loop ::
  "externals \<Rightarrow> ClassificationEvalStats \<Rightarrow> ClassificationMetric list \<Rightarrow>
   (string \<rightharpoonup> pyfloat) \<Rightarrow> error + (string \<rightharpoonup> pyfloat)" where
  "metricsDict_loop ext evalStats [] d = Inr d"
| "metricsDict_loop ext evalStats (metric # rest) d =
     (if \<not> requiresProbabilities metric \<or> probabilitiesAvailable evalStats then
        (case computeMetricValue ext evalStats metric of
           Inl e \<Rightarrow> Inl e
         | Inr v \<Rightarrow> metricsDict_loop ext evalStats rest (d(name ext metric \<mapsto> v)))
      else metricsDict_loop ext evalStats rest d)"

definition metricsDict ::
  "externals \<Rightarrow> ClassificationEvalStats \<Rightarrow> error + (string \<rightharpoonup> pyfloat)" where
  "metricsDict ext evalStats = metricsDict_loop ext evalStats (metrics evalStats) Map.empty"

text \<open>An instance of the externals in which nothing outside is available.\<close>

definition unavailable :: externals where
  "unavailable =
     \<lparr>float_str = (\<lambda>x. ''?''),
      balanced_accuracy_score = (\<lambda>yt yp. Inl (External ''unavailable'')),
      precision_score = (\<lambda>yt yp l. Inl (External ''unavailable'')),
      recall_score = (\<lambda>yt yp l. Inl (External ''unavailable'')),
      f1_score = (\<lambda>yt yp l. Inl (External ''unavailable'')),
      unembedded_metric = (\<lambda>m yt df. Inl (External ''unavailable''))\<rparr>"

text \<open>Objects used as examples below.\<close>

definition example_frame :: DataFrame where
  "example_frame =
     \<lparr>nrows = 3,
      series = [(PyInt 0, [Float 0.8, Float 0.3, Float 0.5]),
                (PyInt 1, [Float 0.2, Float 0.7, Float 0.5])]\<rparr>"

definition example_stats :: ClassificationEvalStats where
  "example_stats =
     \<lparr>y_true = [PyInt 0, PyInt 1, PyInt 1], y_predicted = [PyInt 0, PyInt 1, PyInt 0],
      metrics = default_metrics (Some (PyInt 1)), labels = [PyInt 0, PyInt 1],
      y_predictedClassProbabilities = Some example_frame, probabilitiesAvailable = True,
      binaryPositiveLabel = Some (PyInt 1), isBinary = True\<rparr>"

definition mislabelled_stats :: ClassificationEvalStats where
  "mislabelled_stats =
     \<lparr>y_true = [PyInt 0, PyInt 1, PyInt 1], y_predicted = [PyInt 0, PyInt 1, PyInt 0],
      metrics = default_metrics (Some (PyStr ''yes'')), labels = [PyInt 0, PyInt 1],
      y_predictedClassProbabilities = Some example_frame, probabilitiesAvailable = True,
      binaryPositiveLabel = Some (PyStr ''yes''), isBinary = True\<rparr>"

text \<open>
  Following what numpy computes for \<open>np.linspace(0, 1, 101)\<close>: the threshold at position
  \<open>k\<close> is the product of \<open>k\<close> and the double 0.01, rounded, and the last one is 1.
\<close>

definition sweep_threshold :: "nat \<Rightarrow> real" where
  "sweep_threshold k = (if k = 100 then 1 else double (real k * double (1 / 100)))"

text \<open>
  An evaluation without probabilities whose additional metric is
  \<open>BinaryClassificationMetricRecallForPrecision\<close>.
\<close>

definition recall_stats :: ClassificationEvalStats where
  "recall_stats =
     \<lparr>y_true = [PyInt 1], y_predicted = [PyInt 1],
      metrics = [ClassificationMetricAccuracy,
                 BinaryClassificationMetricRecallForPrecision (Float 0.5) (PyInt 1)],
      labels = [PyInt 0, PyInt 1],
      y_predictedClassProbabilities = None, probabilitiesAvailable = False,
      binaryPositiveLabel = Some (PyInt 1), isBinary = True\<rparr>"

text \<open>
  Following the words of the statement on \<open>BinaryClassificationMetricRecallForPrecision\<close>:
  precision and recall of an entry of the sweep (0 on a zero denominator), and the
  maximum recall, as a double, over the entries whose precision is at least \<open>p\<close>, NaN
  when there is none. \<open>as_double\<close> is the double a float stands for.
\<close>

definition precision_value :: "BinaryClassificationCounts \<Rightarrow> real" where
  "precision_value c = (if tp c + fp c = 0 then 0 else real (tp c) / real (tp c + fp c))"

definition recall_value :: "BinaryClassificationCounts \<Rightarrow> real" where
  "recall_value c = (if tp c + fn c = 0 then 0 else real (tp c) / real (tp c + fn c))"

definition max_recall_for_precision :: "pyfloat \<Rightarrow> BinaryClassificationCounts list \<Rightarrow> pyfloat" where
  "max_recall_for_precision p cs =
     (let rs = map (\<lambda>c. double (recall_value c))
                 (filter (\<lambda>c. float_ge (Float (precision_value c)) p) cs)
      in if rs = [] then NaN else Float (Max (set rs)))"

fun as_double :: "pyfloat \<Rightarrow> pyfloat" where
  "as_double (Float r) = Float (double r)"
| "as_double NaN = NaN"






section \<open>Splitting data\<close>

text \<open>
  \<open>InputOutputArrays\<close>: two arrays of the same length. \<open>filterIndices\<close> selects by a list
  of positions, as numpy's \<open>array[indices]\<close> does, which raises \<open>IndexError\<close> for a
  position past the end.
\<close>

record ('a, 'b) InputOutputArrays =
  inputs :: "'a list"
  outputs :: "'b list"

definition InputOutputArrays_init ::
  "'a list \<Rightarrow> 'b list \<Rightarrow> error + ('a, 'b) InputOutputArrays" where
  "InputOutputArrays_init ins outs =
     (if length ins \<noteq> length outs
      then Inl (ValueError ''First dimension of inputs array is not the same as first dimension of outputs array'')
      else Inr \<lparr>inputs = ins, outputs = outs\<rparr>)"

definition take_positions :: "'a list \<Rightarrow> nat list \<Rightarrow> error + 'a list" where
  "take_positions xs indices =
     map_result (\<lambda>i. if i < length xs then Inr (xs ! i) else Inl IndexError) indices"

definition filterIndices ::
  "('a, 'b) InputOutputArrays \<Rightarrow> nat list \<Rightarrow> error + ('a, 'b) InputOutputArrays" where
  "filterIndices data indices =
     (case take_positions (inputs data) indices of
        Inl e \<Rightarrow> Inl e
      | Inr ins \<Rightarrow>
          (case take_positions (outputs data) indices of
             Inl e \<Rightarrow> Inl e
           | Inr outs \<Rightarrow> InputOutputArrays_init ins outs))"

text \<open>
  numpy's random generator, taken from outside: the state that \<open>RandomState(seed)\<close> starts
  from for an integer seed, the state it draws from the operating system's entropy for
  the seed \<open>None\<close>, and the list \<open>permutation(n)\<close> returns in a state. \<open>RandomState\<close>
  refuses an integer seed outside \<open>0 .. 2 ^ 32 - 1\<close> with a \<open>ValueError\<close>.
\<close>

record 'st numpy_random =
  seeded :: "int \<Rightarrow> 'st"
  from_entropy :: "nat \<Rightarrow> 'st"
  permutation :: "'st \<Rightarrow> nat \<Rightarrow> nat list"

definition RandomState :: "'st numpy_random \<Rightarrow> int option \<Rightarrow> nat \<Rightarrow> error + 'st" where
  "RandomState np seed entropy =
     (case seed of
        None \<Rightarrow> Inr (from_entropy np entropy)
      | Some s \<Rightarrow>
          if 0 \<le> s \<and> s < 2 ^ 32 then Inr (seeded np s)
          else Inl (ValueError ''Seed must be between 0 and 2**32 - 1''))"

text \<open>Python's \<open>int\<close> of a float truncates the double towards zero and refuses NaN.\<close>

definition py_int :: "pyfloat \<Rightarrow> error + int" where
  "py_int x =
     (case x of
        NaN \<Rightarrow> Inl (ValueError ''cannot convert float NaN to integer'')
      | Float r \<Rightarrow> Inr (if 0 \<le> double r then \<lfloor>double r\<rfloor> else \<lceil>double r\<rceil>))"

text \<open>The position at which \<open>xs[:k]\<close> and \<open>xs[k:]\<close> cut a list of length \<open>n\<close>.\<close>

definition slice_point :: "nat \<Rightarrow> int \<Rightarrow> nat" where
  "slice_point n k = (if k < 0 then nat (max 0 (int n + k)) else min n (nat k))"

text \<open>
  An int times a float: the int is converted to a double and the product of the two
  doubles is rounded.
\<close>

fun float_mult_int :: "nat \<Rightarrow> pyfloat \<Rightarrow> pyfloat" where
  "float_mult_int n (Float r) = Float (double (double (real n) * double r))"
| "float_mult_int n NaN = NaN"

record DataSplitterFractional =
  fractionalSizeOfFirstSet :: pyfloat
  shuffle :: bool
  randomSeed :: "int option"

definition DataSplitterFractional_init ::
  "pyfloat \<Rightarrow> bool \<Rightarrow> int option \<Rightarrow> error + DataSplitterFractional" where
  "DataSplitterFractional_init fraction shuffle_arg seed =
     (if \<not> (float_ge fraction (Float 0) \<and> float_ge (Float 1) fraction)
      then Inl (Exception ''invalid fraction'')
      else Inr \<lparr>fractionalSizeOfFirstSet = fraction, shuffle = shuffle_arg, randomSeed = seed\<rparr>)"

definition split ::
  "'st numpy_random \<Rightarrow> DataSplitterFractional \<Rightarrow> nat \<Rightarrow> ('a, 'b) InputOutputArrays \<Rightarrow>
   error + (('a, 'b) InputOutputArrays \<times> ('a, 'b) InputOutputArrays)" where
  "split np splitter entropy data =
     (let numDataPoints = length (inputs data) in
      case py_int (float_mult_int numDataPoints (fractionalSizeOfFirstSet splitter)) of
        Inl e \<Rightarrow> Inl e
      | Inr splitIndex \<Rightarrow>
          (case RandomState np (randomSeed splitter) entropy of
             Inl e \<Rightarrow> Inl e
           | Inr rand \<Rightarrow>
               (let indices = (if shuffle splitter then permutation np rand numDataPoints
                               else [0..<numDataPoints]);
                    indicesA = take (slice_point (length indices) splitIndex) indices;
                    indicesB = drop (slice_point (length indices) splitIndex) indices
                in case filterIndices data indicesA of
                     Inl e \<Rightarrow> Inl e
                   | Inr A \<Rightarrow>
                       (case filterIndices data indicesB of
                          Inl e \<Rightarrow> Inl e
                        | Inr B \<Rightarrow> Inr (A, B)))))"

text \<open>A generator for the examples: the state is a number, and the permutation rotates.\<close>

definition rotating :: "nat numpy_random" where
  "rotating = \<lparr>seeded = (\<lambda>s. nat \<bar>s\<bar>), from_entropy = (\<lambda>e. e),
               permutation = (\<lambda>st n. rotate st [0..<n])\<rparr>"


definition example_data :: "(int, bool) InputOutputArrays" where
  "example_data = \<lparr>inputs = [10, 20, 30], outputs = [True, False, True]\<rparr>"

definition seeded_splitter :: DataSplitterFractional where
  "seeded_splitter = \<lparr>fractionalSizeOfFirstSet = Float 0.5, shuffle = True, randomSeed = Some 42\<rparr>"

definition unseeded_splitter :: DataSplitterFractional where
  "unseeded_splitter = \<lparr>fractionalSizeOfFirstSet = Float 0.5, shuffle = True, randomSeed = None\<rparr>"

text \<open>
  The seeds \<open>RandomState\<close> accepts, and data of ten points for an example.
\<close>

definition accepted_seed :: "int option \<Rightarrow> bool" where
  "accepted_seed seed = (case seed of None \<Rightarrow> True | Some s \<Rightarrow> 0 \<le> s \<and> s < 2 ^ 32)"

definition ten_points :: "(int, bool) InputOutputArrays" where
  "ten_points =
     \<lparr>inputs = [0, 1, 2, 3, 4, 5, 6, 7, 8, 9],
      outputs = [True, True, True, True, True, True, True, True, True, True]\<rparr>"

section \<open>Collections of evaluation statistics\<close>

text \<open>
  \<open>np.concatenate\<close> joins the arrays of a list in order and refuses an empty list.
\<close>

definition np_concatenate :: "'a list list \<Rightarrow> error + 'a list" where
  "np_concatenate arrays =
     (if arrays = [] then Inl (External ''need at least one array to concatenate'')
      else Inr (concat arrays))"

text \<open>
  \<open>pd.concat\<close> of frames, from the pandas documentation: \<open>None\<close> entries are dropped
  and a list without frames is refused; the columns are the union of the frames' columns
  in order of first appearance; the rows of the frames follow each other in list order,
  and a frame without some column contributes NaN there.
\<close>

fun py_unique :: "pylabel list \<Rightarrow> pylabel list" where
  "py_unique [] = []"
| "py_unique (x # xs) = x # py_unique (filter (\<lambda>y. \<not> py_eq x y) xs)"

definition column_or_nan :: "pylabel \<Rightarrow> DataFrame \<Rightarrow> pyfloat list" where
  "column_or_nan c df =
     (case getitem df (Some c) of Inr values \<Rightarrow> values | Inl e \<Rightarrow> replicate (nrows df) NaN)"

definition concat_rows :: "DataFrame list \<Rightarrow> DataFrame" where
  "concat_rows frames =
     \<lparr>nrows = sum_list (map nrows frames),
      series = map (\<lambda>c. (c, concat (map (column_or_nan c) frames)))
                 (py_unique (concat (map columns frames)))\<rparr>"

definition pd_concat :: "DataFrame option list \<Rightarrow> error + DataFrame" where
  "pd_concat objs =
     (let frames = concat (map (\<lambda>obj. case obj of None \<Rightarrow> [] | Some df \<Rightarrow> [df]) objs) in
      if frames = [] then Inl (External ''No objects to concatenate'')
      else Inr (concat_rows frames))"

text \<open>
  Modelled from the spec: the base class \<open>EvalStatsCollection\<close> is defined in
  \<open>eval_stats_base.py\<close>, which is not among the sources, and the spec does not describe
  it. Its constructor is taken to store the list as \<open>statsList\<close>, which is how
  \<open>getGlobalStats\<close> reads it.
\<close>

record ClassificationEvalStatsCollection =
  statsList :: "ClassificationEvalStats list"
  globalStats :: "ClassificationEvalStats option"

definition ClassificationEvalStatsCollection_init ::
  "ClassificationEvalStats list \<Rightarrow> ClassificationEvalStatsCollection" where
  "ClassificationEvalStatsCollection_init evalStatsList =
     \<lparr>statsList = evalStatsList, globalStats = None\<rparr>"

text \<open>The object \<open>getGlobalStats\<close> builds when none is stored yet.\<close>

definition build_global_stats ::
  "ClassificationEvalStats list \<Rightarrow> error + ClassificationEvalStats" where
  "build_global_stats sl =
     (case np_concatenate (map y_true sl) of
        Inl e \<Rightarrow> Inl e
      | Inr yt \<Rightarrow>
          (case np_concatenate (map y_predicted sl) of
             Inl e \<Rightarrow> Inl e
           | Inr yp \<Rightarrow>
               (case sl of
                  [] \<Rightarrow> Inl IndexError
                | es0 # rest \<Rightarrow>
                    if y_predictedClassProbabilities es0 \<noteq> None then
                      (case pd_concat (map y_predictedClassProbabilities sl) of
                         Inl e \<Rightarrow> Inl e
                       | Inr y_probs \<Rightarrow>
                           ClassificationEvalStats_init yp yt (Some y_probs) (columns y_probs)
                             (Some (metrics es0)) None (Given (binaryPositiveLabel es0)))
                    else
                      ClassificationEvalStats_init yp yt None (labels es0)
                        (Some (metrics es0)) None (Given (binaryPositiveLabel es0)))))"

definition getGlobalStats ::
  "ClassificationEvalStatsCollection \<Rightarrow>
   error + (ClassificationEvalStats \<times> ClassificationEvalStatsCollection)" where
  "getGlobalStats coll =
     (case globalStats coll of
        Some gs \<Rightarrow> Inr (gs, coll)
      | None \<Rightarrow>
          (case build_global_stats (statsList coll) of
             Inl e \<Rightarrow> Inl e
           | Inr gs \<Rightarrow> Inr (gs, coll\<lparr>globalStats := Some gs\<rparr>)))"

definition getAccuracy :: "externals \<Rightarrow> ClassificationEvalStats \<Rightarrow> error + pyfloat" where
  "getAccuracy ext evalStats = computeMetricValue ext evalStats ClassificationMetricAccuracy"

text \<open>
  Following the words of the statement on the global accuracy: the number of correct
  predictions of a fold.
\<close>

definition correct_predictions :: "ClassificationEvalStats \<Rightarrow> nat" where
  "correct_predictions es =
     length (filter (\<lambda>ab. py_eq (fst ab) (snd ab)) (zip (y_true es) (y_predicted es)))"


definition fold_accuracy :: "ClassificationEvalStats \<Rightarrow> real" where
  "fold_accuracy es = real (correct_predictions es) / real (length (y_true es))"

definition weighted_mean :: "(nat \<times> real) list \<Rightarrow> real" where
  "weighted_mean wxs =
     sum_list (map (\<lambda>wx. real (fst wx) * snd wx) wxs) / real (sum_list (map fst wxs))"

definition frames_of :: "ClassificationEvalStats list \<Rightarrow> DataFrame list" where
  "frames_of sl =
     concat (map (\<lambda>es. case y_predictedClassProbabilities es of None \<Rightarrow> [] | Some df \<Rightarrow> [df]) sl)"

text \<open>Two folds used as an example.\<close>

definition second_frame :: DataFrame where
  "second_frame =
     \<lparr>nrows = 2,
      series = [(PyInt 0, [Float 0.1, Float 0.9]), (PyInt 1, [Float 0.9, Float 0.1])]\<rparr>"

definition second_fold :: ClassificationEvalStats where
  "second_fold =
     \<lparr>y_true = [PyInt 1, PyInt 0], y_predicted = [PyInt 1, PyInt 0],
      metrics = default_metrics (Some (PyInt 1)), labels = [PyInt 0, PyInt 1],
      y_predictedClassProbabilities = Some second_frame, probabilitiesAvailable = True,
      binaryPositiveLabel = Some (PyInt 1), isBinary = True\<rparr>"

definition two_folds :: ClassificationEvalStatsCollection where
  "two_folds = ClassificationEvalStatsCollection_init [example_stats, second_fold]"

section \<open>Mean results of a model comparison\<close>

text \<open>
  The numeric part of \<open>allResultsDF\<close> in \<open>MultiDataEvaluationUtil.compareModels\<close>: one
  row for every (model, data set), the column \<open>modelName\<close>, and the numeric columns by
  name (the metrics, NaN where a data set's results lack a metric). The columns that are
  not numeric (the data set key, metadata) are left out: \<open>mean\<close> leaves them out of its
  result.
\<close>

record ResultsFrame =
  modelNames :: "string list"
  numeric_columns :: "(string \<times> pyfloat list) list"

definition wellformed_results :: "ResultsFrame \<Rightarrow> bool" where
  "wellformed_results fr =
     list_all (\<lambda>cv. length (snd cv) = length (modelNames fr)) (numeric_columns fr)"

text \<open>\<open>dropna(axis=1)\<close>: the columns without a missing value.\<close>

definition dropna_columns :: "ResultsFrame \<Rightarrow> ResultsFrame" where
  "dropna_columns fr =
     fr\<lparr>numeric_columns := filter (\<lambda>cv. \<not> list_ex isnan (snd cv)) (numeric_columns fr)\<rparr>"

text \<open>
  \<open>groupby("modelName").mean()\<close>, from the pandas documentation: one row for every
  distinct model name, in sorted order, holding for every column the mean of the group's
  values that are not NaN (NaN when there is none).
\<close>

definition group_values :: "string list \<Rightarrow> pyfloat list \<Rightarrow> string \<Rightarrow> pyfloat list" where
  "group_values names values m = map snd (filter (\<lambda>nv. fst nv = m) (zip names values))"

definition numbers :: "pyfloat list \<Rightarrow> real list" where
  "numbers values = concat (map (\<lambda>v. case v of Float x \<Rightarrow> [x] | NaN \<Rightarrow> []) values)"

definition pd_mean :: "pyfloat list \<Rightarrow> pyfloat" where
  "pd_mean values =
     (if numbers values = [] then NaN
      else Float (sum_list (numbers values) / real (length (numbers values))))"

record MeanFrame =
  mean_columns :: "string list"
  mean_rows :: "(string \<times> pyfloat list) list"

definition groupby_mean :: "ResultsFrame \<Rightarrow> MeanFrame" where
  "groupby_mean fr =
     \<lparr>mean_columns = map fst (numeric_columns fr),
      mean_rows =
        map (\<lambda>m. (m, map (\<lambda>cv. pd_mean (group_values (modelNames fr) (snd cv) m))
                        (numeric_columns fr)))
            (sort (remdups (modelNames fr)))\<rparr>"

text \<open>
  \<open>sort_values(column, ascending)\<close>: the rows ordered by their value in the column. Rows
  with equal values keep their order here; pandas leaves their order open.
\<close>

definition ranking_key :: "string list \<Rightarrow> string \<Rightarrow> bool \<Rightarrow> string \<times> pyfloat list \<Rightarrow> real" where
  "ranking_key names column ascending row =
     (case map_of (zip names (snd row)) column of
        Some (Float x) \<Rightarrow> (if ascending then x else - x)
      | _ \<Rightarrow> 0)"

definition sort_values :: "string \<Rightarrow> bool \<Rightarrow> MeanFrame \<Rightarrow> MeanFrame" where
  "sort_values column ascending fr =
     fr\<lparr>mean_rows := sort_key (ranking_key (mean_columns fr) column ascending) (mean_rows fr)\<rparr>"

text \<open>
  The mean results of \<open>compareModels\<close>. Before any data set has been evaluated
  \<open>allResultsDF\<close> is the empty frame (\<open>None\<close> here), which has no column \<open>modelName\<close> to
  group by.
\<close>

definition meanResultsDF ::
  "ResultsFrame option \<Rightarrow> string option \<Rightarrow> bool \<Rightarrow> error + MeanFrame" where
  "meanResultsDF allResultsDF columnNameForModelRanking rankMax =
     (case allResultsDF of
        None \<Rightarrow> Inl (KeyError (Some (PyStr ''modelName'')))
      | Some allResults \<Rightarrow>
          (let mean = groupby_mean (dropna_columns allResults) in
           case columnNameForModelRanking of
             None \<Rightarrow> Inr mean
           | Some column \<Rightarrow>
               if column \<in> set (mean_columns mean)
               then Inr (sort_values column (\<not> rankMax) mean)
               else Inr mean))"

text \<open>
  Following the words of the statement on the mean results: the columns that hold no
  NaN, the values of a model in a column, and the arithmetic mean.
\<close>

definition columns_without_nan :: "ResultsFrame \<Rightarrow> (string \<times> pyfloat list) list" where
  "columns_without_nan fr = filter (\<lambda>cv. \<forall>v \<in> set (snd cv). v \<noteq> NaN) (numeric_columns fr)"

definition arithmetic_mean :: "real list \<Rightarrow> real" where
  "arithmetic_mean xs = sum_list xs / real (length xs)"


text \<open>Two models on two data sets, one result missing.\<close>

definition example_results :: ResultsFrame where
  "example_results =
     \<lparr>modelNames = [''A'', ''B'', ''A'', ''B''],
      numeric_columns =
        [(''accuracy'', [Float 0.8, Float 0.6, Float 0.9, Float 0.7]),
         (''precision'', [Float 0.5, NaN, Float 0.7, Float 0.4])]\<rparr>"

section \<open>Rounding to doubles\<close>

lemma quantum_pos: "0 < quantum x"
  by (simp add: quantum_def)

lemma round_half_even_int: "round_half_even (of_int k) = k"
  by (simp add: round_half_even_def)

lemma round_half_even_ge_floor: "\<lfloor>y\<rfloor> \<le> round_half_even y"
  by (simp add: round_half_even_def)

lemma round_half_even_le_ceiling: "round_half_even y \<le> \<lceil>y\<rceil>"
proof (cases "y = of_int \<lfloor>y\<rfloor>")
  case True
  then have "round_half_even y = \<lfloor>y\<rfloor>" by (simp add: round_half_even_def)
  then show ?thesis by (simp add: floor_le_ceiling)
next
  case False
  then have "\<lceil>y\<rceil> = \<lfloor>y\<rfloor> + 1"
    by (metis ceiling_altdef of_int_floor_cancel)
  then show ?thesis by (simp add: round_half_even_def)
qed

lemma round_half_even_error: "\<bar>of_int (round_half_even y) - y\<bar> \<le> 1 / 2"
proof -
  have "of_int \<lfloor>y\<rfloor> \<le> y" "y < of_int \<lfloor>y\<rfloor> + 1" by linarith+
  then show ?thesis
    by (auto simp: round_half_even_def abs_le_iff)
qed

lemma double_zero: "double 0 = 0"
  by (simp add: double_def round_half_even_def)

lemma double_nonneg: "0 \<le> x \<Longrightarrow> 0 \<le> double x"
proof -
  assume "0 \<le> x"
  then have "0 \<le> x / quantum x" using quantum_pos [of x] by simp
  then have "0 \<le> \<lfloor>x / quantum x\<rfloor>" by simp
  with round_half_even_ge_floor [of "x / quantum x"] have "0 \<le> round_half_even (x / quantum x)"
    by linarith
  then show ?thesis unfolding double_def using quantum_pos [of x] by simp
qed

lemma double_error: "\<bar>double x - x\<bar> \<le> quantum x / 2"
proof -
  let ?q = "quantum x"
  have q: "0 < ?q" by (rule quantum_pos)
  have "double x - x = ?q * (of_int (round_half_even (x / ?q)) - x / ?q)"
    unfolding double_def using q by (simp add: algebra_simps)
  then have "\<bar>double x - x\<bar> = ?q * \<bar>of_int (round_half_even (x / ?q)) - x / ?q\<bar>"
    using q by (simp add: abs_mult)
  also have "\<dots> \<le> ?q * (1 / 2)"
    using round_half_even_error [of "x / ?q"] q by (intro mult_left_mono) simp_all
  finally show ?thesis by simp
qed

text \<open>A real on the grid of doubles around it is a double.\<close>

lemma double_grid:
  assumes "x / quantum x = of_int k"
  shows "double x = x"
proof -
  have "of_int (round_half_even (x / quantum x)) = x / quantum x"
    by (simp only: assms round_half_even_int)
  then have "double x = quantum x * (x / quantum x)"
    by (simp only: double_def)
  then show ?thesis using quantum_pos [of x] by simp
qed

lemma binade_eq:
  assumes "2 powr of_int e \<le> \<bar>x\<bar>" and "\<bar>x\<bar> < 2 powr of_int (e + 1)"
  shows "binade x = e"
proof -
  have pos: "0 < \<bar>x\<bar>" using assms(1) by (smt (verit) powr_gt_zero)
  have "of_int e \<le> log 2 \<bar>x\<bar>" using assms(1) pos by (simp add: le_log_iff)
  moreover have "log 2 \<bar>x\<bar> < of_int (e + 1)" using assms(2) pos by (simp add: log_less_iff)
  ultimately show ?thesis unfolding binade_def by linarith
qed

lemma binade_upper:
  assumes "x \<noteq> 0" and "\<bar>x\<bar> < 2 powr of_int e"
  shows "binade x < e"
proof -
  have pos: "0 < \<bar>x\<bar>" using assms(1) by simp
  have "log 2 \<bar>x\<bar> < of_int e" using assms(2) pos by (simp add: log_less_iff)
  then show ?thesis unfolding binade_def by linarith
qed


lemma quantum_exponent:
  assumes "x \<noteq> 0" and "\<bar>x\<bar> < 2 powr of_int e" and "- 1022 < e"
  shows "max (binade x) (- 1022) - 52 \<le> e - 53"
  using binade_upper [OF assms(1,2)] assms(3) by simp

lemma quantum_grid:
  assumes "max (binade x) (- 1022) - 52 \<le> - int j"
  shows "\<exists>k. (of_int m / 2 ^ j) / quantum x = of_int k"
proof -
  define i where "i = max (binade x) (- 1022) - 52"
  define d where "d = nat (- i - int j)"
  have q: "quantum x = 2 powr of_int i" by (simp add: quantum_def i_def)
  have "- i = int j + int d" using assms by (simp add: d_def i_def)
  then have "(2::real) powr of_int (- i) = 2 powr (real j + real d)" by simp
  also have "\<dots> = 2 ^ j * 2 ^ d" by (simp add: powr_add powr_realpow)
  finally have "1 / quantum x = 2 ^ j * 2 ^ d"
    unfolding q by (simp add: powr_minus divide_simps)
  moreover have "(of_int m / 2 ^ j) / quantum x = (of_int m / 2 ^ j) * (1 / quantum x)"
    by simp
  ultimately have "(of_int m / 2 ^ j) / quantum x = (of_int m / 2 ^ j) * (2 ^ j * 2 ^ d)"
    by (simp only:)
  also have "\<dots> = of_int (m * 2 ^ d)" by simp
  finally show ?thesis by blast
qed

lemma double_dyadic:
  assumes "\<bar>m\<bar> < 2 ^ 53" and "j \<le> 1074"
  shows "double (of_int m / 2 ^ j) = of_int m / 2 ^ j"
proof (cases "m = 0")
  case True
  then show ?thesis by (simp add: double_zero)
next
  case False
  let ?x = "real_of_int m / 2 ^ j"
  have nz: "?x \<noteq> 0" using False by simp
  have "\<bar>?x\<bar> = real_of_int \<bar>m\<bar> / 2 ^ j" by (simp add: abs_divide)
  also have "\<dots> < 2 ^ 53 / 2 ^ j"
  proof -
    have "real_of_int \<bar>m\<bar> < 2 ^ 53" using assms(1) by (metis of_int_less_numeral_power_cancel_iff)
    then show ?thesis by (simp add: divide_strict_right_mono)
  qed
  also have "\<dots> = 2 powr of_int (53 - int j)"
    by (simp add: powr_diff powr_realpow flip: powr_realpow [of 2 53])
  finally have b: "\<bar>?x\<bar> < 2 powr of_int (53 - int j)" .
  have "max (binade ?x) (- 1022) - 52 \<le> (53 - int j) - 53"
    using assms(2) by (intro quantum_exponent [OF nz b]) simp
  then have "max (binade ?x) (- 1022) - 52 \<le> - int j" by simp
  from quantum_grid [OF this, of m] obtain k where "?x / quantum ?x = of_int k" by blast
  then show ?thesis by (rule double_grid)
qed

lemma double_int:
  assumes "\<bar>m\<bar> < 2 ^ 53"
  shows "double (of_int m) = of_int m"
  using double_dyadic [OF assms, of 0] by simp

lemma double_nat:
  assumes "n < 2 ^ 53"
  shows "double (real n) = real n"
proof -
  have "\<bar>int n\<bar> < 2 ^ 53" using assms by (simp add: of_nat_less_numeral_power_cancel_iff)
  from double_int [OF this] show ?thesis by simp
qed

lemma double_le_int:
  assumes "x \<le> of_int N" and "\<bar>x\<bar> < 2 ^ 53"
  shows "double x \<le> of_int N"
proof (cases "x = 0")
  case True
  then show ?thesis using assms(1) by (simp add: double_zero)
next
  case False
  have "\<bar>x\<bar> < 2 powr of_int 53" using assms(2) by (simp add: powr_realpow flip: powr_realpow [of 2 53])
  from quantum_exponent [OF False this] have "max (binade x) (- 1022) - 52 \<le> - int 0" by simp
  from quantum_grid [OF this, of N] obtain k where k: "of_int N / quantum x = of_int k" by auto
  have "x / quantum x \<le> of_int N / quantum x"
    using assms(1) quantum_pos [of x] by (simp add: divide_right_mono)
  then have "\<lceil>x / quantum x\<rceil> \<le> k" unfolding k by (simp add: ceiling_le_iff)
  with round_half_even_le_ceiling [of "x / quantum x"]
  have "round_half_even (x / quantum x) \<le> k" by linarith
  then have "real_of_int (round_half_even (x / quantum x)) \<le> of_int k" by simp
  then have "double x \<le> quantum x * of_int k"
    unfolding double_def using quantum_pos [of x] by (intro mult_left_mono) simp_all
  also have "\<dots> = of_int N" using k quantum_pos [of x] by (simp add: field_simps)
  finally show ?thesis .
qed

lemma double_ge_int:
  assumes "of_int N \<le> x" and "\<bar>x\<bar> < 2 ^ 53"
  shows "of_int N \<le> double x"
proof (cases "x = 0")
  case True
  then show ?thesis using assms(1) by (simp add: double_zero)
next
  case False
  have "\<bar>x\<bar> < 2 powr of_int 53" using assms(2) by (simp add: powr_realpow flip: powr_realpow [of 2 53])
  from quantum_exponent [OF False this] have "max (binade x) (- 1022) - 52 \<le> - int 0" by simp
  from quantum_grid [OF this, of N] obtain k where k: "of_int N / quantum x = of_int k" by auto
  have "of_int N / quantum x \<le> x / quantum x"
    using assms(1) quantum_pos [of x] by (simp add: divide_right_mono)
  then have "k \<le> \<lfloor>x / quantum x\<rfloor>" unfolding k by (simp add: le_floor_iff)
  with round_half_even_ge_floor [of "x / quantum x"]
  have "k \<le> round_half_even (x / quantum x)" by linarith
  then have "of_int k \<le> real_of_int (round_half_even (x / quantum x))" by simp
  then have "quantum x * of_int k \<le> double x"
    unfolding double_def using quantum_pos [of x] by (intro mult_left_mono) simp_all
  moreover have "quantum x * of_int k = of_int N" using k quantum_pos [of x] by (simp add: field_simps)
  ultimately show ?thesis by simp
qed

lemma powr_minus_nat: "(2::real) powr of_int (- int n) = 1 / 2 ^ n"
  by (simp add: powr_minus powr_realpow divide_simps)

text \<open>The double nearest to a given real below 1, and to one from 1 on.\<close>

lemma double_small:
  assumes "1 / 2 ^ j \<le> \<bar>x\<bar>" and "\<bar>x\<bar> < 2 / 2 ^ j" and "j \<le> 1022"
  shows "double x = of_int (round_half_even (x * 2 ^ (j + 52))) / 2 ^ (j + 52)"
proof -
  have p: "(2::real) powr of_int (- int j) = 1 / 2 ^ j"
    by (simp add: powr_minus powr_realpow divide_simps)
  have "(2::real) powr (of_int (- int j) + 1) = 2 powr of_int (- int j) * 2 powr 1"
    by (rule powr_add)
  then have p1: "(2::real) powr of_int (- int j + 1) = 2 / 2 ^ j" using p by simp
  have "binade x = - int j"
    by (rule binade_eq) (simp_all only: p p1 assms)
  then have "max (binade x) (- 1022) - 52 = - int (j + 52)" using assms(3) by simp
  then have "quantum x = 2 powr of_int (- int (j + 52))" by (simp only: quantum_def)
  also have "\<dots> = 1 / 2 ^ (j + 52)" by (rule powr_minus_nat)
  finally have q: "quantum x = 1 / 2 ^ (j + 52)" .
  show ?thesis unfolding double_def q by simp
qed

lemma double_large:
  assumes "2 ^ j \<le> \<bar>x\<bar>" and "\<bar>x\<bar> < 2 * 2 ^ j" and "j \<le> 52"
  shows "double x = of_int (round_half_even (x * 2 ^ (52 - j))) / 2 ^ (52 - j)"
proof -
  have p: "(2::real) powr of_int (int j) = 2 ^ j" by (simp add: powr_realpow)
  have "(2::real) powr (of_int (int j) + 1) = 2 powr of_int (int j) * 2 powr 1"
    by (rule powr_add)
  then have p1: "(2::real) powr of_int (int j + 1) = 2 * 2 ^ j" using p by simp
  have "binade x = int j"
    by (rule binade_eq) (simp_all only: p p1 assms)
  then have "max (binade x) (- 1022) - 52 = - int (52 - j)" using assms(3) by simp
  then have "quantum x = 2 powr of_int (- int (52 - j))" by (simp only: quantum_def)
  also have "\<dots> = 1 / 2 ^ (52 - j)" by (rule powr_minus_nat)
  finally have q: "quantum x = 1 / 2 ^ (52 - j)" .
  show ?thesis unfolding double_def q by simp
qed


lemma quantum_grid_powr:
  assumes "max (binade x) (- 1022) - 52 \<le> i"
  shows "\<exists>k. (of_int m * 2 powr of_int i) / quantum x = of_int k"
proof -
  define e where "e = max (binade x) (- 1022) - 52"
  define d where "d = nat (i - e)"
  have q: "quantum x = 2 powr of_int e" by (simp add: quantum_def e_def)
  have "of_int i = of_int e + real d" using assms by (simp add: d_def e_def)
  then have "(2::real) powr of_int i = 2 powr of_int e * 2 powr real d"
    by (simp only: powr_add)
  then have "(2::real) powr of_int i / quantum x = 2 ^ d"
    unfolding q by (simp add: powr_realpow)
  then have "(of_int m * 2 powr of_int i) / quantum x = of_int m * 2 ^ d"
    by (metis times_divide_eq_right)
  also have "\<dots> = of_int (m * 2 ^ d)" by simp
  finally show ?thesis by blast
qed

lemma double_grid_value:
  assumes "\<bar>m\<bar> < 2 ^ 53" and "- 1074 \<le> i"
  shows "double (of_int m * 2 powr of_int i) = of_int m * 2 powr of_int i"
proof (cases "m = 0")
  case True
  then show ?thesis by (simp add: double_zero)
next
  case False
  let ?x = "real_of_int m * 2 powr of_int i"
  have nz: "?x \<noteq> 0" using False by simp
  have m: "real_of_int \<bar>m\<bar> < 2 ^ 53" using assms(1) by (metis of_int_less_numeral_power_cancel_iff)
  have "\<bar>?x\<bar> = real_of_int \<bar>m\<bar> * 2 powr of_int i" by (simp add: abs_mult)
  also have "\<dots> < 2 ^ 53 * 2 powr of_int i"
    using m by (intro mult_strict_right_mono) simp_all
  also have "\<dots> = 2 powr of_int (53 + i)"
    by (simp add: powr_add powr_realpow flip: powr_realpow [of 2 53])
  finally have b: "\<bar>?x\<bar> < 2 powr of_int (53 + i)" .
  have "max (binade ?x) (- 1022) - 52 \<le> (53 + i) - 53"
    using assms(2) by (intro quantum_exponent [OF nz b]) simp
  then have "max (binade ?x) (- 1022) - 52 \<le> i" by simp
  from quantum_grid_powr [OF this, of m] obtain k where "?x / quantum ?x = of_int k" by blast
  then show ?thesis by (rule double_grid)
qed

lemma binade_bounds:
  assumes "x \<noteq> 0"
  shows "\<bar>x\<bar> < 2 powr of_int (binade x + 1)"
proof -
  have pos: "0 < \<bar>x\<bar>" using assms by simp
  have "log 2 \<bar>x\<bar> < of_int (binade x + 1)" unfolding binade_def by linarith
  then show ?thesis using pos by (simp add: log_less_iff)
qed

lemma scaled_bound: "\<bar>x / quantum x\<bar> \<le> 2 ^ 53"
proof (cases "x = 0")
  case True
  then show ?thesis by simp
next
  case False
  define e where "e = max (binade x) (- 1022) - 52"
  have q: "quantum x = 2 powr of_int e" by (simp add: quantum_def e_def)
  have "binade x + 1 \<le> e + 53" by (simp add: e_def)
  then have "(2::real) powr of_int (binade x + 1) \<le> 2 powr of_int (e + 53)"
    by (intro powr_mono) simp_all
  from less_le_trans [OF binade_bounds [OF False] this]
  have "\<bar>x\<bar> \<le> 2 powr of_int (e + 53)" by (rule less_imp_le)
  also have "\<dots> = 2 powr of_int e * 2 ^ 53"
    by (simp add: powr_add powr_realpow flip: powr_realpow [of 2 53])
  finally have "\<bar>x\<bar> / quantum x \<le> 2 ^ 53"
    unfolding q by (simp add: divide_le_eq mult.commute)
  then show ?thesis using quantum_pos [of x] by (simp add: abs_divide)
qed

lemma round_half_even_bound:
  assumes "\<bar>y\<bar> \<le> of_int N"
  shows "\<bar>round_half_even y\<bar> \<le> N"
proof -
  from assms have "y \<le> of_int N" "of_int (- N) \<le> y" by (simp_all add: abs_le_iff)
  then have "\<lceil>y\<rceil> \<le> N" "- N \<le> \<lfloor>y\<rfloor>" by (simp_all add: ceiling_le_iff le_floor_iff)
  with round_half_even_le_ceiling [of y] round_half_even_ge_floor [of y]
  show ?thesis by linarith
qed

text \<open>A rounded value is a double.\<close>

lemma double_double: "double (double x) = double x"
proof -
  define e where "e = max (binade x) (- 1022) - 52"
  define M where "M = round_half_even (x / quantum x)"
  have q: "quantum x = 2 powr of_int e" by (simp add: quantum_def e_def)
  have d: "double x = of_int M * 2 powr of_int e"
    by (simp add: double_def M_def q)
  have e: "- 1074 \<le> e" by (simp add: e_def)
  have "\<bar>x / quantum x\<bar> \<le> of_int (2 ^ 53)" using scaled_bound [of x] by simp
  from round_half_even_bound [OF this] have M: "\<bar>M\<bar> \<le> 2 ^ 53" by (simp add: M_def)
  show ?thesis
  proof (cases "\<bar>M\<bar> < 2 ^ 53")
    case True
    from double_grid_value [OF True e] show ?thesis unfolding d .
  next
    case False
    with M have "\<bar>M\<bar> = 2 ^ 53" by simp
    then consider "M = 2 ^ 53" | "M = - (2 ^ 53)" by linarith
    then show ?thesis
    proof cases
      case 1
      have "double x = of_int 1 * 2 powr of_int (e + 53)"
        unfolding d 1 by (simp add: powr_add powr_realpow flip: powr_realpow [of 2 53])
      moreover have "double (of_int 1 * 2 powr of_int (e + 53)) = of_int 1 * 2 powr of_int (e + 53)"
        using e by (intro double_grid_value) simp_all
      ultimately show ?thesis by simp
    next
      case 2
      have "double x = of_int (- 1) * 2 powr of_int (e + 53)"
        unfolding d 2 by (simp add: powr_add powr_realpow flip: powr_realpow [of 2 53])
      moreover have "double (of_int (- 1) * 2 powr of_int (e + 53)) = of_int (- 1) * 2 powr of_int (e + 53)"
        using e by (intro double_grid_value) simp_all
      ultimately show ?thesis by simp
    qed
  qed
qed

section \<open>Precision, recall and F1 never divide by zero\<close>

lemma getPrecision_value:
  "getPrecision c =
     Inr (if tp c + fp c = 0 then zeroDenominatorMetricValue c
          else Float (real (tp c) / real (tp c + fp c)))"
  by (simp add: getPrecision_def BinaryClassificationCounts_frac_def truediv_def)

lemma getRecall_value:
  "getRecall c =
     Inr (if tp c + fn c = 0 then zeroDenominatorMetricValue c
          else Float (real (tp c) / real (tp c + fn c)))"
  by (simp add: getRecall_def BinaryClassificationCounts_frac_def truediv_def)

lemma F1_denominator_zero:
  "(real (tp c) + 0.5 * real (fp c + fn c) = 0) = (tp c = 0 \<and> fp c = 0 \<and> fn c = 0)"
proof -
  have "0 \<le> real (tp c)" and "0 \<le> 0.5 * real (fp c + fn c)" by simp_all
  then have "(real (tp c) + 0.5 * real (fp c + fn c) = 0) =
             (real (tp c) = 0 \<and> 0.5 * real (fp c + fn c) = 0)"
    by (rule add_nonneg_eq_0_iff)
  also have "\<dots> = (tp c = 0 \<and> fp c = 0 \<and> fn c = 0)"
    by auto
  finally show ?thesis .
qed

lemma getF1_value:
  "getF1 c =
     Inr (if real (tp c) + 0.5 * real (fp c + fn c) = 0 then zeroDenominatorMetricValue c
          else Float (real (tp c) / (real (tp c) + 0.5 * real (fp c + fn c))))"
  by (simp add: getF1_def BinaryClassificationCounts_frac_def truediv_def)

text \<open>
  C9. For every combination of counts, \<open>getPrecision\<close>, \<open>getRecall\<close> and \<open>getF1\<close>
  return a value: when the denominator (tp+fp, tp+fn, tp+0.5*(fp+fn)) is zero the value is
  \<open>zeroDenominatorMetricValue\<close> and the division is not performed, otherwise it is the
  quotient. \<open>ZeroDivisionError\<close> is never the outcome.
\<close>

theorem counts_metrics_total:
  "getPrecision c =
     Inr (if real (tp c + fp c) = 0 then zeroDenominatorMetricValue c
          else Float (real (tp c) / real (tp c + fp c)))
   \<and> getRecall c =
     Inr (if real (tp c + fn c) = 0 then zeroDenominatorMetricValue c
          else Float (real (tp c) / real (tp c + fn c)))
   \<and> getF1 c =
     Inr (if real (tp c) + 0.5 * real (fp c + fn c) = 0 then zeroDenominatorMetricValue c
          else Float (real (tp c) / (real (tp c) + 0.5 * real (fp c + fn c))))
   \<and> getPrecision c \<noteq> Inl ZeroDivisionError
   \<and> getRecall c \<noteq> Inl ZeroDivisionError
   \<and> getF1 c \<noteq> Inl ZeroDivisionError"
  using getPrecision_value [of c] getRecall_value [of c] getF1_value [of c] by simp

theorem counts_metrics_total_witness:
  "getPrecision (BinaryClassificationCounts_init [] [] (Float 0)) = Inr (Float 0)
   \<and> getRecall (BinaryClassificationCounts_init [True, False] [False, False] (Float 0)) = Inr (Float 0)
   \<and> getF1 (BinaryClassificationCounts_init [True, True] [True, False] (Float 0)) = Inr (Float (2 / 3))"
  using counts_metrics_total [of "BinaryClassificationCounts_init [] [] (Float 0)"]
    counts_metrics_total [of "BinaryClassificationCounts_init [True, False] [False, False] (Float 0)"]
    counts_metrics_total [of "BinaryClassificationCounts_init [True, True] [True, False] (Float 0)"]
  by (simp add: BinaryClassificationCounts_init_def count_pair_def)

section \<open>Guessing the positive label\<close>

lemma find_first:
  "find P xs = Some c \<longleftrightarrow> (\<exists>i < length xs. xs ! i = c \<and> P c \<and> (\<forall>j < i. \<not> P (xs ! j)))"
  by (auto simp: find_Some_iff)

lemma init_guess_fields:
  assumes "ClassificationEvalStats_init yp yt probs ls ms ams GUESS = Inr es"
  shows "binaryPositiveLabel es = guess_positive_label ls"
    and "isBinary es = (guess_positive_label ls \<noteq> None)"
  using assms
  by (auto simp: ClassificationEvalStats_init_def Let_def PredictionEvalStats_init_def
      split: if_splits option.splits)

lemma guess_None_iff:
  "(guess_positive_label ls = None) =
   (\<not> (length ls = 2 \<and> list_ex (\<lambda>c. py_in c ls) BINARY_CLASSIFICATION_POSITIVE_LABEL_CANDIDATES))"
  by (auto simp: guess_positive_label_def find_None_iff list_ex_iff)

lemma init_returns:
  "\<exists>es. ClassificationEvalStats_init yp yt None ls ms None arg = Inr es"
  by (simp add: ClassificationEvalStats_init_def Let_def PredictionEvalStats_init_def)

text \<open>
  C8. With \<open>binaryPositiveLabel = GUESS\<close> the constructor returns an object (whenever no
  probabilities and no additional metrics are passed, which are what it may refuse), and
  on every object it returns \<open>isBinary\<close> holds exactly when there are two labels and a
  candidate of \<open>[1, True, "1", "True"]\<close> occurs among them (\<open>in\<close>, so under Python's
  equality); then the positive label is the first candidate, in that order, that
  occurs; otherwise the positive label is \<open>None\<close>.
\<close>

theorem guess_binary:
  "(\<exists>es. ClassificationEvalStats_init yp yt None ls ms None GUESS = Inr es)
   \<and> (\<forall>es. ClassificationEvalStats_init yp yt probs ls ms ams GUESS = Inr es \<longrightarrow>
        (isBinary es =
           (length ls = 2 \<and> list_ex (\<lambda>c. py_in c ls) BINARY_CLASSIFICATION_POSITIVE_LABEL_CANDIDATES))
      \<and> (isBinary es \<longrightarrow>
           (\<exists>i < length BINARY_CLASSIFICATION_POSITIVE_LABEL_CANDIDATES.
              binaryPositiveLabel es = Some (BINARY_CLASSIFICATION_POSITIVE_LABEL_CANDIDATES ! i)
              \<and> py_in (BINARY_CLASSIFICATION_POSITIVE_LABEL_CANDIDATES ! i) ls
              \<and> (\<forall>j < i. \<not> py_in (BINARY_CLASSIFICATION_POSITIVE_LABEL_CANDIDATES ! j) ls)))
      \<and> (\<not> isBinary es \<longrightarrow> binaryPositiveLabel es = None))"
proof (intro conjI allI impI)
  show "\<exists>es. ClassificationEvalStats_init yp yt None ls ms None GUESS = Inr es"
    by (rule init_returns)
next
  fix es assume a: "ClassificationEvalStats_init yp yt probs ls ms ams GUESS = Inr es"
  show "isBinary es =
           (length ls = 2 \<and> list_ex (\<lambda>c. py_in c ls) BINARY_CLASSIFICATION_POSITIVE_LABEL_CANDIDATES)"
    using init_guess_fields(2) [OF a] guess_None_iff [of ls] by simp
next
  fix es assume a: "ClassificationEvalStats_init yp yt probs ls ms ams GUESS = Inr es"
    and b: "isBinary es"
  from init_guess_fields [OF a] b obtain c where c: "guess_positive_label ls = Some c"
    "binaryPositiveLabel es = Some c" by auto
  then have "find (\<lambda>c. py_in c ls) BINARY_CLASSIFICATION_POSITIVE_LABEL_CANDIDATES = Some c"
    by (simp add: guess_positive_label_def split: if_splits)
  then show "\<exists>i < length BINARY_CLASSIFICATION_POSITIVE_LABEL_CANDIDATES.
              binaryPositiveLabel es = Some (BINARY_CLASSIFICATION_POSITIVE_LABEL_CANDIDATES ! i)
              \<and> py_in (BINARY_CLASSIFICATION_POSITIVE_LABEL_CANDIDATES ! i) ls
              \<and> (\<forall>j < i. \<not> py_in (BINARY_CLASSIFICATION_POSITIVE_LABEL_CANDIDATES ! j) ls)"
    using c(2) unfolding find_first by blast
next
  fix es assume a: "ClassificationEvalStats_init yp yt probs ls ms ams GUESS = Inr es"
    and b: "\<not> isBinary es"
  show "binaryPositiveLabel es = None"
    using init_guess_fields [OF a] b by simp
qed

text \<open>
  At the labels \<open>[False, True]\<close> the first candidate that occurs is the integer 1, since
  \<open>1 == True\<close>; at \<open>["0", "1"]\<close> it is the string \<open>"1"\<close>.
\<close>

theorem guess_binary_witness:
  "(\<exists>es. ClassificationEvalStats_init [PyBool True] [PyBool False] None
           [PyBool False, PyBool True] None None GUESS = Inr es
         \<and> isBinary es \<and> binaryPositiveLabel es = Some (PyInt 1))
   \<and> (\<exists>es. ClassificationEvalStats_init [PyStr ''1''] [PyStr ''0''] None
           [PyStr ''0'', PyStr ''1''] None None GUESS = Inr es
         \<and> isBinary es \<and> binaryPositiveLabel es = Some (PyStr ''1''))
   \<and> (\<exists>es. ClassificationEvalStats_init [PyInt 1] [PyInt 2] None
           [PyInt 1, PyInt 2, PyInt 3] None None GUESS = Inr es
         \<and> \<not> isBinary es \<and> binaryPositiveLabel es = None)"
proof -
  have cands: "length BINARY_CLASSIFICATION_POSITIVE_LABEL_CANDIDATES = 4"
    by (simp add: BINARY_CLASSIFICATION_POSITIVE_LABEL_CANDIDATES_def)
  let ?P = "\<lambda>ls c. py_in c ls"
  have 1: "\<exists>es. ClassificationEvalStats_init [PyBool True] [PyBool False] None
           [PyBool False, PyBool True] None None GUESS = Inr es
         \<and> isBinary es \<and> binaryPositiveLabel es = Some (PyInt 1)"
  proof -
    from guess_binary [of "[PyBool True]" "[PyBool False]" "[PyBool False, PyBool True]" None None None]
    obtain es where es: "ClassificationEvalStats_init [PyBool True] [PyBool False] None
           [PyBool False, PyBool True] None None GUESS = Inr es" by blast
    from guess_binary [of "[PyBool True]" "[PyBool False]" "[PyBool False, PyBool True]" None None None] es
    have b: "isBinary es"
      by (simp add: BINARY_CLASSIFICATION_POSITIVE_LABEL_CANDIDATES_def py_in_def py_eq_def)
    from guess_binary [of "[PyBool True]" "[PyBool False]" "[PyBool False, PyBool True]" None None None] es b
    obtain i where i: "binaryPositiveLabel es = Some (BINARY_CLASSIFICATION_POSITIVE_LABEL_CANDIDATES ! i)"
      "\<forall>j < i. \<not> py_in (BINARY_CLASSIFICATION_POSITIVE_LABEL_CANDIDATES ! j) [PyBool False, PyBool True]"
      by blast
    have "py_in (BINARY_CLASSIFICATION_POSITIVE_LABEL_CANDIDATES ! 0) [PyBool False, PyBool True]"
      by (simp add: BINARY_CLASSIFICATION_POSITIVE_LABEL_CANDIDATES_def py_in_def py_eq_def)
    with i(2) have "i = 0" by (cases i) auto
    with i(1) have "binaryPositiveLabel es = Some (PyInt 1)"
      by (simp add: BINARY_CLASSIFICATION_POSITIVE_LABEL_CANDIDATES_def)
    with es b show ?thesis by blast
  qed
  have 2: "\<exists>es. ClassificationEvalStats_init [PyStr ''1''] [PyStr ''0''] None
           [PyStr ''0'', PyStr ''1''] None None GUESS = Inr es
         \<and> isBinary es \<and> binaryPositiveLabel es = Some (PyStr ''1'')"
    by (simp add: ClassificationEvalStats_init_def Let_def PredictionEvalStats_init_def
        guess_positive_label_def BINARY_CLASSIFICATION_POSITIVE_LABEL_CANDIDATES_def
        py_in_def py_eq_def)
  have 3: "\<exists>es. ClassificationEvalStats_init [PyInt 1] [PyInt 2] None
           [PyInt 1, PyInt 2, PyInt 3] None None GUESS = Inr es
         \<and> \<not> isBinary es \<and> binaryPositiveLabel es = None"
    by (simp add: ClassificationEvalStats_init_def Let_def PredictionEvalStats_init_def
        guess_positive_label_def)
  from 1 2 3 show ?thesis by blast
qed

section \<open>Metrics that require class probabilities\<close>

lemma init_additional_refused:
  assumes "list_ex requiresProbabilities ams"
  shows "\<exists>msg. ClassificationEvalStats_init yp yt None ls ms (Some ams) arg = Inl (ValueError msg)"
  using assms by (simp add: ClassificationEvalStats_init_def Let_def)

lemma init_additional_accepted:
  assumes "\<not> list_ex requiresProbabilities ams"
  shows "\<exists>es. ClassificationEvalStats_init yp yt None ls ms (Some ams) arg = Inr es
            \<and> \<not> probabilitiesAvailable es"
  using assms by (simp add: ClassificationEvalStats_init_def PredictionEvalStats_init_def Let_def)

lemma metricsDict_loop_filter:
  assumes "\<not> probabilitiesAvailable es"
  shows "metricsDict_loop ext es ms d
       = metricsDict_loop ext es (filter (\<lambda>m. \<not> requiresProbabilities m) ms) d"
  using assms by (induction ms arbitrary: d) (auto split: sum.splits)

lemma metricsDict_loop_dom:
  assumes "metricsDict_loop ext es ms d = Inr d'"
  shows "dom d' = dom d \<union> name ext ` {m \<in> set ms. \<not> requiresProbabilities m \<or> probabilitiesAvailable es}"
  using assms
proof (induction ms arbitrary: d)
  case Nil
  then show ?case by simp
next
  case (Cons m ms)
  show ?case
  proof (cases "\<not> requiresProbabilities m \<or> probabilitiesAvailable es")
    case True
    with Cons.prems obtain v where v: "computeMetricValue ext es m = Inr v"
      and rest: "metricsDict_loop ext es ms (d(name ext m \<mapsto> v)) = Inr d'"
      by (auto split: sum.splits)
    from True have "{m' \<in> set (m # ms). \<not> requiresProbabilities m' \<or> probabilitiesAvailable es}
           = insert m {m' \<in> set ms. \<not> requiresProbabilities m' \<or> probabilitiesAvailable es}"
      by auto
    moreover have "dom (d(name ext m \<mapsto> v)) = insert (name ext m) (dom d)"
      by simp
    ultimately show ?thesis
      using Cons.IH [OF rest] by (simp only: image_insert Un_insert_left Un_insert_right)
  next
    case False
    with Cons.prems have "metricsDict_loop ext es ms d = Inr d'" by simp
    from Cons.IH [OF this] False show ?thesis by auto
  qed
qed

text \<open>
  C3, as the code has it. A metric requires probabilities when its class attribute
  \<open>requiresProbabilities\<close> is set.
  \<^item> \<open>computeValue\<close> raises its \<open>ValueError\<close> when the attribute is set and no
    probabilities are passed. In every other case it returns or raises what
    \<open>_computeValue\<close> does, so it raises a \<open>ValueError\<close> exactly when the attribute is set
    and no probabilities are passed, or \<open>_computeValue\<close> raises one (scikit-learn does
    for arrays of different lengths).
  \<^item> Given no probabilities and additional metrics, the constructor of
    \<open>ClassificationEvalStats\<close> raises \<open>ValueError\<close> when one of them has the attribute set,
    and returns an object without probabilities otherwise.
  \<^item> Without probabilities \<open>metricsDict\<close> runs over the metrics that have the attribute
    unset and skips the others: its keys, when it returns, are the names of the former.
\<close>

theorem probabilities_required:
  "(requiresProbabilities m \<and> probs = None \<longrightarrow>
        computeValue ext m yt yp probs = Inl (ValueError ''requires class probabilities''))
   \<and> (\<not> (requiresProbabilities m \<and> probs = None) \<longrightarrow>
        computeValue ext m yt yp probs = private_computeValue ext m yt yp probs)
   \<and> ((\<exists>msg. computeValue ext m yt yp probs = Inl (ValueError msg))
        = (requiresProbabilities m \<and> probs = None
           \<or> (\<exists>msg. private_computeValue ext m yt yp probs = Inl (ValueError msg))))
   \<and> (list_ex requiresProbabilities ams \<longrightarrow>
        (\<exists>msg. ClassificationEvalStats_init yp yt None ls ms (Some ams) arg = Inl (ValueError msg)))
   \<and> (\<not> list_ex requiresProbabilities ams \<longrightarrow>
        (\<exists>stats. ClassificationEvalStats_init yp yt None ls ms (Some ams) arg = Inr stats
                 \<and> \<not> probabilitiesAvailable stats))
   \<and> (\<not> probabilitiesAvailable es \<longrightarrow>
        metricsDict ext es
          = metricsDict_loop ext es (filter (\<lambda>m. \<not> requiresProbabilities m) (metrics es)) Map.empty
        \<and> (\<forall>d. metricsDict ext es = Inr d \<longrightarrow>
              dom d = name ext ` {m \<in> set (metrics es). \<not> requiresProbabilities m}))"
proof (intro conjI impI allI)
  assume "requiresProbabilities m \<and> probs = None"
  then show "computeValue ext m yt yp probs = Inl (ValueError ''requires class probabilities'')"
    unfolding computeValue_def by (simp del: private_computeValue.simps)
next
  assume "\<not> (requiresProbabilities m \<and> probs = None)"
  then show "computeValue ext m yt yp probs = private_computeValue ext m yt yp probs"
    unfolding computeValue_def by (simp only: if_False)
next
  show "(\<exists>msg. computeValue ext m yt yp probs = Inl (ValueError msg))
        = (requiresProbabilities m \<and> probs = None
           \<or> (\<exists>msg. private_computeValue ext m yt yp probs = Inl (ValueError msg)))"
  proof (cases "requiresProbabilities m \<and> probs = None")
    case True
    then have "computeValue ext m yt yp probs = Inl (ValueError ''requires class probabilities'')"
      unfolding computeValue_def by (simp del: private_computeValue.simps)
    with True show ?thesis by blast
  next
    case False
    then have "computeValue ext m yt yp probs = private_computeValue ext m yt yp probs"
      unfolding computeValue_def by (simp only: if_False)
    with False show ?thesis by auto
  qed
next
  assume "list_ex requiresProbabilities ams"
  then show "\<exists>msg. ClassificationEvalStats_init yp yt None ls ms (Some ams) arg = Inl (ValueError msg)"
    by (rule init_additional_refused)
next
  assume "\<not> list_ex requiresProbabilities ams"
  then show "\<exists>stats. ClassificationEvalStats_init yp yt None ls ms (Some ams) arg = Inr stats
                 \<and> \<not> probabilitiesAvailable stats"
    by (rule init_additional_accepted)
next
  assume "\<not> probabilitiesAvailable es"
  then show "metricsDict ext es
          = metricsDict_loop ext es (filter (\<lambda>m. \<not> requiresProbabilities m) (metrics es)) Map.empty"
    unfolding metricsDict_def by (rule metricsDict_loop_filter)
next
  fix d assume na: "\<not> probabilitiesAvailable es" and d: "metricsDict ext es = Inr d"
  from metricsDict_loop_dom [OF d [unfolded metricsDict_def]] na
  show "dom d = name ext ` {m \<in> set (metrics es). \<not> requiresProbabilities m}"
    by simp
qed

text \<open>
  The guard at work: the geometric mean without probabilities is refused by
  \<open>computeValue\<close> and by the constructor, the accuracy is computed, and \<open>metricsDict\<close>
  leaves the geometric mean out.
\<close>

theorem probabilities_required_witness:
  "computeValue unavailable ClassificationMetricGeometricMeanOfTrueClassProbability
       [PyInt 1] [PyInt 1] None = Inl (ValueError ''requires class probabilities'')
   \<and> computeValue unavailable ClassificationMetricAccuracy [PyInt 1] [PyInt 1] None = Inr (Float 1)
   \<and> (\<exists>msg. ClassificationEvalStats_init [PyInt 1] [PyInt 1] None [PyInt 0, PyInt 1] None
            (Some [ClassificationMetricTopNAccuracy 3]) GUESS = Inl (ValueError msg))
   \<and> (\<exists>stats. ClassificationEvalStats_init [PyInt 1] [PyInt 1] None [PyInt 0, PyInt 1] None
            (Some [ClassificationMetricAccuracy]) GUESS = Inr stats)
   \<and> metricsDict unavailable
        \<lparr>y_true = [PyInt 1], y_predicted = [PyInt 1],
         metrics = [ClassificationMetricAccuracy,
                    ClassificationMetricGeometricMeanOfTrueClassProbability],
         labels = [PyInt 0, PyInt 1], y_predictedClassProbabilities = None,
         probabilitiesAvailable = False, binaryPositiveLabel = Some (PyInt 1), isBinary = True\<rparr>
       = Inr [''accuracy'' \<mapsto> Float 1]"
proof -
  let ?es = "\<lparr>y_true = [PyInt 1], y_predicted = [PyInt 1],
         metrics = [ClassificationMetricAccuracy,
                    ClassificationMetricGeometricMeanOfTrueClassProbability],
         labels = [PyInt 0, PyInt 1], y_predictedClassProbabilities = None,
         probabilitiesAvailable = False, binaryPositiveLabel = Some (PyInt 1), isBinary = True\<rparr>"
  note t = probabilities_required [of
      ClassificationMetricGeometricMeanOfTrueClassProbability None unavailable "[PyInt 1]" "[PyInt 1]"
      "[ClassificationMetricTopNAccuracy 3]" "[PyInt 0, PyInt 1]" None GUESS ?es]
  note u = probabilities_required [of
      ClassificationMetricAccuracy None unavailable "[PyInt 1]" "[PyInt 1]"
      "[ClassificationMetricAccuracy]" "[PyInt 0, PyInt 1]" None GUESS ?es]
  from t have 1: "computeValue unavailable ClassificationMetricGeometricMeanOfTrueClassProbability
       [PyInt 1] [PyInt 1] None = Inl (ValueError ''requires class probabilities'')"
    by simp
  from u have "computeValue unavailable ClassificationMetricAccuracy [PyInt 1] [PyInt 1] None
      = private_computeValue unavailable ClassificationMetricAccuracy [PyInt 1] [PyInt 1] None"
    by simp
  also have "\<dots> = Inr (Float 1)" by (simp add: accuracy_score_def py_eq_def)
  finally have 2: "computeValue unavailable ClassificationMetricAccuracy [PyInt 1] [PyInt 1] None
      = Inr (Float 1)" .
  from t have 3: "\<exists>msg. ClassificationEvalStats_init [PyInt 1] [PyInt 1] None [PyInt 0, PyInt 1] None
            (Some [ClassificationMetricTopNAccuracy 3]) GUESS = Inl (ValueError msg)"
    by simp
  from u have 4: "\<exists>stats. ClassificationEvalStats_init [PyInt 1] [PyInt 1] None [PyInt 0, PyInt 1] None
            (Some [ClassificationMetricAccuracy]) GUESS = Inr stats"
    by auto
  from t have "metricsDict unavailable ?es
      = metricsDict_loop unavailable ?es
          (filter (\<lambda>m. \<not> requiresProbabilities m) (metrics ?es)) Map.empty"
    by simp
  also have "\<dots> = Inr [''accuracy'' \<mapsto> Float 1]"
    by (simp add: computeMetricValue_def computeValue_def accuracy_score_def py_eq_def)
  finally show ?thesis using 1 2 3 4 by blast
qed

text \<open>
  Against C3 as stated. scikit-learn's \<open>accuracy_score\<close> raises \<open>ValueError\<close> for arrays
  of different lengths, so \<open>computeValue\<close> of the accuracy, which does not require
  probabilities, raises \<open>ValueError\<close>. And
  \<open>BinaryClassificationMetricRecallForPrecision\<close> needs the probabilities but leaves
  the attribute unset: the constructor accepts it as an additional metric without
  probabilities, and \<open>metricsDict\<close> evaluates it and raises \<open>ValueError\<close>.
\<close>

theorem probabilities_required_counterexample:
  "\<not> requiresProbabilities ClassificationMetricAccuracy
   \<and> computeValue unavailable ClassificationMetricAccuracy [PyInt 0, PyInt 1] [PyInt 0] None
       = Inl (ValueError ''Found input variables with inconsistent numbers of samples'')
   \<and> ClassificationEvalStats_init [PyInt 1] [PyInt 1] None [PyInt 0, PyInt 1]
        (Some [ClassificationMetricAccuracy])
        (Some [BinaryClassificationMetricRecallForPrecision (Float 0.5) (PyInt 1)]) GUESS
       = Inr recall_stats
   \<and> metricsDict unavailable recall_stats = Inl (ValueError ''No probability data'')"
proof -
  have 1: "computeValue unavailable ClassificationMetricAccuracy [PyInt 0, PyInt 1] [PyInt 0] None
       = Inl (ValueError ''Found input variables with inconsistent numbers of samples'')"
    by (simp add: computeValue_def accuracy_score_def)
  have 2: "ClassificationEvalStats_init [PyInt 1] [PyInt 1] None [PyInt 0, PyInt 1]
        (Some [ClassificationMetricAccuracy])
        (Some [BinaryClassificationMetricRecallForPrecision (Float 0.5) (PyInt 1)]) GUESS
       = Inr recall_stats"
    by (simp add: ClassificationEvalStats_init_def PredictionEvalStats_init_def Let_def
        guess_positive_label_def BINARY_CLASSIFICATION_POSITIVE_LABEL_CANDIDATES_def
        py_in_def py_eq_def recall_stats_def)
  have 3: "metricsDict unavailable recall_stats = Inl (ValueError ''No probability data'')"
    by (simp add: metricsDict_def recall_stats_def computeMetricValue_def computeValue_def
        accuracy_score_def py_eq_def RecallForPrecision_computeValueForEvalStats_def
        getBinaryClassificationProbabilityThresholdVariationData_def
        BinaryClassificationProbabilityThresholdVariationData_init_def np_linspace_def Let_def
        fromEvalStats_def upt_conv_Cons)
  from 1 2 3 show ?thesis by simp
qed

section \<open>The threshold sweep\<close>

lemma double_one: "double 1 = 1"
  using double_int [of 1] by simp

lemma np_linspace_101:
  "np_linspace 0 1 101 = map (\<lambda>k. Float (sweep_threshold k)) [0..<101]"
  unfolding np_linspace_def Let_def
  by (intro map_cong refl) (simp add: double_zero double_one double_double sweep_threshold_def)

lemma nth_sweep:
  assumes "k < 101"
  shows "map f [0..<101] ! k = f k"
proof -
  have "k < length [0..<101]" using assms by simp
  then show ?thesis by (simp only: nth_map nth_upt) simp
qed

lemma step_value: "double (1 / 100) = 5764607523034235 / 2 ^ 59"
  using double_small [of 7 "1 / 100"] by (simp add: round_half_even_def)

lemma quantum_le:
  assumes "x \<noteq> 0" and "\<bar>x\<bar> < 2 powr of_int e" and "- 1022 < e"
  shows "quantum x \<le> 2 powr of_int (e - 53)"
  unfolding quantum_def using quantum_exponent [OF assms] by (intro powr_mono) simp_all

text \<open>Every threshold is within \<open>2 ^ - 52\<close> of \<open>k / 100\<close>.\<close>

lemma sweep_threshold_close:
  assumes "k \<le> 100"
  shows "\<bar>sweep_threshold k - real k / 100\<bar> \<le> 1 / 2 ^ 52"
proof (cases "k = 0 \<or> k = 100")
  case True
  then show ?thesis by (auto simp: sweep_threshold_def double_zero)
next
  case False
  then have k: "0 < k" "k < 100" using assms by simp_all
  let ?s = "5764607523034235 / 2 ^ 59 :: real"
  let ?x = "real k * ?s"
  have t: "sweep_threshold k = double ?x"
    using k by (simp add: sweep_threshold_def step_value)
  have x0: "?x \<noteq> 0" using k by simp
  have "?x < 100 * ?s" using k by simp
  also have "\<dots> < 2" by simp
  finally have "\<bar>?x\<bar> < 2" using k by simp
  then have "\<bar>?x\<bar> < 2 powr of_int 1" by simp
  from quantum_le [OF x0 this] have "quantum ?x \<le> 2 powr of_int (- int 52)" by simp
  then have q: "quantum ?x \<le> 1 / 2 ^ 52" by (simp only: powr_minus_nat)
  have 1: "\<bar>double ?x - ?x\<bar> \<le> 1 / 2 ^ 53"
    using double_error [of ?x] q by simp
  have "?x - real k / 100 = real k * (3 / (25 * 2 ^ 59))" by (simp add: field_simps)
  moreover have "real k * (3 / (25 * 2 ^ 59)) \<le> 100 * (3 / (25 * 2 ^ 59))"
    using k by (intro mult_right_mono) simp_all
  moreover have "0 \<le> real k * (3 / (25 * 2 ^ 59 :: real))" by simp
  ultimately have 2: "\<bar>?x - real k / 100\<bar> \<le> 12 / 2 ^ 59" by simp
  have "\<bar>double ?x - real k / 100\<bar> \<le> \<bar>double ?x - ?x\<bar> + \<bar>?x - real k / 100\<bar>" by simp
  also have "\<dots> \<le> 1 / 2 ^ 53 + 12 / 2 ^ 59" using 1 2 by (rule add_mono)
  also have "\<dots> \<le> 1 / 2 ^ 52" by simp
  finally show ?thesis unfolding t .
qed

lemma map_result_all_Inr:
  assumes "\<And>x. x \<in> set xs \<Longrightarrow> f x = Inr (g x)"
  shows "map_result f xs = Inr (map g xs)"
  using assms by (induction xs) auto

lemma count_loop_fields:
  "tp (foldl count_pair c xs) = tp c + length (filter (\<lambda>x. snd x \<and> fst x) xs)
   \<and> fn (foldl count_pair c xs) = fn c + length (filter (\<lambda>x. snd x \<and> \<not> fst x) xs)
   \<and> fp (foldl count_pair c xs) = fp c + length (filter (\<lambda>x. \<not> snd x \<and> fst x) xs)
   \<and> tn (foldl count_pair c xs) = tn c + length (filter (\<lambda>x. \<not> snd x \<and> \<not> fst x) xs)
   \<and> zeroDenominatorMetricValue (foldl count_pair c xs) = zeroDenominatorMetricValue c"
proof (induction xs arbitrary: c)
  case Nil
  show ?case by simp
next
  case (Cons x xs)
  obtain p g where x: "x = (p, g)" by (cases x)
  show ?case
    using Cons.IH [of "count_pair c x"] unfolding x
    by (cases p; cases g) (simp_all add: count_pair_def)
qed

lemma counts_init_fields:
  "tp (BinaryClassificationCounts_init ps gs z) = length (filter (\<lambda>x. snd x \<and> fst x) (zip ps gs))"
  "fn (BinaryClassificationCounts_init ps gs z) = length (filter (\<lambda>x. snd x \<and> \<not> fst x) (zip ps gs))"
  "fp (BinaryClassificationCounts_init ps gs z) = length (filter (\<lambda>x. \<not> snd x \<and> fst x) (zip ps gs))"
  "tn (BinaryClassificationCounts_init ps gs z) = length (filter (\<lambda>x. \<not> snd x \<and> \<not> fst x) (zip ps gs))"
  "zeroDenominatorMetricValue (BinaryClassificationCounts_init ps gs z) = z"
  by (simp_all add: BinaryClassificationCounts_init_def count_loop_fields)

lemma getitem_column:
  assumes "pos \<in> set (columns df)"
  shows "\<exists>probs. getitem df (Some pos) = Inr probs"
proof -
  from assms obtain cv where cv: "cv \<in> set (series df)" "fst cv = pos"
    by (auto simp: columns_def)
  then have "find (\<lambda>cv. fst cv = pos) (series df) \<noteq> None"
    unfolding find_None_iff by blast
  then show ?thesis by (auto simp: getitem_def)
qed

lemma fromEvalStats_value:
  assumes "isBinary es" "y_predictedClassProbabilities es = Some df"
    "binaryPositiveLabel es = Some pos" "getitem df (Some pos) = Inr probs"
  shows "fromEvalStats es t =
     Inr (fromProbabilityThreshold probs t (map (\<lambda>g. py_eq g pos) (y_true es)))"
proof -
  have "label_is (Some pos) = (\<lambda>g. py_eq g pos)"
    by (rule ext) (simp add: label_is_def)
  then show ?thesis using assms by (simp add: fromEvalStats_def)
qed

lemma variation_value:
  assumes "isBinary es" "y_predictedClassProbabilities es = Some df"
    "binaryPositiveLabel es = Some pos" "getitem df (Some pos) = Inr probs"
  shows "BinaryClassificationProbabilityThresholdVariationData_init es =
     Inr \<lparr>thresholds = map (\<lambda>k. Float (sweep_threshold k)) [0..<101],
          counts = map (\<lambda>t. fromProbabilityThreshold probs t (map (\<lambda>g. py_eq g pos) (y_true es)))
                     (map (\<lambda>k. Float (sweep_threshold k)) [0..<101])\<rparr>"
proof -
  have "map_result (fromEvalStats es) (np_linspace 0 1 101)
      = Inr (map (\<lambda>t. fromProbabilityThreshold probs t (map (\<lambda>g. py_eq g pos) (y_true es)))
               (np_linspace 0 1 101))"
    by (rule map_result_all_Inr) (rule fromEvalStats_value [OF assms])
  then show ?thesis
    unfolding BinaryClassificationProbabilityThresholdVariationData_init_def Let_def
    by (simp only: np_linspace_101 sum.case)
qed

text \<open>
  C1, as the code has it. For every \<open>ClassificationEvalStats\<close> with \<open>isBinary\<close>, class
  probabilities in a frame whose column labels are distinct and of one type and a
  positive label that is one of them (for pandas, which tells \<open>True\<close> from 1), the constructor of
  \<open>BinaryClassificationProbabilityThresholdVariationData\<close> returns an object with 101
  thresholds, those of \<open>np.linspace(0, 1, 101)\<close>: the doubles \<open>k * 0.01\<close> for \<open>k\<close> from 0 to
  99, and 1. Each is within \<open>2 ^ - 52\<close> of \<open>k / 100\<close>. For each threshold the counts are
  those obtained by predicting the positive class for a sample exactly when its
  probability in the positive label's column is at least the threshold: tp, fn, fp and tn
  count the samples by (true label is the positive label, probability reaches the
  threshold).
\<close>

theorem threshold_sweep:
  assumes "isBinary es" and "y_predictedClassProbabilities es = Some df"
    and "binaryPositiveLabel es = Some pos" and "pos \<in> set (columns df)"
    and "simple_index (columns df)"
  shows "\<exists>varData probs.
      BinaryClassificationProbabilityThresholdVariationData_init es = Inr varData
    \<and> getitem df (Some pos) = Inr probs
    \<and> thresholds varData = np_linspace 0 1 101
    \<and> thresholds varData = map (\<lambda>k. Float (sweep_threshold k)) [0..<101]
    \<and> length (thresholds varData) = 101
    \<and> length (counts varData) = 101
    \<and> (\<forall>k < 101.
         thresholds varData ! k = Float (sweep_threshold k)
       \<and> \<bar>sweep_threshold k - real k / 100\<bar> \<le> 1 / 2 ^ 52
       \<and> counts varData ! k =
           BinaryClassificationCounts_init (map (\<lambda>p. float_ge p (Float (sweep_threshold k))) probs)
             (map (\<lambda>g. py_eq g pos) (y_true es)) (Float 0)
       \<and> tp (counts varData ! k) = length (filter (\<lambda>x. py_eq (snd x) pos \<and> float_ge (fst x) (Float (sweep_threshold k))) (zip probs (y_true es)))
       \<and> fn (counts varData ! k) = length (filter (\<lambda>x. py_eq (snd x) pos \<and> \<not> float_ge (fst x) (Float (sweep_threshold k))) (zip probs (y_true es)))
       \<and> fp (counts varData ! k) = length (filter (\<lambda>x. \<not> py_eq (snd x) pos \<and> float_ge (fst x) (Float (sweep_threshold k))) (zip probs (y_true es)))
       \<and> tn (counts varData ! k) = length (filter (\<lambda>x. \<not> py_eq (snd x) pos \<and> \<not> float_ge (fst x) (Float (sweep_threshold k))) (zip probs (y_true es))))"
proof -
  from getitem_column [OF assms(4)] obtain probs where probs: "getitem df (Some pos) = Inr probs"
    by blast
  let ?gts = "map (\<lambda>g. py_eq g pos) (y_true es)"
  let ?ts = "map (\<lambda>k. Float (sweep_threshold k)) [0..<101]"
  let ?vd = "\<lparr>thresholds = ?ts, counts = map (\<lambda>t. fromProbabilityThreshold probs t ?gts) ?ts\<rparr>"
  have vd: "BinaryClassificationProbabilityThresholdVariationData_init es = Inr ?vd"
    by (rule variation_value [OF assms(1-3) probs])
  have zipmap: "\<And>P t. length (filter P (zip (map (\<lambda>p. float_ge p t) probs) ?gts))
      = length (filter (\<lambda>x. P (float_ge (fst x) t, py_eq (snd x) pos)) (zip probs (y_true es)))"
  proof -
    fix P :: "bool \<times> bool \<Rightarrow> bool" and t
    have "zip (map (\<lambda>p. float_ge p t) probs) ?gts
        = map (\<lambda>x. (float_ge (fst x) t, py_eq (snd x) pos)) (zip probs (y_true es))"
      by (simp add: zip_map_map case_prod_unfold)
    then show "length (filter P (zip (map (\<lambda>p. float_ge p t) probs) ?gts))
      = length (filter (\<lambda>x. P (float_ge (fst x) t, py_eq (snd x) pos)) (zip probs (y_true es)))"
      by (simp add: filter_map comp_def)
  qed
  have each: "\<forall>k < 101.
         thresholds ?vd ! k = Float (sweep_threshold k)
       \<and> \<bar>sweep_threshold k - real k / 100\<bar> \<le> 1 / 2 ^ 52
       \<and> counts ?vd ! k =
           BinaryClassificationCounts_init (map (\<lambda>p. float_ge p (Float (sweep_threshold k))) probs) ?gts (Float 0)
       \<and> tp (counts ?vd ! k) = length (filter (\<lambda>x. py_eq (snd x) pos \<and> float_ge (fst x) (Float (sweep_threshold k))) (zip probs (y_true es)))
       \<and> fn (counts ?vd ! k) = length (filter (\<lambda>x. py_eq (snd x) pos \<and> \<not> float_ge (fst x) (Float (sweep_threshold k))) (zip probs (y_true es)))
       \<and> fp (counts ?vd ! k) = length (filter (\<lambda>x. \<not> py_eq (snd x) pos \<and> float_ge (fst x) (Float (sweep_threshold k))) (zip probs (y_true es)))
       \<and> tn (counts ?vd ! k) = length (filter (\<lambda>x. \<not> py_eq (snd x) pos \<and> \<not> float_ge (fst x) (Float (sweep_threshold k))) (zip probs (y_true es)))"
  proof (intro allI impI)
    fix k :: nat assume k: "k < 101"
    have tk: "?ts ! k = Float (sweep_threshold k)" by (rule nth_sweep [OF k])
    have th: "thresholds ?vd ! k = Float (sweep_threshold k)"
      using tk by (simp only: BinaryClassificationProbabilityThresholdVariationData.simps)
    have cl: "\<bar>sweep_threshold k - real k / 100\<bar> \<le> 1 / 2 ^ 52"
      using k by (intro sweep_threshold_close) simp
    have "k < length ?ts" using k by simp
    then have "map (\<lambda>t. fromProbabilityThreshold probs t ?gts) ?ts ! k
        = fromProbabilityThreshold probs (?ts ! k) ?gts"
      by (rule nth_map)
    then have nth: "counts ?vd ! k = fromProbabilityThreshold probs (Float (sweep_threshold k)) ?gts"
      by (simp only: BinaryClassificationProbabilityThresholdVariationData.simps tk)
    then have c: "counts ?vd ! k =
        BinaryClassificationCounts_init (map (\<lambda>p. float_ge p (Float (sweep_threshold k))) probs) ?gts (Float 0)"
      by (simp only: fromProbabilityThreshold_def)
    have fields:
      "tp (counts ?vd ! k) = length (filter (\<lambda>x. py_eq (snd x) pos \<and> float_ge (fst x) (Float (sweep_threshold k))) (zip probs (y_true es)))"
      "fn (counts ?vd ! k) = length (filter (\<lambda>x. py_eq (snd x) pos \<and> \<not> float_ge (fst x) (Float (sweep_threshold k))) (zip probs (y_true es)))"
      "fp (counts ?vd ! k) = length (filter (\<lambda>x. \<not> py_eq (snd x) pos \<and> float_ge (fst x) (Float (sweep_threshold k))) (zip probs (y_true es)))"
      "tn (counts ?vd ! k) = length (filter (\<lambda>x. \<not> py_eq (snd x) pos \<and> \<not> float_ge (fst x) (Float (sweep_threshold k))) (zip probs (y_true es)))"
      unfolding c counts_init_fields zipmap by simp_all
    show "thresholds ?vd ! k = Float (sweep_threshold k)
       \<and> \<bar>sweep_threshold k - real k / 100\<bar> \<le> 1 / 2 ^ 52
       \<and> counts ?vd ! k =
           BinaryClassificationCounts_init (map (\<lambda>p. float_ge p (Float (sweep_threshold k))) probs) ?gts (Float 0)
       \<and> tp (counts ?vd ! k) = length (filter (\<lambda>x. py_eq (snd x) pos \<and> float_ge (fst x) (Float (sweep_threshold k))) (zip probs (y_true es)))
       \<and> fn (counts ?vd ! k) = length (filter (\<lambda>x. py_eq (snd x) pos \<and> \<not> float_ge (fst x) (Float (sweep_threshold k))) (zip probs (y_true es)))
       \<and> fp (counts ?vd ! k) = length (filter (\<lambda>x. \<not> py_eq (snd x) pos \<and> float_ge (fst x) (Float (sweep_threshold k))) (zip probs (y_true es)))
       \<and> tn (counts ?vd ! k) = length (filter (\<lambda>x. \<not> py_eq (snd x) pos \<and> \<not> float_ge (fst x) (Float (sweep_threshold k))) (zip probs (y_true es)))"
      by (intro conjI th cl c fields)
  qed
  have "thresholds ?vd = np_linspace 0 1 101" by (simp only: np_linspace_101
      BinaryClassificationProbabilityThresholdVariationData.simps)
  moreover have "thresholds ?vd = ?ts" "length (thresholds ?vd) = 101" "length (counts ?vd) = 101"
    by simp_all
  ultimately show ?thesis using vd probs each by blast
qed

lemma example_stats_constructed:
  "ClassificationEvalStats_init [PyInt 0, PyInt 1, PyInt 0] [PyInt 0, PyInt 1, PyInt 1]
     (Some example_frame) [PyInt 0, PyInt 1] None None GUESS = Inr example_stats"
  by (simp add: ClassificationEvalStats_init_def Let_def PredictionEvalStats_init_def
      guess_positive_label_def BINARY_CLASSIFICATION_POSITIVE_LABEL_CANDIDATES_def
      py_in_def py_eq_def py_set_def columns_def example_frame_def example_stats_def)

lemma mislabelled_stats_constructed:
  "ClassificationEvalStats_init [PyInt 0, PyInt 1, PyInt 0] [PyInt 0, PyInt 1, PyInt 1]
     (Some example_frame) [PyInt 0, PyInt 1] None None (Given (Some (PyStr ''yes'')))
   = Inr mislabelled_stats"
  by (simp add: ClassificationEvalStats_init_def Let_def PredictionEvalStats_init_def
      py_set_def columns_def example_frame_def mislabelled_stats_def)

lemma sweep_threshold_0: "sweep_threshold 0 = 0"
  by (simp add: sweep_threshold_def double_zero)

lemma np_linspace_first:
  "np_linspace 0 1 101 = Float 0 # map (\<lambda>k. Float (sweep_threshold k)) [1..<101]"
proof -
  have "[0..<101] = 0 # [1..<101]" by (subst upt_conv_Cons) simp_all
  then show ?thesis unfolding np_linspace_101 by (simp only: list.map sweep_threshold_0)
qed

lemma variation_mislabelled:
  "BinaryClassificationProbabilityThresholdVariationData_init mislabelled_stats
     = Inl (KeyError (Some (PyStr ''yes'')))"
proof -
  have "fromEvalStats mislabelled_stats (Float 0) = Inl (KeyError (Some (PyStr ''yes'')))"
    by (simp add: fromEvalStats_def mislabelled_stats_def example_frame_def getitem_def)
  then show ?thesis
    unfolding BinaryClassificationProbabilityThresholdVariationData_init_def Let_def
      np_linspace_first
    by simp
qed

text \<open>The doubles met in the examples.\<close>

lemma sweep_threshold_50: "sweep_threshold 50 = 1 / 2"
proof -
  have "double (50 * (5764607523034235 / 2 ^ 59)) = 1 / 2"
    using double_small [of 1 "50 * (5764607523034235 / 2 ^ 59)"]
    by (simp add: round_half_even_def)
  then show ?thesis by (simp add: sweep_threshold_def step_value)
qed

lemma sweep_threshold_70: "sweep_threshold 70 = 6305039478318695 / 2 ^ 53"
proof -
  have "double (70 * (5764607523034235 / 2 ^ 59)) = 6305039478318695 / 2 ^ 53"
    using double_small [of 1 "70 * (5764607523034235 / 2 ^ 59)"]
    by (simp add: round_half_even_def)
  then show ?thesis by (simp add: sweep_threshold_def step_value)
qed

lemma double_half: "double (1 / 2) = 1 / 2"
  using double_dyadic [of 1 1] by simp

lemma double_0_7: "double (7 / 10) = 6305039478318694 / 2 ^ 53"
  using double_small [of 1 "7 / 10"] by (simp add: round_half_even_def)

lemma double_0_2: "double (1 / 5) = 7205759403792794 / 2 ^ 55"
  using double_small [of 3 "1 / 5"] by (simp add: round_half_even_def)

lemma double_threshold_70:
  "double (6305039478318695 / 2 ^ 53) = 6305039478318695 / 2 ^ 53"
  using double_dyadic [of 6305039478318695 53] by simp

text \<open>
  Against C1 as stated. The positive label may be passed explicitly; the constructor of
  \<open>ClassificationEvalStats\<close> logs a warning when it is not among the labels and goes on.
  The object is binary and has probabilities, and the sweep raises \<open>KeyError\<close> when it
  reads the positive label's column. And the thresholds are not the doubles nearest to
  \<open>k / 100\<close>: the one at position 70 is 0.7000000000000001, the double after 0.7, so a
  sample whose probability is 0.7 is not predicted positive there.
\<close>

theorem threshold_sweep_counterexample:
  "ClassificationEvalStats_init [PyInt 0, PyInt 1, PyInt 0] [PyInt 0, PyInt 1, PyInt 1]
     (Some example_frame) [PyInt 0, PyInt 1] None None (Given (Some (PyStr ''yes'')))
     = Inr mislabelled_stats
   \<and> isBinary mislabelled_stats
   \<and> y_predictedClassProbabilities mislabelled_stats = Some example_frame
   \<and> BinaryClassificationProbabilityThresholdVariationData_init mislabelled_stats
     = Inl (KeyError (Some (PyStr ''yes'')))
   \<and> np_linspace 0 1 101 ! 70 = Float (6305039478318695 / 2 ^ 53)
   \<and> double 0.7 = 6305039478318694 / 2 ^ 53
   \<and> \<not> float_ge (Float 0.7) (np_linspace 0 1 101 ! 70)"
proof -
  have t: "np_linspace 0 1 101 ! 70 = Float (6305039478318695 / 2 ^ 53)"
    unfolding np_linspace_101 using nth_sweep [of 70 "\<lambda>k. Float (sweep_threshold k)"]
    by (simp add: sweep_threshold_70)
  have d: "double 0.7 = 6305039478318694 / 2 ^ 53"
    using double_0_7 by simp
  have "\<not> float_ge (Float 0.7) (Float (6305039478318695 / 2 ^ 53))"
    unfolding float_ge.simps d double_threshold_70 by simp
  with t d mislabelled_stats_constructed variation_mislabelled show ?thesis
    by (simp add: mislabelled_stats_def)
qed

text \<open>
  The sweep on an evaluation of three samples whose probabilities of the positive label
  are 0.2, 0.7 and 0.5: at position 50 the threshold is 0.5 and two samples are predicted
  positive, at position 70 it is 0.7000000000000001 and none is.
\<close>

theorem threshold_sweep_witness:
  "isBinary example_stats
   \<and> y_predictedClassProbabilities example_stats = Some example_frame
   \<and> binaryPositiveLabel example_stats = Some (PyInt 1)
   \<and> PyInt 1 \<in> set (columns example_frame)
   \<and> simple_index (columns example_frame)
   \<and> (\<exists>varData.
        BinaryClassificationProbabilityThresholdVariationData_init example_stats = Inr varData
      \<and> length (thresholds varData) = 101
      \<and> thresholds varData ! 50 = Float 0.5
      \<and> tp (counts varData ! 50) = 2 \<and> fn (counts varData ! 50) = 0
      \<and> fp (counts varData ! 50) = 0 \<and> tn (counts varData ! 50) = 1
      \<and> thresholds varData ! 70 = Float (6305039478318695 / 2 ^ 53)
      \<and> tp (counts varData ! 70) = 0 \<and> fn (counts varData ! 70) = 2
      \<and> fp (counts varData ! 70) = 0 \<and> tn (counts varData ! 70) = 1)"
proof -
  have h: "isBinary example_stats"
    "y_predictedClassProbabilities example_stats = Some example_frame"
    "binaryPositiveLabel example_stats = Some (PyInt 1)"
    "PyInt 1 \<in> set (columns example_frame)"
    "simple_index (columns example_frame)"
    by (simp_all add: example_stats_def example_frame_def columns_def simple_index_def)
  from threshold_sweep [OF h] obtain varData probs where
    vd: "BinaryClassificationProbabilityThresholdVariationData_init example_stats = Inr varData"
    and probs: "getitem example_frame (Some (PyInt 1)) = Inr probs"
    and ts: "length (thresholds varData) = 101"
    and cs: "\<forall>k < 101.
         thresholds varData ! k = Float (sweep_threshold k)
       \<and> \<bar>sweep_threshold k - real k / 100\<bar> \<le> 1 / 2 ^ 52
       \<and> counts varData ! k =
           BinaryClassificationCounts_init (map (\<lambda>p. float_ge p (Float (sweep_threshold k))) probs)
             (map (\<lambda>g. py_eq g (PyInt 1)) (y_true example_stats)) (Float 0)
       \<and> tp (counts varData ! k) = length (filter (\<lambda>x. py_eq (snd x) (PyInt 1) \<and> float_ge (fst x) (Float (sweep_threshold k))) (zip probs (y_true example_stats)))
       \<and> fn (counts varData ! k) = length (filter (\<lambda>x. py_eq (snd x) (PyInt 1) \<and> \<not> float_ge (fst x) (Float (sweep_threshold k))) (zip probs (y_true example_stats)))
       \<and> fp (counts varData ! k) = length (filter (\<lambda>x. \<not> py_eq (snd x) (PyInt 1) \<and> float_ge (fst x) (Float (sweep_threshold k))) (zip probs (y_true example_stats)))
       \<and> tn (counts varData ! k) = length (filter (\<lambda>x. \<not> py_eq (snd x) (PyInt 1) \<and> \<not> float_ge (fst x) (Float (sweep_threshold k))) (zip probs (y_true example_stats)))"
    by blast
  from probs have p: "probs = [Float 0.2, Float 0.7, Float 0.5]"
    by (simp add: getitem_def example_frame_def)
  have ge50: "\<not> float_ge (Float 0.2) (Float (1 / 2))" "float_ge (Float 0.7) (Float (1 / 2))"
    "float_ge (Float 0.5) (Float (1 / 2))"
    using double_0_2 double_0_7 double_half by simp_all
  have ge70: "\<not> float_ge (Float 0.2) (Float (6305039478318695 / 2 ^ 53))"
    "\<not> float_ge (Float 0.7) (Float (6305039478318695 / 2 ^ 53))"
    "\<not> float_ge (Float 0.5) (Float (6305039478318695 / 2 ^ 53))"
    using double_0_2 double_0_7 double_half double_threshold_70 by simp_all
  have "(50::nat) < 101" by simp
  with cs have c50:
    "thresholds varData ! 50 = Float (sweep_threshold 50)"
    "tp (counts varData ! 50) = length (filter (\<lambda>x. py_eq (snd x) (PyInt 1) \<and> float_ge (fst x) (Float (sweep_threshold 50))) (zip probs (y_true example_stats)))"
    "fn (counts varData ! 50) = length (filter (\<lambda>x. py_eq (snd x) (PyInt 1) \<and> \<not> float_ge (fst x) (Float (sweep_threshold 50))) (zip probs (y_true example_stats)))"
    "fp (counts varData ! 50) = length (filter (\<lambda>x. \<not> py_eq (snd x) (PyInt 1) \<and> float_ge (fst x) (Float (sweep_threshold 50))) (zip probs (y_true example_stats)))"
    "tn (counts varData ! 50) = length (filter (\<lambda>x. \<not> py_eq (snd x) (PyInt 1) \<and> \<not> float_ge (fst x) (Float (sweep_threshold 50))) (zip probs (y_true example_stats)))"
    by blast+
  have v50: "thresholds varData ! 50 = Float 0.5"
    "tp (counts varData ! 50) = 2" "fn (counts varData ! 50) = 0"
    "fp (counts varData ! 50) = 0" "tn (counts varData ! 50) = 1"
    unfolding c50 p sweep_threshold_50 using ge50
    by (simp_all add: example_stats_def py_eq_def)
  have "(70::nat) < 101" by simp
  with cs have c70:
    "thresholds varData ! 70 = Float (sweep_threshold 70)"
    "tp (counts varData ! 70) = length (filter (\<lambda>x. py_eq (snd x) (PyInt 1) \<and> float_ge (fst x) (Float (sweep_threshold 70))) (zip probs (y_true example_stats)))"
    "fn (counts varData ! 70) = length (filter (\<lambda>x. py_eq (snd x) (PyInt 1) \<and> \<not> float_ge (fst x) (Float (sweep_threshold 70))) (zip probs (y_true example_stats)))"
    "fp (counts varData ! 70) = length (filter (\<lambda>x. \<not> py_eq (snd x) (PyInt 1) \<and> float_ge (fst x) (Float (sweep_threshold 70))) (zip probs (y_true example_stats)))"
    "tn (counts varData ! 70) = length (filter (\<lambda>x. \<not> py_eq (snd x) (PyInt 1) \<and> \<not> float_ge (fst x) (Float (sweep_threshold 70))) (zip probs (y_true example_stats)))"
    by blast+
  have v70: "thresholds varData ! 70 = Float (6305039478318695 / 2 ^ 53)"
    "tp (counts varData ! 70) = 0" "fn (counts varData ! 70) = 2"
    "fp (counts varData ! 70) = 0" "tn (counts varData ! 70) = 1"
    unfolding c70 p sweep_threshold_70 using ge70
    by (simp_all add: example_stats_def py_eq_def)
  show ?thesis
    by (intro conjI exI [of _ varData] h vd ts v50 v70)
qed

section \<open>Recall for a minimum precision\<close>

lemma getPrecision_sweep:
  "zeroDenominatorMetricValue c = Float 0 \<Longrightarrow> getPrecision c = Inr (Float (precision_value c))"
  by (simp add: getPrecision_value precision_value_def)

lemma getRecall_sweep:
  "zeroDenominatorMetricValue c = Float 0 \<Longrightarrow> getRecall c = Inr (Float (recall_value c))"
  by (simp add: getRecall_value recall_value_def)

lemma recall_step_value:
  assumes "zeroDenominatorMetricValue c = Float 0"
  shows "recall_step p (Inr acc) c =
     Inr (if float_ge (Float (precision_value c)) p
             \<and> (isnan acc \<or> float_lt acc (Float (recall_value c)))
          then Float (recall_value c) else acc)"
  using assms by (simp add: recall_step_def getPrecision_sweep getRecall_sweep)

text \<open>
  What the loop over the entries keeps: nothing (NaN) as long as no entry qualifies, and
  otherwise the recall of a qualifying entry (or the value it started with) that no other
  one exceeds.
\<close>

lemma recall_loop_value:
  assumes "\<forall>c \<in> set cs. zeroDenominatorMetricValue c = Float 0"
  shows "\<exists>res. foldl (recall_step p) (Inr acc) cs = Inr res
     \<and> ((res = NaN) = (acc = NaN \<and> (\<forall>c \<in> set cs. \<not> float_ge (Float (precision_value c)) p)))
     \<and> (\<forall>r. res = Float r \<longrightarrow>
           (acc = Float r \<or> (\<exists>c \<in> set cs. float_ge (Float (precision_value c)) p \<and> recall_value c = r))
         \<and> (\<forall>a. acc = Float a \<longrightarrow> double a \<le> double r)
         \<and> (\<forall>c \<in> set cs. float_ge (Float (precision_value c)) p \<longrightarrow>
               double (recall_value c) \<le> double r))"
  using assms
proof (induction cs arbitrary: acc)
  case Nil
  show ?case by simp
next
  case (Cons c cs)
  then have z: "zeroDenominatorMetricValue c = Float 0"
    and rest: "\<forall>c \<in> set cs. zeroDenominatorMetricValue c = Float 0" by simp_all
  define acc' where "acc' = (if float_ge (Float (precision_value c)) p
             \<and> (isnan acc \<or> float_lt acc (Float (recall_value c)))
          then Float (recall_value c) else acc)"
  from Cons.IH [OF rest, of acc'] obtain res where
    res: "foldl (recall_step p) (Inr acc') cs = Inr res"
    and nan: "(res = NaN) = (acc' = NaN \<and> (\<forall>c \<in> set cs. \<not> float_ge (Float (precision_value c)) p))"
    and val: "\<forall>r. res = Float r \<longrightarrow>
           (acc' = Float r \<or> (\<exists>c \<in> set cs. float_ge (Float (precision_value c)) p \<and> recall_value c = r))
         \<and> (\<forall>a. acc' = Float a \<longrightarrow> double a \<le> double r)
         \<and> (\<forall>c \<in> set cs. float_ge (Float (precision_value c)) p \<longrightarrow>
               double (recall_value c) \<le> double r)"
    by blast
  have 1: "foldl (recall_step p) (Inr acc) (c # cs) = Inr res"
    unfolding foldl_Cons recall_step_value [OF z] using res by (simp only: acc'_def)
  show ?case
  proof (cases "float_ge (Float (precision_value c)) p")
    case False
    then have a: "acc' = acc" by (simp add: acc'_def)
    from nan val False show ?thesis
      unfolding a by (intro exI [of _ res] conjI 1) auto
  next
    case q: True
    show ?thesis
    proof (cases "isnan acc \<or> float_lt acc (Float (recall_value c))")
      case True
      then have a: "acc' = Float (recall_value c)" using q by (simp add: acc'_def)
      have below: "\<And>x. acc = Float x \<Longrightarrow> double x \<le> double (recall_value c)"
        using True by auto
      from nan have 2: "(res = NaN) = (acc = NaN \<and> (\<forall>c \<in> set (c # cs). \<not> float_ge (Float (precision_value c)) p))"
        unfolding a using q by simp
      have 3: "\<forall>r. res = Float r \<longrightarrow>
           (acc = Float r \<or> (\<exists>c \<in> set (c # cs). float_ge (Float (precision_value c)) p \<and> recall_value c = r))
         \<and> (\<forall>x. acc = Float x \<longrightarrow> double x \<le> double r)
         \<and> (\<forall>c \<in> set (c # cs). float_ge (Float (precision_value c)) p \<longrightarrow>
               double (recall_value c) \<le> double r)"
      proof (intro allI impI)
        fix r assume r: "res = Float r"
        from val r have v1: "acc' = Float r \<or> (\<exists>c \<in> set cs. float_ge (Float (precision_value c)) p \<and> recall_value c = r)"
          and v2: "double (recall_value c) \<le> double r"
          and v3: "\<forall>c \<in> set cs. float_ge (Float (precision_value c)) p \<longrightarrow>
               double (recall_value c) \<le> double r"
          unfolding a by blast+
        from v1 q have "\<exists>c \<in> set (c # cs). float_ge (Float (precision_value c)) p \<and> recall_value c = r"
          unfolding a by auto
        moreover have "\<forall>x. acc = Float x \<longrightarrow> double x \<le> double r"
        proof (intro allI impI)
          fix x assume "acc = Float x"
          from below [OF this] v2 show "double x \<le> double r" by (rule order_trans)
        qed
        moreover have "\<forall>c \<in> set (c # cs). float_ge (Float (precision_value c)) p \<longrightarrow>
               double (recall_value c) \<le> double r"
          using v2 v3 by simp
        ultimately show "(acc = Float r \<or> (\<exists>c \<in> set (c # cs). float_ge (Float (precision_value c)) p \<and> recall_value c = r))
         \<and> (\<forall>x. acc = Float x \<longrightarrow> double x \<le> double r)
         \<and> (\<forall>c \<in> set (c # cs). float_ge (Float (precision_value c)) p \<longrightarrow>
               double (recall_value c) \<le> double r)"
          by blast
      qed
      from 1 2 3 show ?thesis by blast
    next
      case False
      then obtain x where x: "acc = Float x" and le: "double (recall_value c) \<le> double x"
        by (cases acc) auto
      from False have a: "acc' = acc" by (simp add: acc'_def)
      from nan have 2: "(res = NaN) = (acc = NaN \<and> (\<forall>c \<in> set (c # cs). \<not> float_ge (Float (precision_value c)) p))"
        unfolding a x by simp
      have 3: "\<forall>r. res = Float r \<longrightarrow>
           (acc = Float r \<or> (\<exists>c \<in> set (c # cs). float_ge (Float (precision_value c)) p \<and> recall_value c = r))
         \<and> (\<forall>x. acc = Float x \<longrightarrow> double x \<le> double r)
         \<and> (\<forall>c \<in> set (c # cs). float_ge (Float (precision_value c)) p \<longrightarrow>
               double (recall_value c) \<le> double r)"
      proof (intro allI impI)
        fix r assume r: "res = Float r"
        from val r have v1: "acc = Float r \<or> (\<exists>c \<in> set cs. float_ge (Float (precision_value c)) p \<and> recall_value c = r)"
          and v2: "double x \<le> double r"
          and v3: "\<forall>c \<in> set cs. float_ge (Float (precision_value c)) p \<longrightarrow>
               double (recall_value c) \<le> double r"
          unfolding a x by blast+
        from v1 have "acc = Float r \<or> (\<exists>c \<in> set (c # cs). float_ge (Float (precision_value c)) p \<and> recall_value c = r)"
          by auto
        moreover have "\<forall>y. acc = Float y \<longrightarrow> double y \<le> double r"
          using v2 x by simp
        moreover have "\<forall>c \<in> set (c # cs). float_ge (Float (precision_value c)) p \<longrightarrow>
               double (recall_value c) \<le> double r"
          using v2 v3 le by auto
        ultimately show "(acc = Float r \<or> (\<exists>c \<in> set (c # cs). float_ge (Float (precision_value c)) p \<and> recall_value c = r))
         \<and> (\<forall>x. acc = Float x \<longrightarrow> double x \<le> double r)
         \<and> (\<forall>c \<in> set (c # cs). float_ge (Float (precision_value c)) p \<longrightarrow>
               double (recall_value c) \<le> double r)"
          by blast
      qed
      from 1 2 3 show ?thesis by blast
    qed
  qed
qed

lemma as_double_max_recall:
  assumes "(res = NaN) = (\<forall>c \<in> set cs. \<not> float_ge (Float (precision_value c)) p)"
    and "\<forall>r. res = Float r \<longrightarrow>
           (\<exists>c \<in> set cs. float_ge (Float (precision_value c)) p \<and> recall_value c = r)
         \<and> (\<forall>c \<in> set cs. float_ge (Float (precision_value c)) p \<longrightarrow>
               double (recall_value c) \<le> double r)"
  shows "as_double res = max_recall_for_precision p cs"
proof (cases res)
  case NaN
  with assms(1) have "filter (\<lambda>c. float_ge (Float (precision_value c)) p) cs = []"
    by (simp add: filter_empty_conv)
  with NaN show ?thesis by (simp add: max_recall_for_precision_def)
next
  case (Float r)
  let ?rs = "map (\<lambda>c. double (recall_value c))
                 (filter (\<lambda>c. float_ge (Float (precision_value c)) p) cs)"
  from assms(2) Float obtain c where c: "c \<in> set cs" "float_ge (Float (precision_value c)) p"
    "recall_value c = r"
    and le: "\<forall>c \<in> set cs. float_ge (Float (precision_value c)) p \<longrightarrow>
               double (recall_value c) \<le> double r"
    by blast
  from c have mem: "double r \<in> set ?rs" by auto
  have "filter (\<lambda>c. float_ge (Float (precision_value c)) p) cs \<noteq> []"
    using c(1,2) by (auto simp: filter_empty_conv)
  then have ne: "?rs \<noteq> []" by simp
  have "Max (set ?rs) = double r"
  proof (rule Max_eqI)
    show "finite (set ?rs)" by simp
    show "\<And>y. y \<in> set ?rs \<Longrightarrow> y \<le> double r" using le by auto
    show "double r \<in> set ?rs" by (rule mem)
  qed
  with ne Float show ?thesis by (simp add: max_recall_for_precision_def Let_def)
qed

lemma sweep_zero_value:
  assumes "BinaryClassificationProbabilityThresholdVariationData_init es = Inr vd"
  shows "\<forall>c \<in> set (counts vd). zeroDenominatorMetricValue c = Float 0"
proof -
  from assms have m: "map_result (fromEvalStats es) (np_linspace 0 1 101) = Inr (counts vd)"
    by (auto simp: BinaryClassificationProbabilityThresholdVariationData_init_def Let_def
        split: sum.splits)
  have "\<And>ts cs. map_result (fromEvalStats es) ts = Inr cs \<Longrightarrow>
          \<forall>c \<in> set cs. zeroDenominatorMetricValue c = Float 0"
  proof -
    fix ts cs show "map_result (fromEvalStats es) ts = Inr cs \<Longrightarrow>
          \<forall>c \<in> set cs. zeroDenominatorMetricValue c = Float 0"
    proof (induction ts arbitrary: cs)
      case Nil
      then show ?case by auto
    next
      case (Cons t ts)
      from Cons.prems obtain c cs' where c: "fromEvalStats es t = Inr c"
        and cs': "map_result (fromEvalStats es) ts = Inr cs'" and cs: "cs = c # cs'"
        by (auto split: sum.splits)
      from c have "zeroDenominatorMetricValue c = Float 0"
        by (auto simp: fromEvalStats_def fromProbabilityThreshold_def counts_init_fields
            split: if_splits option.splits sum.splits)
      with Cons.IH [OF cs'] cs show ?case by simp
    qed
  qed
  from this [OF m] show ?thesis .
qed

text \<open>
  C2, as the code has it. For every \<open>ClassificationEvalStats\<close> with \<open>isBinary\<close>, class
  probabilities in a frame whose column labels are distinct and of one type and a
  positive label that is one of them (for pandas, which tells \<open>True\<close> from 1),
  \<open>BinaryClassificationMetricRecallForPrecision(p)\<close> returns the maximum recall over the
  entries of the threshold variation data whose precision is at least \<open>p\<close>, and NaN
  when no entry reaches precision \<open>p\<close>: the value is NaN exactly when no entry
  qualifies, and otherwise it is the recall of a qualifying entry and no qualifying entry
  has a larger recall. Precision, recall and \<open>p\<close> are compared as the doubles they are.
\<close>

theorem recall_for_precision:
  assumes "isBinary es" and "y_predictedClassProbabilities es = Some df"
    and "binaryPositiveLabel es = Some pos" and "pos \<in> set (columns df)"
    and "simple_index (columns df)"
  shows "\<exists>varData result.
      getBinaryClassificationProbabilityThresholdVariationData es = Inr varData
    \<and> (\<forall>c \<in> set (counts varData).
          getPrecision c = Inr (Float (precision_value c))
        \<and> getRecall c = Inr (Float (recall_value c)))
    \<and> computeValueForEvalStats ext (BinaryClassificationMetricRecallForPrecision p l) es
        = Inr result
    \<and> as_double result = max_recall_for_precision p (counts varData)
    \<and> ((result = NaN)
        = (\<forall>c \<in> set (counts varData). \<not> float_ge (Float (precision_value c)) p))
    \<and> (\<forall>r. result = Float r \<longrightarrow>
          (\<exists>c \<in> set (counts varData). float_ge (Float (precision_value c)) p \<and> recall_value c = r)
        \<and> (\<forall>c \<in> set (counts varData). float_ge (Float (precision_value c)) p \<longrightarrow>
              float_ge (Float r) (Float (recall_value c))))"
proof -
  from getitem_column [OF assms(4)] obtain probs where probs: "getitem df (Some pos) = Inr probs"
    by blast
  from variation_value [OF assms(1-3) probs] obtain varData where
    vd: "BinaryClassificationProbabilityThresholdVariationData_init es = Inr varData" by blast
  from sweep_zero_value [OF vd]
  have z: "\<forall>c \<in> set (counts varData). zeroDenominatorMetricValue c = Float 0" .
  have 1: "getBinaryClassificationProbabilityThresholdVariationData es = Inr varData"
    using vd by (simp add: getBinaryClassificationProbabilityThresholdVariationData_def)
  have 2: "\<forall>c \<in> set (counts varData).
          getPrecision c = Inr (Float (precision_value c))
        \<and> getRecall c = Inr (Float (recall_value c))"
    using z getPrecision_sweep getRecall_sweep by blast
  from recall_loop_value [OF z, of p NaN] obtain result where
    loop: "foldl (recall_step p) (Inr NaN) (counts varData) = Inr result"
    and nan: "(result = NaN)
        = (\<forall>c \<in> set (counts varData). \<not> float_ge (Float (precision_value c)) p)"
    and val: "\<forall>r. result = Float r \<longrightarrow>
          (\<exists>c \<in> set (counts varData). float_ge (Float (precision_value c)) p \<and> recall_value c = r)
        \<and> (\<forall>c \<in> set (counts varData). float_ge (Float (precision_value c)) p \<longrightarrow>
              double (recall_value c) \<le> double r)"
    by auto
  have 3: "computeValueForEvalStats ext (BinaryClassificationMetricRecallForPrecision p l) es
        = Inr result"
    using 1 loop by (simp add: RecallForPrecision_computeValueForEvalStats_def)
  have 4: "as_double result = max_recall_for_precision p (counts varData)"
    by (rule as_double_max_recall [OF nan val])
  have 5: "\<forall>r. result = Float r \<longrightarrow>
          (\<exists>c \<in> set (counts varData). float_ge (Float (precision_value c)) p \<and> recall_value c = r)
        \<and> (\<forall>c \<in> set (counts varData). float_ge (Float (precision_value c)) p \<longrightarrow>
              float_ge (Float r) (Float (recall_value c)))"
    using val by simp
  from 1 2 3 4 nan 5 show ?thesis by blast
qed

lemma precision_value_le_1: "precision_value c \<le> 1"
  by (simp add: precision_value_def)

lemma recall_value_le_1: "recall_value c \<le> 1"
  by (simp add: recall_value_def)

lemma precision_value_ge_0: "0 \<le> precision_value c"
  by (simp add: precision_value_def)

lemma recall_value_ge_0: "0 \<le> recall_value c"
  by (simp add: recall_value_def)

lemma double_unit_le_1:
  assumes "0 \<le> x" and "x \<le> 1"
  shows "double x \<le> 1"
  using double_le_int [of x 1] assms by simp

lemma double_two: "double 2 = 2"
  using double_int [of 2] by simp

text \<open>
  On the evaluation of three samples the entry at position 50 (threshold 0.5) has
  precision 1 and recall 1, so the value for the minimum precision 0.9 is the double 1;
  no entry has a precision of 2, so the value for the minimum precision 2 is NaN.
\<close>

theorem recall_for_precision_witness:
  "isBinary example_stats
   \<and> y_predictedClassProbabilities example_stats = Some example_frame
   \<and> binaryPositiveLabel example_stats = Some (PyInt 1)
   \<and> PyInt 1 \<in> set (columns example_frame)
   \<and> simple_index (columns example_frame)
   \<and> (\<exists>r. computeValueForEvalStats unavailable
             (BinaryClassificationMetricRecallForPrecision (Float 0.9) (PyInt 1)) example_stats
           = Inr (Float r) \<and> double r = 1)
   \<and> computeValueForEvalStats unavailable
        (BinaryClassificationMetricRecallForPrecision (Float 2) (PyInt 1)) example_stats
      = Inr NaN"
proof -
  have h: "isBinary example_stats"
    "y_predictedClassProbabilities example_stats = Some example_frame"
    "binaryPositiveLabel example_stats = Some (PyInt 1)"
    "PyInt 1 \<in> set (columns example_frame)"
    "simple_index (columns example_frame)"
    by (simp_all add: example_stats_def example_frame_def columns_def simple_index_def)
  have probs: "getitem example_frame (Some (PyInt 1)) = Inr [Float 0.2, Float 0.7, Float 0.5]"
    by (simp add: getitem_def example_frame_def)
  let ?gts = "map (\<lambda>g. py_eq g (PyInt 1)) (y_true example_stats)"
  let ?c = "fromProbabilityThreshold [Float 0.2, Float 0.7, Float 0.5] (Float (sweep_threshold 50)) ?gts"
  have ge50: "\<not> float_ge (Float 0.2) (Float (1 / 2))" "float_ge (Float 0.7) (Float (1 / 2))"
    "float_ge (Float 0.5) (Float (1 / 2))"
    using double_0_2 double_0_7 double_half by simp_all
  have c: "tp ?c = 2" "fn ?c = 0" "fp ?c = 0"
    unfolding fromProbabilityThreshold_def counts_init_fields sweep_threshold_50 using ge50
    by (simp_all add: example_stats_def py_eq_def)
  then have pr: "precision_value ?c = 1" "recall_value ?c = 1"
    by (simp_all add: precision_value_def recall_value_def)
  have d09: "double 0.9 \<le> 1" by (rule double_unit_le_1) simp_all
  \<comment> \<open>minimum precision 0.9\<close>
  from recall_for_precision [OF h, of unavailable "Float 0.9" "PyInt 1"] obtain varData result where
    vd: "getBinaryClassificationProbabilityThresholdVariationData example_stats = Inr varData"
    and v: "computeValueForEvalStats unavailable
        (BinaryClassificationMetricRecallForPrecision (Float 0.9) (PyInt 1)) example_stats
        = Inr result"
    and nan: "(result = NaN)
        = (\<forall>c \<in> set (counts varData). \<not> float_ge (Float (precision_value c)) (Float 0.9))"
    and val: "\<forall>r. result = Float r \<longrightarrow>
          (\<exists>c \<in> set (counts varData). float_ge (Float (precision_value c)) (Float 0.9) \<and> recall_value c = r)
        \<and> (\<forall>c \<in> set (counts varData). float_ge (Float (precision_value c)) (Float 0.9) \<longrightarrow>
              float_ge (Float r) (Float (recall_value c)))"
    by blast
  from vd variation_value [OF h(1-3) probs] have
    cs: "counts varData = map (\<lambda>t. fromProbabilityThreshold [Float 0.2, Float 0.7, Float 0.5] t ?gts)
                     (map (\<lambda>k. Float (sweep_threshold k)) [0..<101])"
    by (auto simp: getBinaryClassificationProbabilityThresholdVariationData_def)
  have "(50::nat) < length (map (\<lambda>k. Float (sweep_threshold k)) [0..<101])" by simp
  then have "counts varData ! 50
      = fromProbabilityThreshold [Float 0.2, Float 0.7, Float 0.5]
          (map (\<lambda>k. Float (sweep_threshold k)) [0..<101] ! 50) ?gts"
    unfolding cs by (rule nth_map)
  moreover have "map (\<lambda>k. Float (sweep_threshold k)) [0..<101] ! 50 = Float (sweep_threshold 50)"
    by (rule nth_sweep) simp
  ultimately have "counts varData ! 50 = ?c" by (simp only:)
  moreover have "50 < length (counts varData)" unfolding cs by simp
  ultimately have mem: "?c \<in> set (counts varData)" by (metis nth_mem)
  have q: "float_ge (Float (precision_value ?c)) (Float 0.9)"
    unfolding pr using d09 double_one by simp
  with mem nan have "result \<noteq> NaN" by blast
  then obtain r where r: "result = Float r" by (cases result) auto
  with val obtain c' where c': "recall_value c' = r"
    and top: "\<forall>c \<in> set (counts varData). float_ge (Float (precision_value c)) (Float 0.9) \<longrightarrow>
              float_ge (Float r) (Float (recall_value c))"
    by blast
  from top mem q have "float_ge (Float r) (Float (recall_value ?c))" by blast
  then have "1 \<le> double r" unfolding pr using double_one by simp
  moreover have "double r \<le> 1"
    unfolding c' [symmetric] by (rule double_unit_le_1 [OF recall_value_ge_0 recall_value_le_1])
  ultimately have "double r = 1" by simp
  with v r have 1: "\<exists>r. computeValueForEvalStats unavailable
             (BinaryClassificationMetricRecallForPrecision (Float 0.9) (PyInt 1)) example_stats
           = Inr (Float r) \<and> double r = 1"
    by blast
  \<comment> \<open>minimum precision 2\<close>
  from recall_for_precision [OF h, of unavailable "Float 2" "PyInt 1"] obtain varData2 result2 where
    "getBinaryClassificationProbabilityThresholdVariationData example_stats = Inr varData2"
    and v2: "computeValueForEvalStats unavailable
        (BinaryClassificationMetricRecallForPrecision (Float 2) (PyInt 1)) example_stats
        = Inr result2"
    and nan2: "(result2 = NaN)
        = (\<forall>c \<in> set (counts varData2). \<not> float_ge (Float (precision_value c)) (Float 2))"
    by blast
  have "\<And>c. \<not> float_ge (Float (precision_value c)) (Float 2)"
    using double_unit_le_1 [OF precision_value_ge_0 precision_value_le_1] double_two
    by (simp add: not_le) (meson le_less_trans one_less_numeral_iff semiring_norm(76))
  with nan2 have "result2 = NaN" by blast
  with v2 have 2: "computeValueForEvalStats unavailable
        (BinaryClassificationMetricRecallForPrecision (Float 2) (PyInt 1)) example_stats
      = Inr NaN"
    by simp
  show ?thesis by (intro conjI h 1 2)
qed

text \<open>
  Against C2 as stated: on the binary object with probabilities whose positive label is
  no column, the metric raises \<open>KeyError\<close>.
\<close>

theorem recall_for_precision_counterexample:
  "ClassificationEvalStats_init [PyInt 0, PyInt 1, PyInt 0] [PyInt 0, PyInt 1, PyInt 1]
     (Some example_frame) [PyInt 0, PyInt 1] None None (Given (Some (PyStr ''yes'')))
     = Inr mislabelled_stats
   \<and> isBinary mislabelled_stats
   \<and> y_predictedClassProbabilities mislabelled_stats = Some example_frame
   \<and> computeValueForEvalStats unavailable
        (BinaryClassificationMetricRecallForPrecision (Float 0.5) (PyStr ''yes'')) mislabelled_stats
      = Inl (KeyError (Some (PyStr ''yes'')))"
proof -
  have "computeValueForEvalStats unavailable
        (BinaryClassificationMetricRecallForPrecision (Float 0.5) (PyStr ''yes'')) mislabelled_stats
      = Inl (KeyError (Some (PyStr ''yes'')))"
    by (simp add: RecallForPrecision_computeValueForEvalStats_def
        getBinaryClassificationProbabilityThresholdVariationData_def variation_mislabelled)
  moreover have "isBinary mislabelled_stats"
    "y_predictedClassProbabilities mislabelled_stats = Some example_frame"
    by (simp_all add: mislabelled_stats_def)
  ultimately show ?thesis using mislabelled_stats_constructed by blast
qed

section \<open>The geometric mean of the true class probabilities\<close>
















section \<open>Fractional splits\<close>

lemma take_positions_value:
  assumes "\<forall>i \<in> set indices. i < length xs"
  shows "take_positions xs indices = Inr (map ((!) xs) indices)"
  unfolding take_positions_def using assms
  by (intro map_result_all_Inr) simp

lemma filterIndices_value:
  assumes "\<forall>i \<in> set indices. i < length (inputs data)"
    and "length (outputs data) = length (inputs data)"
  shows "filterIndices data indices =
     Inr \<lparr>inputs = map ((!) (inputs data)) indices, outputs = map ((!) (outputs data)) indices\<rparr>"
proof -
  from assms have "\<forall>i \<in> set indices. i < length (outputs data)" by simp
  from take_positions_value [OF assms(1)] take_positions_value [OF this]
  show ?thesis by (simp add: filterIndices_def InputOutputArrays_init_def)
qed

lemma permutation_positions:
  assumes "mset indices = mset [0..<n]"
  shows "length indices = n" and "set indices = {0..<n}"
proof -
  from assms have "size (mset indices) = size (mset [0..<n])" by simp
  then show "length indices = n" by simp
  from assms have "set_mset (mset indices) = set_mset (mset [0..<n])" by simp
  then show "set indices = {0..<n}" by simp
qed

lemma mset_map_positions:
  assumes "mset indices = mset [0..<length xs]"
  shows "mset (map ((!) xs) indices) = mset xs"
proof -
  have "mset (map ((!) xs) indices) = image_mset ((!) xs) (mset indices)" by simp
  also have "\<dots> = image_mset ((!) xs) (mset [0..<length xs])" by (simp only: assms)
  also have "\<dots> = mset (map ((!) xs) [0..<length xs])" by simp
  also have "\<dots> = mset xs" by (simp only: map_nth)
  finally show ?thesis .
qed

text \<open>
  The index \<open>int(n * f)\<close>: the float product of \<open>n\<close> and \<open>f\<close>, truncated. It lies
  between the floor and the ceiling of the exact product, and between 0 and \<open>n\<close>.
\<close>

lemma split_index_value:
  assumes n: "n < 2 ^ 53" and d: "double f = f" and f: "0 \<le> f"
  shows "py_int (float_mult_int n (Float f)) = Inr \<lfloor>double (real n * f)\<rfloor>"
proof -
  have "0 \<le> real n * f" using f by simp
  then have "0 \<le> double (real n * f)" by (rule double_nonneg)
  then show ?thesis
    by (simp add: py_int_def double_nat [OF n] d double_double)
qed

lemma split_index_bounds:
  assumes n: "n < 2 ^ 53" and f: "0 \<le> f" "f \<le> 1"
  shows "0 \<le> \<lfloor>double (real n * f)\<rfloor>"
    and "nat \<lfloor>double (real n * f)\<rfloor> \<le> n"
    and "\<lfloor>real n * f\<rfloor> \<le> \<lfloor>double (real n * f)\<rfloor>"
    and "\<lfloor>double (real n * f)\<rfloor> \<le> \<lceil>real n * f\<rceil>"
proof -
  let ?x = "real n * f"
  have x0: "0 \<le> ?x" using f by simp
  have "?x \<le> real n * 1" using f by (intro mult_left_mono) simp_all
  then have xn: "?x \<le> real n" by simp
  have "real n < 2 ^ 53" using n by (metis of_nat_less_numeral_power_cancel_iff)
  with x0 xn have small: "\<bar>?x\<bar> < 2 ^ 53" by simp
  from double_nonneg [OF x0] show "0 \<le> \<lfloor>double ?x\<rfloor>" by simp
  have "?x \<le> of_int (int n)" using xn by simp
  from double_le_int [OF this small] have "double ?x \<le> real n" by simp
  then have "\<lfloor>double ?x\<rfloor> \<le> int n" by (simp add: floor_le_iff)
  then show "nat \<lfloor>double ?x\<rfloor> \<le> n" by simp
  have "of_int \<lfloor>?x\<rfloor> \<le> ?x" by simp
  from double_ge_int [OF this small] show "\<lfloor>?x\<rfloor> \<le> \<lfloor>double ?x\<rfloor>"
    by (simp add: le_floor_iff)
  have "?x \<le> of_int \<lceil>?x\<rceil>" by simp
  from double_le_int [OF this small] have "double ?x \<le> of_int \<lceil>?x\<rceil>" .
  then show "\<lfloor>double ?x\<rfloor> \<le> \<lceil>?x\<rceil>" by (simp add: floor_le_iff)
qed

lemma split_index_eval:
  assumes "n < 2 ^ 53" and "double f = b" and "double (real n * b) = c" and "double c = c"
    and "0 \<le> c"
  shows "py_int (float_mult_int n (Float f)) = Inr \<lfloor>c\<rfloor>"
  by (simp add: py_int_def double_nat [OF assms(1)] double_double assms(2-))

lemma RandomState_accepted:
  assumes "accepted_seed seed"
  shows "\<exists>rand. RandomState np seed entropy = Inr rand"
  using assms by (cases seed) (simp_all add: RandomState_def accepted_seed_def)

lemma RandomState_refused:
  assumes "\<not> accepted_seed seed"
  shows "RandomState np seed entropy = Inl (ValueError ''Seed must be between 0 and 2**32 - 1'')"
  using assms by (cases seed) (simp_all add: RandomState_def accepted_seed_def)

lemma split_value:
  assumes pi: "py_int (float_mult_int (length (inputs data)) (fractionalSizeOfFirstSet splitter)) = Inr k"
    and k: "0 \<le> k" "nat k \<le> length (inputs data)"
    and rs: "RandomState np (randomSeed splitter) entropy = Inr rand"
    and perm: "mset indices = mset [0..<length (inputs data)]"
    and ind: "indices = (if shuffle splitter
                         then permutation np rand (length (inputs data))
                         else [0..<length (inputs data)])"
    and wf: "length (outputs data) = length (inputs data)"
  shows "split np splitter entropy data =
     Inr (\<lparr>inputs = map ((!) (inputs data)) (take (nat k) indices),
           outputs = map ((!) (outputs data)) (take (nat k) indices)\<rparr>,
          \<lparr>inputs = map ((!) (inputs data)) (drop (nat k) indices),
           outputs = map ((!) (outputs data)) (drop (nat k) indices)\<rparr>)"
proof -
  let ?n = "length (inputs data)"
  from permutation_positions [OF perm] have len: "length indices = ?n"
    and set: "set indices = {0..<?n}" by simp_all
  have sl: "slice_point (length indices) k = nat k"
    using k len by (simp add: slice_point_def)
  have "\<forall>i \<in> set (take (nat k) indices). i < ?n"
    using set by (auto dest: in_set_takeD)
  from filterIndices_value [OF this wf]
  have A: "filterIndices data (take (nat k) indices) =
     Inr \<lparr>inputs = map ((!) (inputs data)) (take (nat k) indices),
          outputs = map ((!) (outputs data)) (take (nat k) indices)\<rparr>" .
  have "\<forall>i \<in> set (drop (nat k) indices). i < ?n"
    using set by (auto dest: in_set_dropD)
  from filterIndices_value [OF this wf]
  have B: "filterIndices data (drop (nat k) indices) =
     Inr \<lparr>inputs = map ((!) (inputs data)) (drop (nat k) indices),
          outputs = map ((!) (outputs data)) (drop (nat k) indices)\<rparr>" .
  show ?thesis
    unfolding split_def Let_def pi rs sum.case ind [symmetric] sl A B ..
qed

text \<open>
  C7, as the code has it. Given that numpy's \<open>permutation(n)\<close> returns a permutation of
  0..n-1 and that the data hold as many outputs as inputs: for every data set of
  \<open>n < 2 ^ 53\<close> points and every double \<open>f\<close>,
  \<^item> if \<open>0 \<le> f \<le> 1\<close> and the seed is one numpy accepts (\<open>None\<close> or an int from 0 to
    \<open>2 ^ 32 - 1\<close>), the constructor returns a splitter and \<open>split\<close> returns a pair (A, B)
    with \<open>len(A) = int(n * f)\<close>, the float product truncated, and
    \<open>len(B) = n - int(n * f)\<close>; \<open>int(n * f)\<close> lies between the floor and the ceiling of the
    exact product; A and B are the data at the first \<open>int(n * f)\<close> and at the remaining
    positions of one permutation of 0..n-1, which is \<open>range(n)\<close> when \<open>shuffle\<close> is false,
    so A and B together hold every data point once;
  \<^item> if \<open>0 \<le> f \<le> 1\<close> and the seed is an int outside 0 .. \<open>2 ^ 32 - 1\<close>, the constructor
    returns a splitter and \<open>split\<close> raises \<open>ValueError\<close>;
  \<^item> for a fraction outside [0, 1] (or NaN) the constructor raises.
\<close>

theorem fractional_split:
  assumes contract: "\<forall>st n. mset (permutation np st n) = mset [0..<n]"
    and wf: "length (outputs data) = length (inputs data)"
    and size: "length (inputs data) < 2 ^ 53"
    and dbl: "double f = f"
  shows "(0 \<le> f \<and> f \<le> 1 \<and> accepted_seed seed \<longrightarrow>
          (\<exists>splitter A B indices k.
              DataSplitterFractional_init (Float f) sh seed = Inr splitter
            \<and> py_int (float_mult_int (length (inputs data)) (Float f)) = Inr k
            \<and> k = \<lfloor>double (real (length (inputs data)) * f)\<rfloor>
            \<and> \<lfloor>real (length (inputs data)) * f\<rfloor> \<le> k
            \<and> k \<le> \<lceil>real (length (inputs data)) * f\<rceil>
            \<and> split np splitter entropy data = Inr (A, B)
            \<and> mset indices = mset [0..<length (inputs data)]
            \<and> (\<not> sh \<longrightarrow> indices = [0..<length (inputs data)])
            \<and> inputs A = map ((!) (inputs data)) (take (nat k) indices)
            \<and> outputs A = map ((!) (outputs data)) (take (nat k) indices)
            \<and> inputs B = map ((!) (inputs data)) (drop (nat k) indices)
            \<and> outputs B = map ((!) (outputs data)) (drop (nat k) indices)
            \<and> int (length (inputs A)) = k
            \<and> int (length (inputs B)) = int (length (inputs data)) - k
            \<and> length (outputs A) = length (inputs A)
            \<and> length (outputs B) = length (inputs B)
            \<and> mset (inputs A) + mset (inputs B) = mset (inputs data)
            \<and> mset (outputs A) + mset (outputs B) = mset (outputs data)))
       \<and> (0 \<le> f \<and> f \<le> 1 \<and> \<not> accepted_seed seed \<longrightarrow>
          (\<exists>splitter.
              DataSplitterFractional_init (Float f) sh seed = Inr splitter
            \<and> split np splitter entropy data
                = Inl (ValueError ''Seed must be between 0 and 2**32 - 1'')))
       \<and> (\<not> (0 \<le> f \<and> f \<le> 1) \<longrightarrow>
            DataSplitterFractional_init (Float f) sh seed = Inl (Exception ''invalid fraction''))
       \<and> DataSplitterFractional_init NaN sh seed = Inl (Exception ''invalid fraction'')"
proof (intro conjI impI)
  assume a: "0 \<le> f \<and> f \<le> 1 \<and> accepted_seed seed"
  then have f0: "0 \<le> f" and f1: "f \<le> 1" and seed: "accepted_seed seed" by simp_all
  let ?n = "length (inputs data)"
  let ?k = "\<lfloor>double (real ?n * f)\<rfloor>"
  let ?sp = "\<lparr>fractionalSizeOfFirstSet = Float f, shuffle = sh, randomSeed = seed\<rparr>"
  from RandomState_accepted [OF seed, of np entropy] obtain rand where
    rs: "RandomState np seed entropy = Inr rand" by blast
  let ?ind = "if sh then permutation np rand ?n else [0..<?n]"
  let ?A = "\<lparr>inputs = map ((!) (inputs data)) (take (nat ?k) ?ind),
             outputs = map ((!) (outputs data)) (take (nat ?k) ?ind)\<rparr>"
  let ?B = "\<lparr>inputs = map ((!) (inputs data)) (drop (nat ?k) ?ind),
             outputs = map ((!) (outputs data)) (drop (nat ?k) ?ind)\<rparr>"
  have init: "DataSplitterFractional_init (Float f) sh seed = Inr ?sp"
    using f0 f1 by (simp add: DataSplitterFractional_init_def dbl double_zero double_one)
  have pi: "py_int (float_mult_int ?n (Float f)) = Inr ?k"
    by (rule split_index_value [OF size dbl f0])
  note b = split_index_bounds [OF size f0 f1]
  have perm: "mset ?ind = mset [0..<?n]"
    using contract by simp
  have ns: "\<not> sh \<longrightarrow> ?ind = [0..<?n]" by simp
  have pi': "py_int (float_mult_int ?n (fractionalSizeOfFirstSet ?sp)) = Inr ?k"
    using pi by (simp del: float_mult_int.simps)
  have rs': "RandomState np (randomSeed ?sp) entropy = Inr rand"
    using rs by simp
  have sv: "split np ?sp entropy data = Inr (?A, ?B)"
    by (rule split_value [OF pi' b(1,2) rs' perm _ wf]) simp
  from permutation_positions(1) [OF perm] have len: "length ?ind = ?n" .
  have lenA: "int (length (inputs ?A)) = ?k"
    using len b(1,2) by simp
  have lenB: "int (length (inputs ?B)) = int ?n - ?k"
    using len b(1,2) by simp
  have "mset (inputs ?A) + mset (inputs ?B)
      = mset (map ((!) (inputs data)) (take (nat ?k) ?ind @ drop (nat ?k) ?ind))"
    by (simp del: append_take_drop_id)
  also have "\<dots> = mset (inputs data)"
    using mset_map_positions [OF perm] by simp
  finally have msI: "mset (inputs ?A) + mset (inputs ?B) = mset (inputs data)" .
  have "mset (outputs ?A) + mset (outputs ?B)
      = mset (map ((!) (outputs data)) (take (nat ?k) ?ind @ drop (nat ?k) ?ind))"
    by (simp del: append_take_drop_id)
  also have "\<dots> = mset (outputs data)"
    using mset_map_positions [of ?ind "outputs data"] perm wf by simp
  finally have msO: "mset (outputs ?A) + mset (outputs ?B) = mset (outputs data)" .
  have sel: "inputs ?A = map ((!) (inputs data)) (take (nat ?k) ?ind)"
    "outputs ?A = map ((!) (outputs data)) (take (nat ?k) ?ind)"
    "inputs ?B = map ((!) (inputs data)) (drop (nat ?k) ?ind)"
    "outputs ?B = map ((!) (outputs data)) (drop (nat ?k) ?ind)"
    by simp_all
  have lo: "length (outputs ?A) = length (inputs ?A)" "length (outputs ?B) = length (inputs ?B)"
    by simp_all
  have "DataSplitterFractional_init (Float f) sh seed = Inr ?sp
            \<and> py_int (float_mult_int ?n (Float f)) = Inr ?k
            \<and> ?k = \<lfloor>double (real ?n * f)\<rfloor>
            \<and> \<lfloor>real ?n * f\<rfloor> \<le> ?k
            \<and> ?k \<le> \<lceil>real ?n * f\<rceil>
            \<and> split np ?sp entropy data = Inr (?A, ?B)
            \<and> mset ?ind = mset [0..<?n]
            \<and> (\<not> sh \<longrightarrow> ?ind = [0..<?n])
            \<and> inputs ?A = map ((!) (inputs data)) (take (nat ?k) ?ind)
            \<and> outputs ?A = map ((!) (outputs data)) (take (nat ?k) ?ind)
            \<and> inputs ?B = map ((!) (inputs data)) (drop (nat ?k) ?ind)
            \<and> outputs ?B = map ((!) (outputs data)) (drop (nat ?k) ?ind)
            \<and> int (length (inputs ?A)) = ?k
            \<and> int (length (inputs ?B)) = int ?n - ?k
            \<and> length (outputs ?A) = length (inputs ?A)
            \<and> length (outputs ?B) = length (inputs ?B)
            \<and> mset (inputs ?A) + mset (inputs ?B) = mset (inputs data)
            \<and> mset (outputs ?A) + mset (outputs ?B) = mset (outputs data)"
    by (intro conjI init pi refl b(3,4) sv perm ns sel lenA lenB lo msI msO)
  then show "\<exists>splitter A B indices k.
              DataSplitterFractional_init (Float f) sh seed = Inr splitter
            \<and> py_int (float_mult_int (length (inputs data)) (Float f)) = Inr k
            \<and> k = \<lfloor>double (real (length (inputs data)) * f)\<rfloor>
            \<and> \<lfloor>real (length (inputs data)) * f\<rfloor> \<le> k
            \<and> k \<le> \<lceil>real (length (inputs data)) * f\<rceil>
            \<and> split np splitter entropy data = Inr (A, B)
            \<and> mset indices = mset [0..<length (inputs data)]
            \<and> (\<not> sh \<longrightarrow> indices = [0..<length (inputs data)])
            \<and> inputs A = map ((!) (inputs data)) (take (nat k) indices)
            \<and> outputs A = map ((!) (outputs data)) (take (nat k) indices)
            \<and> inputs B = map ((!) (inputs data)) (drop (nat k) indices)
            \<and> outputs B = map ((!) (outputs data)) (drop (nat k) indices)
            \<and> int (length (inputs A)) = k
            \<and> int (length (inputs B)) = int (length (inputs data)) - k
            \<and> length (outputs A) = length (inputs A)
            \<and> length (outputs B) = length (inputs B)
            \<and> mset (inputs A) + mset (inputs B) = mset (inputs data)
            \<and> mset (outputs A) + mset (outputs B) = mset (outputs data)"
    by blast
next
  assume a: "0 \<le> f \<and> f \<le> 1 \<and> \<not> accepted_seed seed"
  then have f0: "0 \<le> f" and f1: "f \<le> 1" and seed: "\<not> accepted_seed seed" by simp_all
  let ?sp = "\<lparr>fractionalSizeOfFirstSet = Float f, shuffle = sh, randomSeed = seed\<rparr>"
  have init: "DataSplitterFractional_init (Float f) sh seed = Inr ?sp"
    using f0 f1 by (simp add: DataSplitterFractional_init_def dbl double_zero double_one)
  have pi: "py_int (float_mult_int (length (inputs data)) (Float f))
      = Inr \<lfloor>double (real (length (inputs data)) * f)\<rfloor>"
    by (rule split_index_value [OF size dbl f0])
  have "split np ?sp entropy data = Inl (ValueError ''Seed must be between 0 and 2**32 - 1'')"
    unfolding split_def Let_def using pi RandomState_refused [OF seed, of np entropy]
    by (simp del: float_mult_int.simps)
  with init show "\<exists>splitter.
              DataSplitterFractional_init (Float f) sh seed = Inr splitter
            \<and> split np splitter entropy data
                = Inl (ValueError ''Seed must be between 0 and 2**32 - 1'')"
    by blast
next
  assume "\<not> (0 \<le> f \<and> f \<le> 1)"
  then show "DataSplitterFractional_init (Float f) sh seed = Inl (Exception ''invalid fraction'')"
    by (auto simp: DataSplitterFractional_init_def dbl double_zero double_one)
next
  show "DataSplitterFractional_init NaN sh seed = Inl (Exception ''invalid fraction'')"
    by (simp add: DataSplitterFractional_init_def)
qed

lemma mset_rotate_list: "mset (rotate k xs) = mset xs"
proof -
  have "mset (rotate k xs)
      = mset (drop (k mod length xs) xs) + mset (take (k mod length xs) xs)"
    by (simp add: rotate_drop_take)
  also have "\<dots> = mset (take (k mod length xs) xs @ drop (k mod length xs) xs)"
    by (simp del: append_take_drop_id)
  also have "\<dots> = mset xs"
    by (simp only: append_take_drop_id)
  finally show ?thesis .
qed

lemma rotating_contract: "\<forall>st n. mset (permutation rotating st n) = mset [0..<n]"
  by (simp add: rotating_def mset_rotate_list del: mset_upt)

lemma upt_3: "[0..<3] = [0, 1, 2]"
  by (simp add: upt_rec)

lemma upt_10: "[0..<10] = [0, 1, 2, 3, 4, 5, 6, 7, 8, 9]"
  by (simp add: upt_rec)

text \<open>The doubles met in the examples: 0.7 and 0.58, and their products.\<close>

lemma double_0_7_double: "double (6305039478318694 / 2 ^ 53) = 6305039478318694 / 2 ^ 53"
  using double_dyadic [of 6305039478318694 53] by simp

lemma double_3_halves: "double (3 / 2) = 3 / 2"
  using double_dyadic [of 3 1] by simp

lemma product_3_0_7:
  "double (3 * (6305039478318694 / 2 ^ 53)) = 4728779608739020 / 2 ^ 51"
  using double_large [of 1 "3 * (6305039478318694 / 2 ^ 53)"]
  by (simp add: round_half_even_def)

lemma product_10_0_7: "double (10 * (6305039478318694 / 2 ^ 53)) = 7"
  using double_large [of 2 "10 * (6305039478318694 / 2 ^ 53)"]
  by (simp add: round_half_even_def)

lemma double_0_58: "double (58 / 100) = 5224175567749775 / 2 ^ 53"
  using double_small [of 1 "58 / 100"] by (simp add: round_half_even_def)

lemma product_50_0_58:
  "double (50 * (5224175567749775 / 2 ^ 53)) = 8162774324609023 / 2 ^ 48"
  using double_large [of 4 "50 * (5224175567749775 / 2 ^ 53)"]
  by (simp add: round_half_even_def)

lemma double_product_50_0_58:
  "double (8162774324609023 / 2 ^ 48) = 8162774324609023 / 2 ^ 48"
  using double_dyadic [of 8162774324609023 48] by simp

lemma split_index_3_half: "py_int (float_mult_int 3 (Float 0.5)) = Inr 1"
proof -
  have 1: "double 0.5 = 1 / 2" using double_half by simp
  have 2: "double (real 3 * (1 / 2)) = 3 / 2" using double_3_halves by simp
  have "py_int (float_mult_int 3 (Float 0.5)) = Inr \<lfloor>3 / 2 :: real\<rfloor>"
    by (rule split_index_eval [OF _ 1 2 double_3_halves]) simp_all
  then show ?thesis by simp
qed

lemma example_split:
  "split rotating
     \<lparr>fractionalSizeOfFirstSet = Float (6305039478318694 / 2 ^ 53), shuffle = True,
      randomSeed = Some 1\<rparr>
     entropy example_data
   = Inr (\<lparr>inputs = [20, 30], outputs = [False, True]\<rparr>, \<lparr>inputs = [10], outputs = [True]\<rparr>)"
proof -
  have "py_int (float_mult_int 3 (Float (6305039478318694 / 2 ^ 53))) = Inr 2"
  proof -
    have 1: "double (4728779608739020 / 2 ^ 51) = 4728779608739020 / 2 ^ 51"
      using double_dyadic [of 4728779608739020 51] by simp
    have 2: "double (real 3 * (6305039478318694 / 2 ^ 53)) = 4728779608739020 / 2 ^ 51"
      unfolding of_nat_numeral by (rule product_3_0_7)
    have "py_int (float_mult_int 3 (Float (6305039478318694 / 2 ^ 53)))
        = Inr \<lfloor>4728779608739020 / 2 ^ 51 :: real\<rfloor>"
      by (rule split_index_eval [OF _ double_0_7_double 2 1]) simp_all
    then show ?thesis by simp
  qed
  then show ?thesis
    by (simp add: split_def example_data_def slice_point_def rotating_def
        RandomState_def filterIndices_def take_positions_def InputOutputArrays_init_def upt_3)
qed

text \<open>
  Three points and the fraction 0.7 (the double): the float product \<open>3 * 0.7\<close> is
  2.0999999999999996 and A gets two points. The fraction 1.5 is refused by the
  constructor, the seed - 1 by \<open>split\<close>.
\<close>

theorem fractional_split_witness:
  "(\<forall>st n. mset (permutation rotating st n) = mset [0..<n])
   \<and> length (outputs example_data) = length (inputs example_data)
   \<and> length (inputs example_data) < 2 ^ 53
   \<and> double (6305039478318694 / 2 ^ 53) = 6305039478318694 / 2 ^ 53
   \<and> accepted_seed (Some 1)
   \<and> DataSplitterFractional_init (Float (6305039478318694 / 2 ^ 53)) True (Some 1)
       = Inr \<lparr>fractionalSizeOfFirstSet = Float (6305039478318694 / 2 ^ 53), shuffle = True,
              randomSeed = Some 1\<rparr>
   \<and> split rotating
        \<lparr>fractionalSizeOfFirstSet = Float (6305039478318694 / 2 ^ 53), shuffle = True,
         randomSeed = Some 1\<rparr>
        0 example_data
      = Inr (\<lparr>inputs = [20, 30], outputs = [False, True]\<rparr>, \<lparr>inputs = [10], outputs = [True]\<rparr>)
   \<and> (\<exists>A B k. split rotating
                \<lparr>fractionalSizeOfFirstSet = Float (6305039478318694 / 2 ^ 53), shuffle = True,
                 randomSeed = Some 1\<rparr>
                0 example_data = Inr (A, B)
          \<and> py_int (float_mult_int (length (inputs example_data))
                      (Float (6305039478318694 / 2 ^ 53))) = Inr k
          \<and> int (length (inputs A)) = k
          \<and> mset (inputs A) + mset (inputs B) = mset (inputs example_data))
   \<and> DataSplitterFractional_init (Float 1.5) True (Some 1) = Inl (Exception ''invalid fraction'')
   \<and> (\<exists>splitter. DataSplitterFractional_init (Float 0.5) True (Some (- 1)) = Inr splitter
          \<and> split rotating splitter 0 example_data
              = Inl (ValueError ''Seed must be between 0 and 2**32 - 1''))"
proof -
  let ?f = "6305039478318694 / 2 ^ 53 :: real"
  have wf: "length (outputs example_data) = length (inputs example_data)"
    by (simp add: example_data_def)
  have size: "length (inputs example_data) < 2 ^ 53"
    by (simp add: example_data_def)
  have seed: "accepted_seed (Some 1)" "\<not> accepted_seed (Some (- 1))"
    by (simp_all add: accepted_seed_def)
  have init: "DataSplitterFractional_init (Float ?f) True (Some 1)
       = Inr \<lparr>fractionalSizeOfFirstSet = Float ?f, shuffle = True, randomSeed = Some 1\<rparr>"
    using double_0_7_double by (simp add: DataSplitterFractional_init_def double_zero double_one)
  have "0 \<le> ?f \<and> ?f \<le> 1 \<and> accepted_seed (Some 1)" using seed by simp
  with fractional_split [OF rotating_contract wf size double_0_7_double,
      where sh = True and seed = "Some 1" and entropy = 0] init
  have ex: "\<exists>A B k. split rotating
                \<lparr>fractionalSizeOfFirstSet = Float ?f, shuffle = True, randomSeed = Some 1\<rparr>
                0 example_data = Inr (A, B)
          \<and> py_int (float_mult_int (length (inputs example_data)) (Float ?f)) = Inr k
          \<and> int (length (inputs A)) = k
          \<and> mset (inputs A) + mset (inputs B) = mset (inputs example_data)"
    by auto
  have d15: "double (3 / 2) = 3 / 2" by (rule double_3_halves)
  have "\<not> ((0::real) \<le> 3 / 2 \<and> (3 / 2 ::real) \<le> 1)" by simp
  with fractional_split [OF rotating_contract wf size d15,
      where sh = True and seed = "Some 1" and entropy = 0]
  have "DataSplitterFractional_init (Float (3 / 2)) True (Some 1) = Inl (Exception ''invalid fraction'')"
    by blast
  then have bad: "DataSplitterFractional_init (Float 1.5) True (Some 1)
      = Inl (Exception ''invalid fraction'')"
    by simp
  have dh: "double (1 / 2) = 1 / 2" by (rule double_half)
  have "(0::real) \<le> 1 / 2 \<and> (1 / 2 ::real) \<le> 1 \<and> \<not> accepted_seed (Some (- 1))"
    using seed by simp
  with fractional_split [OF rotating_contract wf size dh,
      where sh = True and seed = "Some (- 1)" and entropy = 0]
  have "\<exists>splitter. DataSplitterFractional_init (Float (1 / 2)) True (Some (- 1)) = Inr splitter
          \<and> split rotating splitter 0 example_data
              = Inl (ValueError ''Seed must be between 0 and 2**32 - 1'')"
    by blast
  then have refused: "\<exists>splitter. DataSplitterFractional_init (Float 0.5) True (Some (- 1)) = Inr splitter
          \<and> split rotating splitter 0 example_data
              = Inl (ValueError ''Seed must be between 0 and 2**32 - 1'')"
    by simp
  show ?thesis
    by (intro conjI rotating_contract wf size double_0_7_double seed(1) init
        example_split [of 0] ex bad refused)
qed

text \<open>
  Against C7 as stated. For ten points and the fraction 0.7, a double just below 7/10,
  the float product \<open>10 * 0.7\<close> rounds to 7.0 and A gets seven points, while the floor of
  the exact product is 6. For fifty points and the fraction 0.58 the index is 28, one
  less than the floor of \<open>50 * 58 / 100\<close>. And a splitter constructed with the seed - 1
  raises in \<open>split\<close>.
\<close>

theorem fractional_split_counterexample:
  "DataSplitterFractional_init (Float 0.7) False (Some 42)
     = Inr \<lparr>fractionalSizeOfFirstSet = Float 0.7, shuffle = False, randomSeed = Some 42\<rparr>
   \<and> split rotating \<lparr>fractionalSizeOfFirstSet = Float 0.7, shuffle = False, randomSeed = Some 42\<rparr>
        0 ten_points
      = Inr (\<lparr>inputs = [0, 1, 2, 3, 4, 5, 6],
               outputs = [True, True, True, True, True, True, True]\<rparr>,
             \<lparr>inputs = [7, 8, 9], outputs = [True, True, True]\<rparr>)
   \<and> \<lfloor>10 * double 0.7\<rfloor> = 6
   \<and> py_int (float_mult_int 50 (Float 0.58)) = Inr 28
   \<and> \<lfloor>50 * 0.58 :: real\<rfloor> = 29
   \<and> DataSplitterFractional_init (Float 0.5) True (Some (- 1))
       = Inr \<lparr>fractionalSizeOfFirstSet = Float 0.5, shuffle = True, randomSeed = Some (- 1)\<rparr>
   \<and> split rotating \<lparr>fractionalSizeOfFirstSet = Float 0.5, shuffle = True, randomSeed = Some (- 1)\<rparr>
        0 example_data
      = Inl (ValueError ''Seed must be between 0 and 2**32 - 1'')"
proof -
  have d07: "double 0.7 = 6305039478318694 / 2 ^ 53" using double_0_7 by simp
  have init7: "DataSplitterFractional_init (Float 0.7) False (Some 42)
     = Inr \<lparr>fractionalSizeOfFirstSet = Float 0.7, shuffle = False, randomSeed = Some 42\<rparr>"
    using d07 by (simp add: DataSplitterFractional_init_def double_zero double_one)
  have seven: "double 7 = 7" using double_int [of 7] by simp
  have p7: "double (real 10 * (6305039478318694 / 2 ^ 53)) = 7"
    unfolding of_nat_numeral by (rule product_10_0_7)
  have "py_int (float_mult_int 10 (Float 0.7)) = Inr \<lfloor>7 :: real\<rfloor>"
    by (rule split_index_eval [OF _ d07 p7 seven]) simp_all
  then have i7: "py_int (float_mult_int 10 (Float 0.7)) = Inr 7" by simp
  have s7: "split rotating \<lparr>fractionalSizeOfFirstSet = Float 0.7, shuffle = False, randomSeed = Some 42\<rparr>
        0 ten_points
      = Inr (\<lparr>inputs = [0, 1, 2, 3, 4, 5, 6],
               outputs = [True, True, True, True, True, True, True]\<rparr>,
             \<lparr>inputs = [7, 8, 9], outputs = [True, True, True]\<rparr>)"
    using i7
    by (simp add: split_def ten_points_def slice_point_def rotating_def
        RandomState_def filterIndices_def take_positions_def InputOutputArrays_init_def upt_10)
  have f7: "\<lfloor>10 * double 0.7\<rfloor> = 6" unfolding d07 by simp
  have d058: "double 0.58 = 5224175567749775 / 2 ^ 53" using double_0_58 by simp
  have p50: "double (real 50 * (5224175567749775 / 2 ^ 53)) = 8162774324609023 / 2 ^ 48"
    unfolding of_nat_numeral by (rule product_50_0_58)
  have "py_int (float_mult_int 50 (Float 0.58)) = Inr \<lfloor>8162774324609023 / 2 ^ 48 :: real\<rfloor>"
    by (rule split_index_eval [OF _ d058 p50 double_product_50_0_58]) simp_all
  then have i50: "py_int (float_mult_int 50 (Float 0.58)) = Inr 28" by simp
  have f50: "\<lfloor>50 * 0.58 :: real\<rfloor> = 29" by simp
  have initn: "DataSplitterFractional_init (Float 0.5) True (Some (- 1))
       = Inr \<lparr>fractionalSizeOfFirstSet = Float 0.5, shuffle = True, randomSeed = Some (- 1)\<rparr>"
    using double_half by (simp add: DataSplitterFractional_init_def double_zero double_one)
  have sn: "split rotating \<lparr>fractionalSizeOfFirstSet = Float 0.5, shuffle = True, randomSeed = Some (- 1)\<rparr>
        0 example_data
      = Inl (ValueError ''Seed must be between 0 and 2**32 - 1'')"
    using split_index_3_half
    by (simp add: split_def example_data_def RandomState_def)
  show ?thesis by (intro conjI init7 s7 f7 i50 f50 initn sn)
qed

text \<open>
  C10 (as amended). The environment of a call is the entropy the operating system hands
  to \<open>RandomState(None)\<close>. For two splitters constructed with equal arguments whose seed
  is an integer (or whose \<open>shuffle\<close> is false), two calls of \<open>split\<close> on equal data
  return identical partitions, whatever the environment of each call.
\<close>

theorem split_deterministic:
  assumes "DataSplitterFractional_init f sh seed = Inr splitter1"
    and "DataSplitterFractional_init f sh seed = Inr splitter2"
    and "seed \<noteq> None \<or> \<not> sh"
  shows "split np splitter1 entropy1 data = split np splitter2 entropy2 data"
proof -
  from assms(1,2) have eq: "splitter2 = splitter1" by simp
  from assms(1) have fields: "randomSeed splitter1 = seed" "shuffle splitter1 = sh"
    by (auto simp: DataSplitterFractional_init_def split: if_splits)
  show ?thesis
  proof (cases "shuffle splitter1")
    case True
    with assms(3) fields obtain s where "randomSeed splitter1 = Some s" by auto
    then have "RandomState np (randomSeed splitter1) entropy1
             = RandomState np (randomSeed splitter1) entropy2"
      by (simp add: RandomState_def)
    then show ?thesis unfolding eq split_def Let_def by (simp only:)
  next
    case False
    show ?thesis
    proof (cases "accepted_seed (randomSeed splitter1)")
      case True
      from RandomState_accepted [OF True, of np entropy1]
        RandomState_accepted [OF True, of np entropy2]
      obtain r1 r2 where "RandomState np (randomSeed splitter1) entropy1 = Inr r1"
        "RandomState np (randomSeed splitter1) entropy2 = Inr r2" by blast
      then show ?thesis unfolding eq split_def Let_def using False
        by (auto split: sum.splits)
    next
      case refused: False
      from RandomState_refused [OF refused, of np entropy1]
        RandomState_refused [OF refused, of np entropy2]
      show ?thesis unfolding eq split_def Let_def by (auto split: sum.splits)
    qed
  qed
qed

theorem split_deterministic_witness:
  "DataSplitterFractional_init (Float 0.5) True (Some 42) = Inr seeded_splitter
   \<and> (Some 42 :: int option) \<noteq> None
   \<and> split rotating seeded_splitter 0 example_data = split rotating seeded_splitter 1 example_data
   \<and> split rotating seeded_splitter 0 example_data
      = Inr (\<lparr>inputs = [10], outputs = [True]\<rparr>, \<lparr>inputs = [20, 30], outputs = [False, True]\<rparr>)"
proof -
  have init: "DataSplitterFractional_init (Float 0.5) True (Some 42) = Inr seeded_splitter"
    using double_half
    by (simp add: DataSplitterFractional_init_def seeded_splitter_def double_zero double_one)
  have "(Some 42 :: int option) \<noteq> None \<or> \<not> True" by simp
  from split_deterministic [OF init init this, where np = rotating and ?entropy1.0 = 0 and ?entropy2.0 = 1 and data = example_data]
  have same: "split rotating seeded_splitter 0 example_data
            = split rotating seeded_splitter 1 example_data" .
  have val: "split rotating seeded_splitter 0 example_data
      = Inr (\<lparr>inputs = [10], outputs = [True]\<rparr>, \<lparr>inputs = [20, 30], outputs = [False, True]\<rparr>)"
    using split_index_3_half
    by (simp add: split_def example_data_def slice_point_def rotating_def
        RandomState_def filterIndices_def take_positions_def InputOutputArrays_init_def upt_3
        seeded_splitter_def)
  from init same val show ?thesis by simp
qed

text \<open>
  With \<open>randomSeed = None\<close> (which the constructor accepts and passes on) and shuffling,
  the generator starts from the entropy of the call, and two calls on the same data
  differ.
\<close>

theorem split_deterministic_counterexample:
  "DataSplitterFractional_init (Float 0.5) True None = Inr unseeded_splitter
   \<and> split rotating unseeded_splitter 0 example_data
      = Inr (\<lparr>inputs = [10], outputs = [True]\<rparr>, \<lparr>inputs = [20, 30], outputs = [False, True]\<rparr>)
   \<and> split rotating unseeded_splitter 1 example_data
      = Inr (\<lparr>inputs = [20], outputs = [False]\<rparr>, \<lparr>inputs = [30, 10], outputs = [True, True]\<rparr>)
   \<and> split rotating unseeded_splitter 0 example_data \<noteq> split rotating unseeded_splitter 1 example_data"
proof -
  have init: "DataSplitterFractional_init (Float 0.5) True None = Inr unseeded_splitter"
    using double_half
    by (simp add: DataSplitterFractional_init_def unseeded_splitter_def double_zero double_one)
  have v0: "split rotating unseeded_splitter 0 example_data
      = Inr (\<lparr>inputs = [10], outputs = [True]\<rparr>, \<lparr>inputs = [20, 30], outputs = [False, True]\<rparr>)"
    using split_index_3_half
    by (simp add: split_def example_data_def slice_point_def rotating_def
        RandomState_def filterIndices_def take_positions_def InputOutputArrays_init_def upt_3
        unseeded_splitter_def)
  have v1: "split rotating unseeded_splitter 1 example_data
      = Inr (\<lparr>inputs = [20], outputs = [False]\<rparr>, \<lparr>inputs = [30, 10], outputs = [True, True]\<rparr>)"
    using split_index_3_half
    by (simp add: split_def example_data_def slice_point_def rotating_def
        RandomState_def filterIndices_def take_positions_def InputOutputArrays_init_def upt_3
        unseeded_splitter_def)
  from init v0 v1 show ?thesis by simp
qed

section \<open>Global statistics of a collection\<close>

lemma zip_concat_map:
  assumes "\<forall>x \<in> set xs. length (f x) = length (g x)"
  shows "zip (concat (map f xs)) (concat (map g xs)) = concat (map (\<lambda>x. zip (f x) (g x)) xs)"
  using assms by (induction xs) simp_all

lemma length_filter_concat:
  "length (filter P (concat xss)) = sum_list (map (\<lambda>xs. length (filter P xs)) xss)"
  by (induction xss) simp_all

lemma getAccuracy_value:
  assumes "length (y_true es) = length (y_predicted es)"
  shows "getAccuracy ext es
       = Inr (np_divide (Float (real (correct_predictions es))) (length (y_true es)))"
  using assms
  by (simp add: getAccuracy_def computeMetricValue_def computeValue_def accuracy_score_def
      correct_predictions_def)

lemma correct_predictions_concat:
  assumes "\<forall>es \<in> set sl. length (y_true es) = length (y_predicted es)"
    and "y_true gs = concat (map y_true sl)" and "y_predicted gs = concat (map y_predicted sl)"
  shows "correct_predictions gs = sum_list (map correct_predictions sl)"
    and "length (y_true gs) = sum_list (map (\<lambda>es. length (y_true es)) sl)"
    and "length (y_true gs) = length (y_predicted gs)"
proof -
  show "correct_predictions gs = sum_list (map correct_predictions sl)"
    unfolding correct_predictions_def assms(2,3) zip_concat_map [OF assms(1)] length_filter_concat
    by (simp add: comp_def)
  show n: "length (y_true gs) = sum_list (map (\<lambda>es. length (y_true es)) sl)"
    unfolding assms(2) by (simp add: length_concat comp_def)
  have "sum_list (map (\<lambda>es. length (y_true es)) sl) = sum_list (map (\<lambda>es. length (y_predicted es)) sl)"
    using assms(1) by (induction sl) simp_all
  then show "length (y_true gs) = length (y_predicted gs)"
    unfolding n unfolding assms(3) by (simp add: length_concat comp_def)
qed

lemma weighted_mean_folds:
  assumes "\<forall>es \<in> set sl. y_true es \<noteq> []"
  shows "sum_list (map (\<lambda>wx. real (fst wx) * snd wx)
                     (map (\<lambda>es. (length (y_true es), fold_accuracy es)) sl))
       = real (sum_list (map correct_predictions sl))"
  using assms by (induction sl) (simp_all add: fold_accuracy_def)


lemma pd_concat_frames:
  "pd_concat (map y_predictedClassProbabilities sl) =
     (if frames_of sl = [] then Inl (External ''No objects to concatenate'')
      else Inr (concat_rows (frames_of sl)))"
  by (simp add: pd_concat_def frames_of_def comp_def)

lemma build_global_stats_value:
  "build_global_stats (es0 # rest) =
     (if y_predictedClassProbabilities es0 \<noteq> None
         \<and> nrows (concat_rows (frames_of (es0 # rest))) \<noteq> length (concat (map y_true (es0 # rest)))
      then Inl (ValueError ''Row count in class probabilities data frame does not match ground truth'')
      else Inr \<lparr>y_true = concat (map y_true (es0 # rest)),
                y_predicted = concat (map y_predicted (es0 # rest)),
                metrics = metrics es0,
                labels = (if y_predictedClassProbabilities es0 \<noteq> None
                          then columns (concat_rows (frames_of (es0 # rest))) else labels es0),
                y_predictedClassProbabilities =
                  (if y_predictedClassProbabilities es0 \<noteq> None
                   then Some (concat_rows (frames_of (es0 # rest))) else None),
                probabilitiesAvailable = (y_predictedClassProbabilities es0 \<noteq> None),
                binaryPositiveLabel = binaryPositiveLabel es0,
                isBinary = (binaryPositiveLabel es0 \<noteq> None)\<rparr>)"
proof (cases "y_predictedClassProbabilities es0")
  case None
  then show ?thesis
    by (simp add: build_global_stats_def np_concatenate_def ClassificationEvalStats_init_def
        Let_def PredictionEvalStats_init_def)
next
  case (Some df)
  then have ne: "frames_of (es0 # rest) \<noteq> []"
    by (simp add: frames_of_def)
  have pc: "pd_concat (map y_predictedClassProbabilities (es0 # rest))
          = Inr (concat_rows (frames_of (es0 # rest)))"
    using ne by (simp only: pd_concat_frames if_False)
  have np: "np_concatenate (map y_true (es0 # rest)) = Inr (concat (map y_true (es0 # rest)))"
    "np_concatenate (map y_predicted (es0 # rest)) = Inr (concat (map y_predicted (es0 # rest)))"
    by (simp_all add: np_concatenate_def)
  show ?thesis
    unfolding build_global_stats_def np sum.case list.case pc
    using Some
    by (simp add: ClassificationEvalStats_init_def Let_def PredictionEvalStats_init_def)
qed

lemma build_global_stats_empty: "\<exists>e. build_global_stats [] = Inl e"
  by (simp add: build_global_stats_def np_concatenate_def)


lemma getGlobalStats_fresh:
  assumes "globalStats coll = None"
  shows "getGlobalStats coll =
     (case build_global_stats (statsList coll) of
        Inl e \<Rightarrow> Inl e
      | Inr gs \<Rightarrow> Inr (gs, coll\<lparr>globalStats := Some gs\<rparr>))"
  using assms by (simp add: getGlobalStats_def)

lemma global_accuracy:
  assumes len: "\<forall>es \<in> set sl. length (y_true es) = length (y_predicted es)"
    and yt: "y_true gs = concat (map y_true sl)"
    and yp: "y_predicted gs = concat (map y_predicted sl)"
  shows "getAccuracy ext gs
       = Inr (np_divide (Float (real (sum_list (map correct_predictions sl))))
                (sum_list (map (\<lambda>es. length (y_true es)) sl)))"
  using getAccuracy_value [OF correct_predictions_concat(3) [OF len yt yp], of ext]
  unfolding correct_predictions_concat(1) [OF len yt yp] correct_predictions_concat(2) [OF len yt yp] .

lemma total_positive:
  assumes "sl \<noteq> []" and "\<forall>es \<in> set sl. y_true es \<noteq> []"
  shows "0 < sum_list (map (\<lambda>es. length (y_true es)) sl)"
  using assms by (cases sl) auto

text \<open>
  C6. On a collection that has not yet stored its global statistics, \<open>getGlobalStats\<close>
  returns an object when the list is not empty and, if the first element has
  probabilities, the concatenated frame has as many rows as there are true labels. The
  object it returns has the \<open>y_true\<close> and \<open>y_predicted\<close> arrays of the elements
  concatenated in list order, the class-probability frames concatenated in list order
  when the first element has probabilities (none otherwise), and the
  \<open>binaryPositiveLabel\<close> and \<open>metrics\<close> of the first element. When every element has as
  many predictions as true labels, its accuracy is the total number of correct predictions
  divided by the total number of samples (NaN for no samples); when in addition no
  element is empty, that is the mean of the elements' accuracies weighted by their
  numbers of samples.
\<close>

theorem global_stats:
  assumes "globalStats coll = None"
  shows
  "(statsList coll \<noteq> []
      \<and> (y_predictedClassProbabilities (hd (statsList coll)) = None
         \<or> nrows (concat_rows (frames_of (statsList coll)))
             = length (concat (map y_true (statsList coll))))
     \<longrightarrow> (\<exists>gs coll'. getGlobalStats coll = Inr (gs, coll')))
   \<and> (\<forall>gs coll'. getGlobalStats coll = Inr (gs, coll') \<longrightarrow>
        statsList coll \<noteq> []
      \<and> coll' = coll\<lparr>globalStats := Some gs\<rparr>
      \<and> y_true gs = concat (map y_true (statsList coll))
      \<and> y_predicted gs = concat (map y_predicted (statsList coll))
      \<and> y_predictedClassProbabilities gs
          = (if y_predictedClassProbabilities (hd (statsList coll)) \<noteq> None
             then Some (concat_rows (frames_of (statsList coll))) else None)
      \<and> binaryPositiveLabel gs = binaryPositiveLabel (hd (statsList coll))
      \<and> metrics gs = metrics (hd (statsList coll))
      \<and> ((\<forall>es \<in> set (statsList coll). length (y_true es) = length (y_predicted es)) \<longrightarrow>
            getAccuracy ext gs
              = Inr (np_divide (Float (real (sum_list (map correct_predictions (statsList coll)))))
                       (sum_list (map (\<lambda>es. length (y_true es)) (statsList coll))))
          \<and> ((\<forall>es \<in> set (statsList coll). y_true es \<noteq> []) \<longrightarrow>
                (\<forall>es \<in> set (statsList coll). getAccuracy ext es = Inr (Float (fold_accuracy es)))
              \<and> getAccuracy ext gs
                  = Inr (Float (real (sum_list (map correct_predictions (statsList coll)))
                                / real (sum_list (map (\<lambda>es. length (y_true es)) (statsList coll)))))
              \<and> getAccuracy ext gs
                  = Inr (Float (weighted_mean
                      (map (\<lambda>es. (length (y_true es), fold_accuracy es)) (statsList coll)))))))"
proof (cases "statsList coll")
  case Nil
  from build_global_stats_empty obtain e where "build_global_stats [] = Inl e" by blast
  with Nil have "getGlobalStats coll = Inl e"
    by (simp add: getGlobalStats_fresh [OF assms])
  with Nil show ?thesis by simp
next
  case (Cons es0 rest)
  let ?sl = "statsList coll"
  let ?gs = "\<lparr>y_true = concat (map y_true (es0 # rest)),
                y_predicted = concat (map y_predicted (es0 # rest)),
                metrics = metrics es0,
                labels = (if y_predictedClassProbabilities es0 \<noteq> None
                          then columns (concat_rows (frames_of (es0 # rest))) else labels es0),
                y_predictedClassProbabilities =
                  (if y_predictedClassProbabilities es0 \<noteq> None
                   then Some (concat_rows (frames_of (es0 # rest))) else None),
                probabilitiesAvailable = (y_predictedClassProbabilities es0 \<noteq> None),
                binaryPositiveLabel = binaryPositiveLabel es0,
                isBinary = (binaryPositiveLabel es0 \<noteq> None)\<rparr>"
  have hd: "hd ?sl = es0" and ne: "?sl \<noteq> []" using Cons by simp_all
  have returns: "\<exists>gs coll'. getGlobalStats coll = Inr (gs, coll')"
    if "y_predictedClassProbabilities (hd ?sl) = None
         \<or> nrows (concat_rows (frames_of ?sl)) = length (concat (map y_true ?sl))"
  proof -
    from that have "build_global_stats (es0 # rest) = Inr ?gs"
      unfolding build_global_stats_value hd Cons by auto
    then show ?thesis
      unfolding getGlobalStats_fresh [OF assms] Cons by simp
  qed
  have result: "statsList coll \<noteq> []
      \<and> coll' = coll\<lparr>globalStats := Some gs\<rparr>
      \<and> y_true gs = concat (map y_true (statsList coll))
      \<and> y_predicted gs = concat (map y_predicted (statsList coll))
      \<and> y_predictedClassProbabilities gs
          = (if y_predictedClassProbabilities (hd (statsList coll)) \<noteq> None
             then Some (concat_rows (frames_of (statsList coll))) else None)
      \<and> binaryPositiveLabel gs = binaryPositiveLabel (hd (statsList coll))
      \<and> metrics gs = metrics (hd (statsList coll))
      \<and> ((\<forall>es \<in> set (statsList coll). length (y_true es) = length (y_predicted es)) \<longrightarrow>
            getAccuracy ext gs
              = Inr (np_divide (Float (real (sum_list (map correct_predictions (statsList coll)))))
                       (sum_list (map (\<lambda>es. length (y_true es)) (statsList coll))))
          \<and> ((\<forall>es \<in> set (statsList coll). y_true es \<noteq> []) \<longrightarrow>
                (\<forall>es \<in> set (statsList coll). getAccuracy ext es = Inr (Float (fold_accuracy es)))
              \<and> getAccuracy ext gs
                  = Inr (Float (real (sum_list (map correct_predictions (statsList coll)))
                                / real (sum_list (map (\<lambda>es. length (y_true es)) (statsList coll)))))
              \<and> getAccuracy ext gs
                  = Inr (Float (weighted_mean
                      (map (\<lambda>es. (length (y_true es), fold_accuracy es)) (statsList coll))))))"
    if g: "getGlobalStats coll = Inr (gs, coll')" for gs coll'
  proof -
    from g have b: "build_global_stats (es0 # rest) = Inr gs"
      and c: "coll' = coll\<lparr>globalStats := Some gs\<rparr>"
      unfolding getGlobalStats_fresh [OF assms] Cons by (auto split: sum.splits)
    from b have gs: "gs = ?gs"
      unfolding build_global_stats_value by (auto split: if_splits)
    have yt: "y_true gs = concat (map y_true ?sl)"
      and yp: "y_predicted gs = concat (map y_predicted ?sl)"
      and pr: "y_predictedClassProbabilities gs
          = (if y_predictedClassProbabilities (hd ?sl) \<noteq> None
             then Some (concat_rows (frames_of ?sl)) else None)"
      and bp: "binaryPositiveLabel gs = binaryPositiveLabel (hd ?sl)"
      and ms: "metrics gs = metrics (hd ?sl)"
      unfolding gs hd unfolding Cons by simp_all
    have acc: "getAccuracy ext gs
              = Inr (np_divide (Float (real (sum_list (map correct_predictions ?sl))))
                       (sum_list (map (\<lambda>es. length (y_true es)) ?sl)))"
      if len: "\<forall>es \<in> set ?sl. length (y_true es) = length (y_predicted es)"
      by (rule global_accuracy [OF len yt yp])
    have folds: "(\<forall>es \<in> set ?sl. getAccuracy ext es = Inr (Float (fold_accuracy es)))
              \<and> getAccuracy ext gs
                  = Inr (Float (real (sum_list (map correct_predictions ?sl))
                                / real (sum_list (map (\<lambda>es. length (y_true es)) ?sl))))
              \<and> getAccuracy ext gs
                  = Inr (Float (weighted_mean
                      (map (\<lambda>es. (length (y_true es), fold_accuracy es)) ?sl)))"
      if len: "\<forall>es \<in> set ?sl. length (y_true es) = length (y_predicted es)"
        and nonempty: "\<forall>es \<in> set ?sl. y_true es \<noteq> []"
    proof -
      have 1: "\<forall>es \<in> set ?sl. getAccuracy ext es = Inr (Float (fold_accuracy es))"
      proof
        fix es assume es: "es \<in> set ?sl"
        from es len have l: "length (y_true es) = length (y_predicted es)" by blast
        from es nonempty have "y_true es \<noteq> []" by blast
        then have "length (y_true es) \<noteq> 0" by simp
        with l show "getAccuracy ext es = Inr (Float (fold_accuracy es))"
          by (simp add: getAccuracy_value fold_accuracy_def)
      qed
      from total_positive [OF ne nonempty]
      have pos: "sum_list (map (\<lambda>es. length (y_true es)) ?sl) \<noteq> 0" by linarith
      have 2: "getAccuracy ext gs
                  = Inr (Float (real (sum_list (map correct_predictions ?sl))
                                / real (sum_list (map (\<lambda>es. length (y_true es)) ?sl))))"
        unfolding acc [OF len] using pos by simp
      have "weighted_mean (map (\<lambda>es. (length (y_true es), fold_accuracy es)) ?sl)
          = real (sum_list (map correct_predictions ?sl))
            / real (sum_list (map (\<lambda>es. length (y_true es)) ?sl))"
        unfolding weighted_mean_def weighted_mean_folds [OF nonempty]
        by (simp add: comp_def)
      with 2 have 3: "getAccuracy ext gs
                  = Inr (Float (weighted_mean
                      (map (\<lambda>es. (length (y_true es), fold_accuracy es)) ?sl)))"
        by simp
      from 1 2 3 show ?thesis by blast
    qed
    from ne c yt yp pr bp ms acc folds show ?thesis by blast
  qed
  from returns result ne show ?thesis by blast
qed


lemma two_folds_frame:
  "concat_rows (frames_of (statsList two_folds))
     = \<lparr>nrows = 5,
        series = [(PyInt 0, [Float 0.8, Float 0.3, Float 0.5, Float 0.1, Float 0.9]),
                  (PyInt 1, [Float 0.2, Float 0.7, Float 0.5, Float 0.9, Float 0.1])]\<rparr>"
  by (simp add: two_folds_def ClassificationEvalStatsCollection_init_def frames_of_def
      concat_rows_def example_stats_def second_fold_def example_frame_def second_frame_def
      columns_def column_or_nan_def getitem_def py_eq_def)

theorem global_stats_witness:
  "globalStats two_folds = None
   \<and> (\<exists>gs coll'. getGlobalStats two_folds = Inr (gs, coll')
        \<and> globalStats coll' = Some gs
        \<and> y_true gs = [PyInt 0, PyInt 1, PyInt 1, PyInt 1, PyInt 0]
        \<and> y_predicted gs = [PyInt 0, PyInt 1, PyInt 0, PyInt 1, PyInt 0]
        \<and> y_predictedClassProbabilities gs
            = Some \<lparr>nrows = 5,
                    series = [(PyInt 0, [Float 0.8, Float 0.3, Float 0.5, Float 0.1, Float 0.9]),
                              (PyInt 1, [Float 0.2, Float 0.7, Float 0.5, Float 0.9, Float 0.1])]\<rparr>
        \<and> binaryPositiveLabel gs = Some (PyInt 1)
        \<and> metrics gs = default_metrics (Some (PyInt 1))
        \<and> getAccuracy unavailable example_stats = Inr (Float (2 / 3))
        \<and> getAccuracy unavailable second_fold = Inr (Float 1)
        \<and> getAccuracy unavailable gs = Inr (Float (4 / 5))
        \<and> weighted_mean [(3, 2 / 3), (2, 1)] = 4 / 5)"
proof -
  let ?sl = "statsList two_folds"
  have fresh: "globalStats two_folds = None"
    by (simp add: two_folds_def ClassificationEvalStatsCollection_init_def)
  have sl: "?sl = [example_stats, second_fold]"
    by (simp add: two_folds_def ClassificationEvalStatsCollection_init_def)
  note t = global_stats [OF fresh, of unavailable]
  have rows: "nrows (concat_rows (frames_of ?sl)) = length (concat (map y_true ?sl))"
    unfolding two_folds_frame unfolding sl by (simp add: example_stats_def second_fold_def)
  have "?sl \<noteq> []" unfolding sl by simp
  with t rows obtain gs coll' where g: "getGlobalStats two_folds = Inr (gs, coll')"
    by blast
  have len: "\<forall>es \<in> set ?sl. length (y_true es) = length (y_predicted es)"
    unfolding sl by (simp add: example_stats_def second_fold_def)
  have nonempty: "\<forall>es \<in> set ?sl. y_true es \<noteq> []"
    unfolding sl by (simp add: example_stats_def second_fold_def)
  from t g have c: "coll' = two_folds\<lparr>globalStats := Some gs\<rparr>"
    and yt: "y_true gs = concat (map y_true ?sl)"
    and yp: "y_predicted gs = concat (map y_predicted ?sl)"
    and pr: "y_predictedClassProbabilities gs
          = (if y_predictedClassProbabilities (hd ?sl) \<noteq> None
             then Some (concat_rows (frames_of ?sl)) else None)"
    and bp: "binaryPositiveLabel gs = binaryPositiveLabel (hd ?sl)"
    and ms: "metrics gs = metrics (hd ?sl)"
    by blast+
  from t g len nonempty have
    folds: "\<forall>es \<in> set ?sl. getAccuracy unavailable es = Inr (Float (fold_accuracy es))"
    and acc: "getAccuracy unavailable gs
                  = Inr (Float (real (sum_list (map correct_predictions ?sl))
                                / real (sum_list (map (\<lambda>es. length (y_true es)) ?sl))))"
    and wm: "getAccuracy unavailable gs
                  = Inr (Float (weighted_mean
                      (map (\<lambda>es. (length (y_true es), fold_accuracy es)) ?sl)))"
    by blast+
  have cp: "correct_predictions example_stats = 2" "correct_predictions second_fold = 2"
    by (simp_all add: correct_predictions_def example_stats_def second_fold_def py_eq_def)
  have ln: "length (y_true example_stats) = 3" "length (y_true second_fold) = 2"
    by (simp_all add: example_stats_def second_fold_def)
  have fa: "fold_accuracy example_stats = 2 / 3" "fold_accuracy second_fold = 1"
    unfolding fold_accuracy_def cp ln by simp_all
  have 1: "globalStats coll' = Some gs" unfolding c by simp
  have 2: "y_true gs = [PyInt 0, PyInt 1, PyInt 1, PyInt 1, PyInt 0]"
    unfolding yt sl by (simp add: example_stats_def second_fold_def)
  have 3: "y_predicted gs = [PyInt 0, PyInt 1, PyInt 0, PyInt 1, PyInt 0]"
    unfolding yp sl by (simp add: example_stats_def second_fold_def)
  have 4: "y_predictedClassProbabilities gs
            = Some \<lparr>nrows = 5,
                    series = [(PyInt 0, [Float 0.8, Float 0.3, Float 0.5, Float 0.1, Float 0.9]),
                              (PyInt 1, [Float 0.2, Float 0.7, Float 0.5, Float 0.9, Float 0.1])]\<rparr>"
    unfolding pr two_folds_frame unfolding sl by (simp add: example_stats_def)
  have 5: "binaryPositiveLabel gs = Some (PyInt 1)"
    unfolding bp sl by (simp add: example_stats_def)
  have 6: "metrics gs = default_metrics (Some (PyInt 1))"
    unfolding ms sl by (simp add: example_stats_def)
  from folds have 7: "getAccuracy unavailable example_stats = Inr (Float (2 / 3))"
    and 8: "getAccuracy unavailable second_fold = Inr (Float 1)"
    unfolding sl by (simp_all add: fa)
  have 9: "getAccuracy unavailable gs = Inr (Float (4 / 5))"
    unfolding acc unfolding sl by (simp add: cp ln)
  have 10: "weighted_mean [(3, 2 / 3), (2, 1)] = 4 / 5"
    by (simp add: weighted_mean_def)
  from fresh g 1 2 3 4 5 6 7 8 9 10 show ?thesis by blast
qed

section \<open>Mean results without NaN\<close>

lemma dropna_columns_kept:
  "numeric_columns (dropna_columns fr) = columns_without_nan fr"
proof -
  have "\<And>vs. (\<not> list_ex isnan vs) = (\<forall>v \<in> set vs. v \<noteq> NaN)"
  proof -
    fix vs
    have "\<And>v. isnan v = (v = NaN)" by (case_tac v) simp_all
    then show "(\<not> list_ex isnan vs) = (\<forall>v \<in> set vs. v \<noteq> NaN)"
      by (auto simp: list_ex_iff)
  qed
  then show ?thesis
    by (simp add: dropna_columns_def columns_without_nan_def)
qed

lemma numbers_all:
  assumes "\<forall>v \<in> set vs. v \<noteq> NaN"
  shows "map Float (numbers vs) = vs"
  using assms
proof (induction vs)
  case Nil
  show ?case by (simp add: numbers_def)
next
  case (Cons v vs)
  then obtain x where "v = Float x" by (cases v) auto
  with Cons show ?case by (simp add: numbers_def)
qed

lemma group_values_subset: "set (group_values names vs m) \<subseteq> set vs"
  by (auto simp: group_values_def dest: set_zip_rightD)

lemma group_values_nonempty:
  assumes "m \<in> set names" and "length vs = length names"
  shows "group_values names vs m \<noteq> []"
proof -
  from assms(1) obtain i where i: "i < length names" "names ! i = m"
    by (auto simp: in_set_conv_nth)
  with assms(2) have "(m, vs ! i) \<in> set (zip names vs)"
    by (auto simp: set_zip)
  then have "(m, vs ! i) \<in> set (filter (\<lambda>nv. fst nv = m) (zip names vs))"
    by simp
  then have "filter (\<lambda>nv. fst nv = m) (zip names vs) \<noteq> []"
    by (metis empty_iff empty_set)
  then show ?thesis
    unfolding group_values_def by simp
qed

lemma pd_mean_group:
  assumes kept: "\<forall>v \<in> set vs. v \<noteq> NaN" and m: "m \<in> set names"
    and len: "length vs = length names"
  shows "map Float (numbers (group_values names vs m)) = group_values names vs m"
    and "group_values names vs m \<noteq> []"
    and "pd_mean (group_values names vs m)
       = Float (arithmetic_mean (numbers (group_values names vs m)))"
proof -
  from kept group_values_subset [of names vs m]
  have "\<forall>v \<in> set (group_values names vs m). v \<noteq> NaN" by blast
  from numbers_all [OF this]
  show all: "map Float (numbers (group_values names vs m)) = group_values names vs m" .
  show ne: "group_values names vs m \<noteq> []"
    by (rule group_values_nonempty [OF m len])
  from all ne have "numbers (group_values names vs m) \<noteq> []" by auto
  then show "pd_mean (group_values names vs m)
       = Float (arithmetic_mean (numbers (group_values names vs m)))"
    by (simp add: pd_mean_def arithmetic_mean_def)
qed

lemma meanResultsDF_rows:
  "\<exists>mean. meanResultsDF (Some fr) ranking rankMax = Inr mean
     \<and> mean_columns mean = mean_columns (groupby_mean (dropna_columns fr))
     \<and> set (mean_rows mean) = set (mean_rows (groupby_mean (dropna_columns fr)))"
  by (cases ranking) (simp_all add: meanResultsDF_def Let_def sort_values_def)

lemma groupby_mean_rows:
  assumes wf: "wellformed_results fr"
    and row: "row \<in> set (mean_rows (groupby_mean (dropna_columns fr)))"
  shows "fst row \<in> set (modelNames fr)"
    and "snd row = map (\<lambda>cv. Float (arithmetic_mean
                      (numbers (group_values (modelNames fr) (snd cv) (fst row)))))
                   (columns_without_nan fr)"
proof -
  have names: "modelNames (dropna_columns fr) = modelNames fr"
    by (simp add: dropna_columns_def)
  from row obtain m where m: "m \<in> set (modelNames fr)"
    and r: "row = (m, map (\<lambda>cv. pd_mean (group_values (modelNames fr) (snd cv) m))
                        (columns_without_nan fr))"
    by (auto simp: groupby_mean_def names dropna_columns_kept)
  from m r show "fst row \<in> set (modelNames fr)" by simp
  have "map (\<lambda>cv. pd_mean (group_values (modelNames fr) (snd cv) m)) (columns_without_nan fr)
      = map (\<lambda>cv. Float (arithmetic_mean (numbers (group_values (modelNames fr) (snd cv) m))))
          (columns_without_nan fr)"
  proof (rule map_cong [OF refl])
    fix cv assume cv: "cv \<in> set (columns_without_nan fr)"
    then have kept: "\<forall>v \<in> set (snd cv). v \<noteq> NaN" and "cv \<in> set (numeric_columns fr)"
      by (simp_all add: columns_without_nan_def)
    with wf have len: "length (snd cv) = length (modelNames fr)"
      by (simp add: wellformed_results_def list_all_iff)
    from pd_mean_group(3) [OF kept m len]
    show "pd_mean (group_values (modelNames fr) (snd cv) m)
        = Float (arithmetic_mean (numbers (group_values (modelNames fr) (snd cv) m)))" .
  qed
  with r show "snd row = map (\<lambda>cv. Float (arithmetic_mean
                      (numbers (group_values (modelNames fr) (snd cv) (fst row)))))
                   (columns_without_nan fr)"
    by simp
qed

text \<open>
  C5. In \<open>MultiDataEvaluationUtil.compareModels\<close>, on a frame of results (whose columns
  have one value for every row), the mean results are computed after dropping every
  column that contains a NaN in some (model, data set) row: their columns are the columns
  without NaN, there is one row for every model name, no entry is NaN, and every entry
  is the arithmetic mean of all the values of that model in that column, of which there
  is at least one and none was skipped.
\<close>

theorem mean_results:
  assumes "wellformed_results allResults"
  shows "\<exists>mean. meanResultsDF (Some allResults) ranking rankMax = Inr mean
    \<and> mean_columns mean = map fst (columns_without_nan allResults)
    \<and> fst ` set (mean_rows mean) = set (modelNames allResults)
    \<and> (\<forall>row \<in> set (mean_rows mean).
          (\<forall>v \<in> set (snd row). v \<noteq> NaN)
        \<and> snd row = map (\<lambda>cv. Float (arithmetic_mean
                         (numbers (group_values (modelNames allResults) (snd cv) (fst row)))))
                      (columns_without_nan allResults)
        \<and> (\<forall>cv \<in> set (columns_without_nan allResults).
              group_values (modelNames allResults) (snd cv) (fst row) \<noteq> []
            \<and> map Float (numbers (group_values (modelNames allResults) (snd cv) (fst row)))
                = group_values (modelNames allResults) (snd cv) (fst row)))"
proof -
  let ?g = "groupby_mean (dropna_columns allResults)"
  from meanResultsDF_rows [of allResults ranking rankMax] obtain mean where
    m: "meanResultsDF (Some allResults) ranking rankMax = Inr mean"
    and cols: "mean_columns mean = mean_columns ?g"
    and rows: "set (mean_rows mean) = set (mean_rows ?g)"
    by blast
  have 1: "mean_columns mean = map fst (columns_without_nan allResults)"
    unfolding cols by (simp add: groupby_mean_def dropna_columns_kept)
  have 2: "fst ` set (mean_rows mean) = set (modelNames allResults)"
    unfolding rows by (simp add: groupby_mean_def dropna_columns_def image_image)
  have 3: "\<forall>row \<in> set (mean_rows mean).
          (\<forall>v \<in> set (snd row). v \<noteq> NaN)
        \<and> snd row = map (\<lambda>cv. Float (arithmetic_mean
                         (numbers (group_values (modelNames allResults) (snd cv) (fst row)))))
                      (columns_without_nan allResults)
        \<and> (\<forall>cv \<in> set (columns_without_nan allResults).
              group_values (modelNames allResults) (snd cv) (fst row) \<noteq> []
            \<and> map Float (numbers (group_values (modelNames allResults) (snd cv) (fst row)))
                = group_values (modelNames allResults) (snd cv) (fst row))"
  proof
    fix row assume "row \<in> set (mean_rows mean)"
    then have r: "row \<in> set (mean_rows ?g)" unfolding rows .
    note g = groupby_mean_rows [OF assms r]
    have a: "\<forall>v \<in> set (snd row). v \<noteq> NaN"
      unfolding g(2) by auto
    have c: "\<forall>cv \<in> set (columns_without_nan allResults).
              group_values (modelNames allResults) (snd cv) (fst row) \<noteq> []
            \<and> map Float (numbers (group_values (modelNames allResults) (snd cv) (fst row)))
                = group_values (modelNames allResults) (snd cv) (fst row)"
    proof
      fix cv assume cv: "cv \<in> set (columns_without_nan allResults)"
      then have kept: "\<forall>v \<in> set (snd cv). v \<noteq> NaN" and "cv \<in> set (numeric_columns allResults)"
        by (simp_all add: columns_without_nan_def)
      with assms have len: "length (snd cv) = length (modelNames allResults)"
        by (simp add: wellformed_results_def list_all_iff)
      from pd_mean_group(1,2) [OF kept g(1) len]
      show "group_values (modelNames allResults) (snd cv) (fst row) \<noteq> []
            \<and> map Float (numbers (group_values (modelNames allResults) (snd cv) (fst row)))
                = group_values (modelNames allResults) (snd cv) (fst row)"
        by simp
    qed
    from a g(2) c show "(\<forall>v \<in> set (snd row). v \<noteq> NaN)
        \<and> snd row = map (\<lambda>cv. Float (arithmetic_mean
                         (numbers (group_values (modelNames allResults) (snd cv) (fst row)))))
                      (columns_without_nan allResults)
        \<and> (\<forall>cv \<in> set (columns_without_nan allResults).
              group_values (modelNames allResults) (snd cv) (fst row) \<noteq> []
            \<and> map Float (numbers (group_values (modelNames allResults) (snd cv) (fst row)))
                = group_values (modelNames allResults) (snd cv) (fst row))"
      by blast
  qed
  from m 1 2 3 show ?thesis by blast
qed


lemma example_mean:
  "meanResultsDF (Some example_results) (Some ''accuracy'') True
     = Inr \<lparr>mean_columns = [''accuracy''],
            mean_rows = [(''A'', [Float 0.85]), (''B'', [Float 0.65])]\<rparr>"
proof -
  let ?mean = "\<lparr>mean_columns = [''accuracy''],
            mean_rows = [(''A'', [Float 0.85]), (''B'', [Float 0.65])]\<rparr>"
  have d: "dropna_columns example_results
      = \<lparr>modelNames = [''A'', ''B'', ''A'', ''B''],
         numeric_columns = [(''accuracy'', [Float 0.8, Float 0.6, Float 0.9, Float 0.7])]\<rparr>"
    by (simp add: dropna_columns_def example_results_def)
  have s: "sort (remdups [''A'', ''B'', ''A'', ''B'']) = [''A'', ''B'']"
    by simp
  have gv: "\<And>a b c d. group_values [''A'', ''B'', ''A'', ''B''] [a, b, c, d] ''A'' = [a, c]"
    "\<And>a b c d. group_values [''A'', ''B'', ''A'', ''B''] [a, b, c, d] ''B'' = [b, d]"
    by (simp_all add: group_values_def)
  have pm: "\<And>a b. pd_mean [Float a, Float b] = Float ((a + b) / 2)"
    by (simp add: pd_mean_def numbers_def)
  have g: "groupby_mean (dropna_columns example_results) = ?mean"
    unfolding d by (simp add: groupby_mean_def s gv pm)
  have k: "\<And>m x. ranking_key [''accuracy''] ''accuracy'' False (m, [Float x]) = - x"
    by (simp add: ranking_key_def)
  show ?thesis
    by (simp add: meanResultsDF_def Let_def g sort_values_def k)
qed

theorem mean_results_witness:
  "wellformed_results example_results
   \<and> map fst (columns_without_nan example_results) = [''accuracy'']
   \<and> meanResultsDF (Some example_results) (Some ''accuracy'') True
       = Inr \<lparr>mean_columns = [''accuracy''],
              mean_rows = [(''A'', [Float 0.85]), (''B'', [Float 0.65])]\<rparr>
   \<and> arithmetic_mean [0.8, 0.9] = 0.85
   \<and> (\<exists>mean. meanResultsDF (Some example_results) (Some ''accuracy'') True = Inr mean
        \<and> mean_columns mean = [''accuracy'']
        \<and> fst ` set (mean_rows mean) = {''A'', ''B''})"
proof -
  have wf: "wellformed_results example_results"
    by (simp add: wellformed_results_def example_results_def)
  have kept: "map fst (columns_without_nan example_results) = [''accuracy'']"
    by (simp add: columns_without_nan_def example_results_def)
  from mean_results [OF wf, of "Some ''accuracy''" True] obtain mean where
    m: "meanResultsDF (Some example_results) (Some ''accuracy'') True = Inr mean"
    and c: "mean_columns mean = map fst (columns_without_nan example_results)"
    and r: "fst ` set (mean_rows mean) = set (modelNames example_results)"
    by blast
  have "set (modelNames example_results) = {''A'', ''B''}"
    by (auto simp: example_results_def)
  with m c r kept have ex: "\<exists>mean. meanResultsDF (Some example_results) (Some ''accuracy'') True = Inr mean
        \<and> mean_columns mean = [''accuracy'']
        \<and> fst ` set (mean_rows mean) = {''A'', ''B''}"
    by auto
  have am: "arithmetic_mean [0.8, 0.9] = 0.85"
    by (simp add: arithmetic_mean_def)
  from wf kept example_mean am ex show ?thesis by blast
qed

end
